theory Spec2Isabelle
  imports Complex_Main
begin

section \<open>Numbers\<close>

text \<open>
  JavaScript numbers are IEEE doubles. The generator state, seeds and counters are
  modelled as \<^typ>\<open>int\<close> (the linear congruential step stays below \<open>2 ^ 53\<close> for a state
  in \<open>[0, 2 ^ 32)\<close>, so the doubles hold it exactly; this is part of the range theorem
  below). All other quantities are modelled as mathematical reals: rounding, NaN and the
  infinities are outside the model.
\<close>

definition js_rem :: "int \<Rightarrow> int \<Rightarrow> int" where
  \<comment> \<open>JavaScript \<open>a % b\<close> on integral values: the result has the sign of the dividend.\<close>
  "js_rem a b = sgn a * (\<bar>a\<bar> mod \<bar>b\<bar>)"

definition clamp :: "real \<Rightarrow> real \<Rightarrow> real \<Rightarrow> real" where
  \<comment> \<open>\<open>Math.min(Math.max(value, min), max)\<close>\<close>
  "clamp v lo hi = min (max v lo) hi"

section \<open>Seeded generator (js/prng.js)\<close>

record prngState =
  seed :: int
  state :: int

definition initPRNG :: "int \<Rightarrow> prngState \<Rightarrow> prngState" where
  "initPRNG s p = p\<lparr>seed := s, state := s\<rparr>"

definition lcg_next :: "int \<Rightarrow> int" where
  \<comment> \<open>\<open>(prngState.state * 1664525 + 1013904223) % 4294967296\<close>\<close>
  "lcg_next s = js_rem (s * 1664525 + 1013904223) 4294967296"

definition random :: "prngState \<Rightarrow> real \<times> prngState" where
  \<comment> \<open>\<open>random()\<close>: advance the state, return \<open>state / 4294967296\<close>.\<close>
  "random p = (let s' = lcg_next (state p) in (real_of_int s' / 4294967296, p\<lparr>state := s'\<rparr>))"

definition random1 :: "real \<Rightarrow> prngState \<Rightarrow> real \<times> prngState" where
  \<comment> \<open>\<open>random(max)\<close>: the overload with one argument, \<open>r * min\<close> in the source's names.\<close>
  "random1 mx p = (let (r, p') = random p in (r * mx, p'))"

definition random2 :: "real \<Rightarrow> real \<Rightarrow> prngState \<Rightarrow> real \<times> prngState" where
  \<comment> \<open>\<open>random(min, max)\<close>: \<open>r * (max - min) + min\<close>.\<close>
  "random2 mn mx p = (let (r, p') = random p in (r * (mx - mn) + mn, p'))"

definition randomInt :: "int \<Rightarrow> int \<Rightarrow> prngState \<Rightarrow> int \<times> prngState" where
  \<comment> \<open>\<open>Math.floor(random() * (max - min + 1)) + min\<close>\<close>
  "randomInt mn mx p = (let (r, p') = random p in (\<lfloor>r * real_of_int (mx - mn + 1)\<rfloor> + mn, p'))"

fun draws :: "nat \<Rightarrow> prngState \<Rightarrow> real list \<times> prngState" where
  \<comment> \<open>\<open>n\<close> successive calls of \<open>random()\<close>: the values returned, in order, and the final state.\<close>
  "draws 0 p = ([], p)"
| "draws (Suc n) p = (let (r, p') = random p; (rs, p'') = draws n p' in (r # rs, p''))"

definition state_ok :: "prngState \<Rightarrow> bool" where
  "state_ok p \<longleftrightarrow> 0 \<le> state p \<and> state p < 4294967296"

definition js_or :: "real \<Rightarrow> real \<Rightarrow> real" where
  \<comment> \<open>\<open>x || d\<close> on a number: \<open>0\<close> is falsy.\<close>
  "js_or x d = (if x = 0 then d else x)"

definition js_or_opt :: "real option \<Rightarrow> real \<Rightarrow> real" where
  \<comment> \<open>\<open>obj.field || d\<close> where the field may be absent (\<open>undefined\<close> is falsy).\<close>
  "js_or_opt x d = (case x of None \<Rightarrow> d | Some v \<Rightarrow> js_or v d)"

definition js_frac :: "real \<Rightarrow> real" where
  \<comment> \<open>\<open>x % 1\<close>: the fractional part, with the sign of \<open>x\<close>.\<close>
  "js_frac x = (if 0 \<le> x then x - real_of_int \<lfloor>x\<rfloor> else x - real_of_int \<lceil>x\<rceil>)"

section \<open>Seasons and environment (js/config.js, js/environment.js)\<close>

datatype season = SPRING | SUMMER | AUTUMN | WINTER

text \<open>The day ranges that the \<open>SEASONS\<close> table of the configuration declares.\<close>

fun dayStart :: "season \<Rightarrow> real" where
  "dayStart SPRING = 0"
| "dayStart SUMMER = 91"
| "dayStart AUTUMN = 182"
| "dayStart WINTER = 273"

fun dayEnd :: "season \<Rightarrow> real" where
  "dayEnd SPRING = 91"
| "dayEnd SUMMER = 182"
| "dayEnd AUTUMN = 273"
| "dayEnd WINTER = 365"

record environment =
  year :: int
  dayOfYear :: real
  season :: season
  hour :: real
  sunlight :: real
  water :: real
  temperature :: real
  soilQuality :: real
  windSpeed :: real
  humidity :: real
  totalStress :: real
  waterAvailability :: real
  disease :: bool
  pests :: bool
  storm :: bool
  pollution :: bool

definition seasonOfDay :: "real \<Rightarrow> season" where
  \<comment> \<open>The \<open>if\<close> chain of \<open>updateEnvironmentTime\<close> on the updated \<open>dayOfYear\<close>.\<close>
  "seasonOfDay d =
     (if d < 90 then SPRING else if d < 180 then SUMMER else if d < 270 then AUTUMN else WINTER)"

definition updateEnvironmentTime :: "real \<Rightarrow> environment \<Rightarrow> environment" where
  "updateEnvironmentTime dt env =
     (let d0 = dayOfYear env + dt;
          d = (if d0 \<ge> 365 then d0 - 365 else d0);
          y = (if d0 \<ge> 365 then year env + 1 else year env)
      in env\<lparr>dayOfYear := d, year := y, season := seasonOfDay d, hour := js_frac d * 24\<rparr>)"

definition getSeasonProgress :: "real \<Rightarrow> real" where
  "getSeasonProgress d =
     (let seasonLength = 365 / 4;
          seasonStart = real_of_int \<lfloor>d / seasonLength\<rfloor> * seasonLength
      in (d - seasonStart) / seasonLength)"

definition season_key :: "season \<Rightarrow> string" where
  \<comment> \<open>A season is an object of \<open>SEASONS\<close>; used as a property key it is converted to the
      string every plain object converts to.\<close>
  "season_key s = ''[object Object]''"

definition multipliers :: "(string \<times> real) list" where
  \<comment> \<open>The object literal of \<open>getSeasonalGrowthMultiplier\<close>, in source order.\<close>
  "multipliers =
     [(season_key SPRING, 1.0), (season_key SUMMER, 0.95),
      (season_key AUTUMN, 0.4), (season_key WINTER, 0.05)]"

definition getSeasonalGrowthMultiplier :: "season \<Rightarrow> real" where
  \<comment> \<open>\<open>multipliers[season] || 0.5\<close>; in an object literal a later entry with the same key
      replaces an earlier one.\<close>
  "getSeasonalGrowthMultiplier s = js_or_opt (map_of (rev multipliers) (season_key s)) 0.5"

section \<open>Configuration and species (js/config.js)\<close>

text \<open>
  The fields of \<open>CONFIG\<close> that the simulation reads. The source of \<open>CONFIG\<close> under
  \<open>js/\<close> has no entries \<open>FIRE_DROUGHT_THRESHOLD\<close>, \<open>FIRE_HEAT_THRESHOLD\<close>,
  \<open>WINDTHROW_WIND_THRESHOLD\<close> and \<open>WINDTHROW_WIND_RANGE\<close>, which the mortality model reads:
  they are parameters of the model.
\<close>

record config =
  CANVAS_WIDTH :: real
  DAYS_PER_YEAR :: real
  MAX_HISTORY :: nat
  TREE_MAX_HEIGHT :: real
  TREE_MAX_AGE :: real
  HEIGHT_GROWTH_FACTOR :: real
  DBH_GROWTH_FACTOR :: real
  ROOT_GROWTH_FACTOR :: real
  CO2_ABSORPTION_RATE :: real
  O2_PRODUCTION_RATE :: real
  PARTICLE_FALLING_LEAVES :: nat
  LEAF_SIZE_MIN :: real
  LEAF_SIZE_MAX :: real
  LEAF_CLUSTER_COUNT :: real
  BRANCH_RECURSION :: nat
  BRANCH_ANGLE_BASE :: real
  BRANCH_ANGLE_VARIANCE :: real
  BRANCH_LENGTH_DECAY :: real
  BRANCH_THICKNESS_DECAY :: real
  BRANCH_TWIST :: real
  ROOT_SEGMENTS :: nat
  FIRE_DROUGHT_THRESHOLD :: real
  FIRE_HEAT_THRESHOLD :: real
  WINDTHROW_WIND_THRESHOLD :: real
  WINDTHROW_WIND_RANGE :: real

definition CONFIG :: "real \<Rightarrow> real \<Rightarrow> real \<Rightarrow> real \<Rightarrow> config" where
  \<comment> \<open>The values of \<open>js/config.js\<close>; the four arguments are the entries it lacks.\<close>
  "CONFIG fireDrought fireHeat windThreshold windRange =
     \<lparr>CANVAS_WIDTH = 1920, DAYS_PER_YEAR = 365, MAX_HISTORY = 600, TREE_MAX_HEIGHT = 40,
      TREE_MAX_AGE = 600, HEIGHT_GROWTH_FACTOR = 0.9, DBH_GROWTH_FACTOR = 0.18,
      ROOT_GROWTH_FACTOR = 1.3, CO2_ABSORPTION_RATE = 0.018, O2_PRODUCTION_RATE = 0.024,
      PARTICLE_FALLING_LEAVES = 60, LEAF_SIZE_MIN = 4, LEAF_SIZE_MAX = 14,
      LEAF_CLUSTER_COUNT = 12, BRANCH_RECURSION = 6, BRANCH_ANGLE_BASE = 0.45,
      BRANCH_ANGLE_VARIANCE = 0.35, BRANCH_LENGTH_DECAY = 0.68,
      BRANCH_THICKNESS_DECAY = 0.65, BRANCH_TWIST = 0.15, ROOT_SEGMENTS = 18,
      FIRE_DROUGHT_THRESHOLD = fireDrought, FIRE_HEAT_THRESHOLD = fireHeat,
      WINDTHROW_WIND_THRESHOLD = windThreshold, WINDTHROW_WIND_RANGE = windRange\<rparr>"

text \<open>
  An entry of \<open>TREE_SPECIES\<close>, with the fields the simulation reads. The optional fields
  are \<open>None\<close> where the table has no such property (\<open>undefined\<close>).
\<close>

record species =
  maxHeight :: real
  maxAge :: real
  growthRate :: real
  evergreen :: "bool option"
  fireResistance :: "real option"
  windthrowResistance :: "real option"
  autumnLeafDrop :: "real option"
  springLeafOut :: "real option"

definition OAK :: species where
  "OAK = \<lparr>maxHeight = 35, maxAge = 500, growthRate = 0.75, evergreen = None,
          fireResistance = None, windthrowResistance = None, autumnLeafDrop = None,
          springLeafOut = None\<rparr>"

definition MAPLE :: species where
  "MAPLE = \<lparr>maxHeight = 30, maxAge = 300, growthRate = 0.9, evergreen = None,
          fireResistance = None, windthrowResistance = None, autumnLeafDrop = None,
          springLeafOut = None\<rparr>"

definition PINE :: species where
  "PINE = \<lparr>maxHeight = 40, maxAge = 400, growthRate = 0.6, evergreen = Some True,
          fireResistance = None, windthrowResistance = None, autumnLeafDrop = None,
          springLeafOut = None\<rparr>"

definition BIRCH :: species where
  "BIRCH = \<lparr>maxHeight = 25, maxAge = 100, growthRate = 1.2, evergreen = None,
          fireResistance = None, windthrowResistance = None, autumnLeafDrop = None,
          springLeafOut = None\<rparr>"

definition TREE_SPECIES :: "string \<Rightarrow> species option" where
  "TREE_SPECIES k =
     (if k = ''OAK'' then Some OAK else if k = ''MAPLE'' then Some MAPLE
      else if k = ''PINE'' then Some PINE else if k = ''BIRCH'' then Some BIRCH else None)"

definition speciesOf :: "string \<Rightarrow> species" where
  \<comment> \<open>\<open>TREE_SPECIES[tree.species] || TREE_SPECIES.OAK\<close>\<close>
  "speciesOf k = (case TREE_SPECIES k of Some sp \<Rightarrow> sp | None \<Rightarrow> OAK)"

definition isEvergreen :: "species \<Rightarrow> bool" where
  \<comment> \<open>\<open>species.evergreen || false\<close>\<close>
  "isEvergreen sp = (case evergreen sp of Some b \<Rightarrow> b | None \<Rightarrow> False)"

section \<open>Tree state (js/tree.js)\<close>

text \<open>
  The fields of \<open>tree.biomass\<close> carry the prefix \<open>bm_\<close>, the fields of the particle and
  geometry objects the prefixes \<open>ld_\<close> (falling leaf), \<open>br_\<close> (branch), \<open>lc_\<close> (leaf cluster),
  \<open>rt_\<close> (root) and \<open>fr_\<close> (fine root), since their source names (\<open>total\<close>, \<open>x\<close>, \<open>length\<close>,
  \<open>size\<close>) are taken.
\<close>

record biomass =
  bm_total :: real
  bm_trunk :: real
  bm_branches :: real
  bm_leaves :: real
  bm_roots :: real
  bm_heartwood :: real
  bm_sapwood :: real

text \<open>
  \<open>tree.mortality\<close>. A field tested with \<open>Number.isFinite\<close> is \<open>None\<close> when it holds no
  finite number.
\<close>

record mortality =
  enabled :: bool
  baseRatePerYear :: real
  senescenceStartAge :: "real option"
  maxAge :: "real option"
  droughtThreshold :: real
  heatStressTemp :: real
  diseaseBaseRatePerYear :: real
  stormFrequency :: real

record leafDrop =
  ld_x :: real
  ld_y :: real
  ld_vx :: real
  ld_vy :: real
  ld_ax :: real
  ld_rotation :: real
  ld_rotationSpeed :: real
  ld_size :: real
  ld_color :: "string option"
  ld_opacity :: real
  ld_lifetime :: real
  ld_wobblePhase :: real
  ld_wobbleSpeed :: real
  ld_wobbleAmount :: real

record branch =
  br_x1 :: real
  br_y1 :: real
  br_x2 :: real
  br_y2 :: real
  br_thickness :: real
  br_depth :: nat
  br_angle :: real
  br_length :: real
  br_parentIndex :: int
  br_swayPhase :: real
  br_swayAmount :: real
  br_hasLeaves :: bool
  br_healthy :: bool

record leafCluster =
  lc_x :: real
  lc_y :: real
  lc_z :: real
  lc_size :: real
  lc_density :: real
  lc_hueShift :: real
  lc_swayPhase :: real
  lc_swayAmount :: real
  lc_lightExposure :: real

record fineRoot =
  fr_angle :: real
  fr_depth :: real
  fr_spread :: real
  fr_thickness :: real

record root =
  rt_type :: string
  rt_x :: real
  rt_angle :: real
  rt_depth :: real
  rt_spread :: real
  rt_thickness :: real
  rt_children :: "fineRoot list"

record tree =
  age :: real
  daysSinceBirth :: real
  height :: real
  dbh :: real
  crownRadius :: real
  crownHeight :: real
  rootDepth :: real
  rootSpread :: real
  leafCount :: int
  leafArea :: real
  leafSize :: real
  foliageOpacity :: real
  foliageDensity :: real
  chlorophyllContent :: real
  health :: real
  vigor :: real
  waterContent :: real
  stressLevel :: real
  diseaseLoad :: real
  biomass :: biomass
  co2Absorbed :: real
  o2Produced :: real
  waterTranspired :: real
  carbonStored :: real
  growthThisYear :: real
  ringsGrown :: int
  branches :: "branch list"
  leafClusters :: "leafCluster list"
  rootMesh :: "root list"
  leafDrops :: "leafDrop list"
  dormant :: bool
  species :: string
  mortality :: "mortality option"
  deathCause :: "string option"

definition biomass0 :: biomass where
  \<comment> \<open>The biomass that the \<open>tree\<close> literal and \<open>initializeTree\<close> both set.\<close>
  "biomass0 = \<lparr>bm_total = 0.5, bm_trunk = 0.3, bm_branches = 0.1, bm_leaves = 0.05,
                bm_roots = 0.05, bm_heartwood = 0, bm_sapwood = 0.3\<rparr>"

definition mortality0 :: "config \<Rightarrow> mortality" where
  \<comment> \<open>The \<open>mortality\<close> entry of the \<open>tree\<close> literal.\<close>
  "mortality0 cfg = \<lparr>enabled = False, baseRatePerYear = 0.001, senescenceStartAge = Some 150,
                maxAge = Some (TREE_MAX_AGE cfg), droughtThreshold = 0.3, heatStressTemp = 35,
                diseaseBaseRatePerYear = 0.02, stormFrequency = 0.05\<rparr>"

definition tree0 :: "config \<Rightarrow> tree" where
  \<comment> \<open>The \<open>tree\<close> object literal, before \<open>initializeTree\<close> runs.\<close>
  "tree0 cfg =
     \<lparr>age = 0, daysSinceBirth = 0, height = 0.25, dbh = 0.008, crownRadius = 0.3,
      crownHeight = 0.2, rootDepth = 0.15, rootSpread = 0.4, leafCount = 50, leafArea = 0.1,
      leafSize = 1.0, foliageOpacity = 1.0, foliageDensity = 1.0, chlorophyllContent = 100,
      health = 100, vigor = 100, waterContent = 100, stressLevel = 0, diseaseLoad = 0,
      biomass = biomass0, co2Absorbed = 0, o2Produced = 0, waterTranspired = 0,
      carbonStored = 0, growthThisYear = 0, ringsGrown = 0, branches = [], leafClusters = [],
      rootMesh = [], leafDrops = [], dormant = False, species = ''OAK'',
      mortality = Some (mortality0 cfg), deathCause = None\<rparr>"

definition environment0 :: environment where
  \<comment> \<open>The \<open>environment\<close> object literal, with the season that \<open>updateEnvironmentTime(0)\<close>
      gives it at start-up (the literal holds the string \<open>'SPRING'\<close>).\<close>
  "environment0 =
     \<lparr>year = 0, dayOfYear = 0, season = SPRING, hour = 12, sunlight = 70, water = 60,
      temperature = 20, soilQuality = 70, windSpeed = 30, humidity = 60, totalStress = 0,
      waterAvailability = 60, disease = False, pests = False, storm = False,
      pollution = False\<rparr>"

section \<open>Mortality model (applyMortalityModel)\<close>

definition water01 :: "environment \<Rightarrow> real" where
  "water01 env = clamp (water env / 100) 0 1"

definition senescenceTerm :: "mortality \<Rightarrow> real \<Rightarrow> real" where
  \<comment> \<open>Senescence: ramps up after \<open>senescenceStartAge\<close>.\<close>
  "senescenceTerm m a =
     (case senescenceStartAge m of
        None \<Rightarrow> 0
      | Some s \<Rightarrow>
         (case maxAge m of
            None \<Rightarrow> 0
          | Some mx \<Rightarrow>
             if a > s
             then (let span = max (1 / 1000000) (mx - s);
                       t = min 1 (max 0 ((a - s) / span))
                   in 0.02 * (t * t))
             else 0))"

definition stressTerm :: "tree \<Rightarrow> real" where
  "stressTerm t = (let stress01 = clamp (stressLevel t / 100) 0 1 in 0.03 * (stress01 * stress01))"

definition droughtTerm :: "mortality \<Rightarrow> environment \<Rightarrow> real" where
  "droughtTerm m env =
     (if water01 env < droughtThreshold m
      then 0.04 * ((droughtThreshold m - water01 env) / max (1 / 1000000) (droughtThreshold m))
      else 0)"

definition heatTerm :: "mortality \<Rightarrow> environment \<Rightarrow> real" where
  "heatTerm m env =
     (if temperature env > heatStressTemp m
      then 0.03 * clamp ((temperature env - heatStressTemp m) / 20) 0 2
      else 0)"

definition diseaseTerm :: "mortality \<Rightarrow> environment \<Rightarrow> tree \<Rightarrow> real" where
  "diseaseTerm m env t =
     (if disease env
      then js_or (diseaseBaseRatePerYear m) 0 * (1 - clamp (health t / 100) 0 1)
      else 0)"

definition stormTerm :: "mortality \<Rightarrow> environment \<Rightarrow> real" where
  "stormTerm m env =
     (if storm env
      then js_or (stormFrequency m) 0 * 0.02 * clamp (windSpeed env / 100) 0 1
      else 0)"

definition fireActive :: "config \<Rightarrow> environment \<Rightarrow> bool" where
  "fireActive cfg env \<longleftrightarrow>
     water01 env < FIRE_DROUGHT_THRESHOLD cfg \<and> temperature env > FIRE_HEAT_THRESHOLD cfg"

definition fireTerm :: "config \<Rightarrow> environment \<Rightarrow> tree \<Rightarrow> real" where
  "fireTerm cfg env t =
     (let fireRes = js_or_opt (fireResistance (speciesOf (species t))) 0.5 in
      if fireActive cfg env
      then (let droughtSeverity =
                  (FIRE_DROUGHT_THRESHOLD cfg - water01 env) / FIRE_DROUGHT_THRESHOLD cfg;
                heatSeverity = clamp ((temperature env - FIRE_HEAT_THRESHOLD cfg) / 20) 0 1
            in 0.05 * droughtSeverity * heatSeverity * (1 - fireRes))
      else 0)"

definition windthrowActive :: "config \<Rightarrow> environment \<Rightarrow> bool" where
  "windthrowActive cfg env \<longleftrightarrow> storm env \<and> windSpeed env > WINDTHROW_WIND_THRESHOLD cfg"

definition windthrowTerm :: "config \<Rightarrow> environment \<Rightarrow> tree \<Rightarrow> real" where
  \<comment> \<open>A zero \<open>WINDTHROW_WIND_RANGE\<close> makes the quotient \<open>+Infinity\<close> in the source (the
      numerator is positive here), which the clamp turns into 1.\<close>
  "windthrowTerm cfg env t =
     (let sp = speciesOf (species t);
          windthrowRes = js_or_opt (windthrowResistance sp) 0.5 in
      if windthrowActive cfg env
      then (let windSeverity =
                  (if WINDTHROW_WIND_RANGE cfg = 0 then 1
                   else clamp ((windSpeed env - WINDTHROW_WIND_THRESHOLD cfg)
                                 / WINDTHROW_WIND_RANGE cfg) 0 1);
                sizeFactor = clamp (height t / js_or (maxHeight sp) 40) 0 1
            in 0.06 * windSeverity * sizeFactor * (1 - windthrowRes))
      else 0)"

definition hazardPerYear :: "config \<Rightarrow> environment \<Rightarrow> tree \<Rightarrow> mortality \<Rightarrow> real" where
  \<comment> \<open>The annualized hazard after the final \<open>clamp(hazardPerYear, 0, 5)\<close>.\<close>
  "hazardPerYear cfg env t m =
     clamp (max 0 (js_or (baseRatePerYear m) 0) + senescenceTerm m (age t) + stressTerm t
              + droughtTerm m env + heatTerm m env + diseaseTerm m env t + stormTerm m env
              + fireTerm cfg env t + windthrowTerm cfg env t) 0 5"

definition pDie :: "config \<Rightarrow> environment \<Rightarrow> tree \<Rightarrow> mortality \<Rightarrow> real \<Rightarrow> real" where
  \<comment> \<open>\<open>1 - Math.exp(-hazardPerYear * dtYears)\<close> with \<open>dtYears = dtDays / CONFIG.DAYS_PER_YEAR\<close>\<close>
  "pDie cfg env t m dtDays =
     (let dtYears = dtDays / DAYS_PER_YEAR cfg in 1 - exp (- hazardPerYear cfg env t m * dtYears))"

definition senescenceActive :: "mortality \<Rightarrow> real \<Rightarrow> bool" where
  \<comment> \<open>\<open>Number.isFinite(m.senescenceStartAge) && age > m.senescenceStartAge\<close>\<close>
  "senescenceActive m a \<longleftrightarrow> (case senescenceStartAge m of None \<Rightarrow> False | Some s \<Rightarrow> a > s)"

definition sampledDeathCause :: "config \<Rightarrow> environment \<Rightarrow> tree \<Rightarrow> mortality \<Rightarrow> string" where
  \<comment> \<open>The \<open>if\<close>/\<open>else if\<close> chain that names the cause once the sampled test has succeeded.\<close>
  "sampledDeathCause cfg env t m =
     (if storm env \<and> windSpeed env > WINDTHROW_WIND_THRESHOLD cfg then ''Windthrow''
      else if water01 env < FIRE_DROUGHT_THRESHOLD cfg \<and> temperature env > FIRE_HEAT_THRESHOLD cfg
           then ''Fire''
      else if disease env then ''Disease''
      else if (case senescenceStartAge m of None \<Rightarrow> False | Some s \<Rightarrow> age t > s) then ''Old age''
      else ''Mortality event'')"

definition maxAgeReached :: "mortality \<Rightarrow> real \<Rightarrow> bool" where
  \<comment> \<open>\<open>Number.isFinite(m.maxAge) && age >= m.maxAge\<close>\<close>
  "maxAgeReached m a \<longleftrightarrow> (case maxAge m of None \<Rightarrow> False | Some mx \<Rightarrow> a \<ge> mx)"

definition applyMortalityModel ::
  "config \<Rightarrow> environment \<Rightarrow> real \<Rightarrow> tree \<times> prngState \<Rightarrow> tree \<times> prngState" where
  "applyMortalityModel cfg env dtDays tp =
     (let t = fst tp; p = snd tp in
      if health t \<le> 0 then (t, p)
      else case mortality t of
        None \<Rightarrow> (t, p)
      | Some m \<Rightarrow>
          if \<not> enabled m then (t, p)
          else if maxAgeReached m (age t)
          then (t\<lparr>health := 0, deathCause := Some ''Old age''\<rparr>, p)
          else if dtDays / DAYS_PER_YEAR cfg \<le> 0 then (t, p)
          else (let (r, p') = random p in
                if r < pDie cfg env t m dtDays
                then (t\<lparr>health := 0, deathCause := Some (sampledDeathCause cfg env t m)\<rparr>, p')
                else (t, p')))"

text \<open>
  The attribution of the cause as the spec words it: the risk conditions are inspected in a
  fixed order of priority, the first active one names the cause, and a generic cause
  remains when none is active.
\<close>

fun firstActive :: "(bool \<times> string) list \<Rightarrow> string \<Rightarrow> string" where
  "firstActive [] generic = generic"
| "firstActive ((active, cause) # rest) generic =
     (if active then cause else firstActive rest generic)"

definition causeByPriority :: "config \<Rightarrow> environment \<Rightarrow> tree \<Rightarrow> mortality \<Rightarrow> string" where
  "causeByPriority cfg env t m =
     firstActive
       [(windthrowActive cfg env, ''Windthrow''), (fireActive cfg env, ''Fire''),
        (disease env, ''Disease''), (senescenceActive m (age t), ''Old age'')]
       ''Mortality event''"

section \<open>Normal samples (randomNormal, randomGaussian)\<close>

text \<open>
  The Box-Muller sample. For \<open>u1 = 0\<close> the source computes \<open>Math.log(0) = -Infinity\<close>, so
  the square root is \<open>+Infinity\<close> and the sample is infinite with the sign of the cosine
  factor (NaN when that factor is zero); outside \<open>[0, 1]\<close> the logarithm or the root is
  NaN. The result type keeps these cases apart from the finite samples.
\<close>

datatype gauss = Finite real | PlusInfinity | MinusInfinity | NotANumber

definition randomNormal :: "real \<Rightarrow> real \<Rightarrow> prngState \<Rightarrow> gauss \<times> prngState" where
  "randomNormal mean stdDev p =
     (let (u1, p1) = random p;
          (u2, p2) = random p1;
          c = cos (2 * pi * u2) * stdDev
      in if 0 < u1 \<and> u1 \<le> 1
         then (Finite (sqrt (- 2 * ln u1) * cos (2 * pi * u2) * stdDev + mean), p2)
         else if u1 = 0
         then (if c > 0 then PlusInfinity else if c < 0 then MinusInfinity else NotANumber, p2)
         else (NotANumber, p2))"

definition randomGaussian :: "real \<Rightarrow> real \<Rightarrow> prngState \<Rightarrow> gauss \<times> prngState" where
  "randomGaussian mean stdDev p = randomNormal mean stdDev p"

definition randomChoice :: "'a list \<Rightarrow> prngState \<Rightarrow> 'a option \<times> prngState" where
  \<comment> \<open>\<open>array[Math.floor(random() * array.length)]\<close>; \<open>None\<close> is \<open>undefined\<close>.\<close>
  "randomChoice xs p =
     (let (r, p') = random p; i = \<lfloor>r * real (length xs)\<rfloor>
      in (if 0 \<le> i \<and> i < int (length xs) then Some (xs ! nat i) else None, p'))"

section \<open>Physiology (calculatePhotosynthesis, calculateTotalStress, updateBiology)\<close>

definition calculatePhotosynthesis :: "real \<Rightarrow> real \<Rightarrow> real \<Rightarrow> real" where
  "calculatePhotosynthesis sun wat soil =
     (let lightFactor = sun / 100; waterFactor = min 1 (wat / 50); nutrientFactor = soil / 100
      in 1.0 * lightFactor * waterFactor * nutrientFactor)"

definition calculateTotalStress :: "environment \<Rightarrow> real" where
  "calculateTotalStress env =
     (let s1 = (if water env < 40 then (40 - water env) / 40 * 30
                else if water env > 85 then (water env - 85) / 15 * 20 else 0);
          s2 = s1 + (if temperature env < 5 \<or> temperature env > 35 then 20
                     else if temperature env < 12 \<or> temperature env > 28 then 10 else 0);
          s3 = s2 + (if sunlight env < 30 then (30 - sunlight env) / 30 * 15 else 0);
          s4 = s3 + (if disease env then 25 else 0);
          s5 = s4 + (if pests env then 20 else 0);
          s6 = s5 + (if storm env then 15 else 0);
          s7 = s6 + (if pollution env then 10 else 0)
      in min 100 s7)"

definition calculateEvapotranspiration :: "environment \<Rightarrow> real" where
  "calculateEvapotranspiration env =
     (let tempFactor = max 0 (temperature env / 30);
          windFactor = windSpeed env / 100;
          humidityFactor = 1 - humidity env / 100
      in tempFactor * (1 + windFactor) * humidityFactor * 0.5)"

definition photoRate :: "environment \<Rightarrow> real" where
  "photoRate env = calculatePhotosynthesis (sunlight env) (water env) (soilQuality env)"

definition netCarbon :: "environment \<Rightarrow> tree \<Rightarrow> real" where
  \<comment> \<open>Photosynthesis less respiration; \<open>Math.pow(2, x)\<close> is \<open>2 powr x\<close>.\<close>
  "netCarbon env t =
     (let tempFactor = 2 powr ((temperature env - 20) / 10);
          respirationRate = 0.02 * tempFactor * (bm_total (biomass t) / 100)
      in photoRate env - respirationRate)"

definition isDormant :: "environment \<Rightarrow> tree \<Rightarrow> bool" where
  "isDormant env t =
     (let speciesIsEvergreen = isEvergreen (speciesOf (species t)) in
        (\<not> speciesIsEvergreen \<and> season env = WINTER)
      \<or> temperature env < (if speciesIsEvergreen then - 10 else 5)
      \<or> (\<not> speciesIsEvergreen \<and> season env = AUTUMN \<and> getSeasonProgress (dayOfYear env) > 0.7))"

definition netGrowthFactor :: "environment \<Rightarrow> tree \<Rightarrow> real" where
  "netGrowthFactor env t =
     (if isDormant env t then 0
      else max 0 ((netCarbon env t * 0.8 - calculateTotalStress env * 0.3)
                    * getSeasonalGrowthMultiplier (season env)))"

definition noisyHealth :: "real \<Rightarrow> real \<Rightarrow> real \<Rightarrow> gauss \<Rightarrow> real option" where
  \<comment> \<open>\<open>tree.health += healthDelta * dt + noise * dt\<close>, then \<open>clamp(tree.health, 0, 100)\<close>. An
      infinite sum is clamped to a bound; \<open>None\<close> stands for NaN, which the clamp returns
      unchanged.\<close>
  "noisyHealth h healthDelta dt g =
     (case g of
        Finite z \<Rightarrow> Some (clamp (h + (healthDelta * dt + z * dt)) 0 100)
      | PlusInfinity \<Rightarrow> (if dt > 0 then Some 100 else if dt < 0 then Some 0 else None)
      | MinusInfinity \<Rightarrow> (if dt > 0 then Some 0 else if dt < 0 then Some 100 else None)
      | NotANumber \<Rightarrow> None)"

definition healthDelta :: "environment \<Rightarrow> tree \<Rightarrow> real \<Rightarrow> real" where
  "healthDelta env t ngf =
     (let stressImpact = calculateTotalStress env * 20;
          recoveryRate = photoRate env * 0.5 + (100 - stressLevel t) * 0.1
      in ngf * 10 + recoveryRate * 0.5 - stressImpact)"

definition updateVitality :: "environment \<Rightarrow> real \<Rightarrow> real \<Rightarrow> real \<Rightarrow> tree \<Rightarrow> tree" where
  \<comment> \<open>Vigor, stress accumulation and disease progression, with the new health \<open>h\<close>.\<close>
  "updateVitality env dt ngf h t =
     t\<lparr>health := h,
       vigor := clamp (vigor t * 0.98 + (h * ngf) * 0.02) 0 100,
       stressLevel := clamp (stressLevel t * 0.95 + calculateTotalStress env * 30 * dt) 0 100,
       diseaseLoad := (if disease env
                       then min 100 (diseaseLoad t + dt * 2 * (100 - h) / 100)
                       else max 0 (diseaseLoad t - dt * 0.5))\<rparr>"

definition updateFoliage :: "environment \<Rightarrow> real \<Rightarrow> tree \<Rightarrow> tree" where
  "updateFoliage env dt t =
     (let sp = speciesOf (species t);
          ever = isEvergreen sp;
          seasonProgress = getSeasonProgress (dayOfYear env);
          targetOpacity0 = health t / 100;
          targetDensity0 = health t / 100;
          (targetOpacity1, targetDensity1) =
            (case season env of
               WINTER \<Rightarrow>
                 (if ever then (targetOpacity0 * 0.7, targetDensity0 * 0.8)
                  else (targetOpacity0 * 0.05, targetDensity0 * 0.1))
             | AUTUMN \<Rightarrow>
                 (if ever then (targetOpacity0 * 0.8, targetDensity0 * 0.85)
                  else (let dropRate = js_or_opt (autumnLeafDrop sp) 0.5;
                            autumnFade = 1 - seasonProgress powr 1.5 * (1 - dropRate * 0.3)
                        in (targetOpacity0 * autumnFade, targetDensity0 * autumnFade)))
             | SPRING \<Rightarrow>
                 (let leafOutRate = (if ever then 0.8 else js_or_opt (springLeafOut sp) 0.3);
                      springGrowth = seasonProgress powr 0.7 * (1 - leafOutRate) + leafOutRate
                  in (targetOpacity0 * springGrowth, targetDensity0 * (0.4 + springGrowth * 0.6)))
             | SUMMER \<Rightarrow> (targetOpacity0, min 1 (targetDensity0 * 1.1)));
          targetOpacity = (if stressLevel t > 40
                           then targetOpacity1 * (1 - (stressLevel t - 40) / 120)
                           else targetOpacity1)
      in t\<lparr>foliageOpacity := clamp (foliageOpacity t + (targetOpacity - foliageOpacity t) * 0.08) 0 1,
           foliageDensity := clamp (foliageDensity t + (targetDensity1 - foliageDensity t) * 0.06) 0 1\<rparr>)"

definition physicalGrowth :: "config \<Rightarrow> environment \<Rightarrow> real \<Rightarrow> real \<Rightarrow> bool \<Rightarrow> tree \<Rightarrow> tree" where
  \<comment> \<open>The block \<open>PHYSICAL GROWTH\<close>; \<open>Math.pow(tree.height, 0.8)\<close> is \<open>height powr 0.8\<close>
      (the height is positive).\<close>
  "physicalGrowth cfg env dt ngf dorm t =
     (if health t > 25 \<and> \<not> dorm \<and> ngf > 0
      then (let sp = speciesOf (species t);
                speciesGrowthRate = js_or (growthRate sp) 1.0;
                healthFactor = health t / 100;
                vigorFactor = vigor t / 100;
                ageFactor = max 0.1 (1 - age t / (species.maxAge sp * 0.4));
                rate = ngf * healthFactor * vigorFactor * ageFactor * speciesGrowthRate;
                heightLimit = js_or (maxHeight sp) (TREE_MAX_HEIGHT cfg);
                heightSaturation = (1 - height t / heightLimit)\<^sup>2;
                heightGrowth = rate * HEIGHT_GROWTH_FACTOR cfg * heightSaturation;
                height' = min heightLimit (height t + heightGrowth * dt);
                expectedDBH = height' powr 0.8 * 0.05;
                dbhGrowth = (expectedDBH - dbh t) * rate * 0.1
                              + rate * DBH_GROWTH_FACTOR cfg * 0.0005;
                crownRadius' = height' * 0.4 * healthFactor;
                crownHeight' = height' * 0.5 * healthFactor;
                rootGrowth = rate * ROOT_GROWTH_FACTOR cfg * (soilQuality env / 100) * 0.005;
                leafArea' = crownRadius' * crownRadius' * pi * foliageOpacity t * healthFactor
            in t\<lparr>height := height',
                 growthThisYear := growthThisYear t + heightGrowth * dt,
                 dbh := max (dbh t) (dbh t + dbhGrowth * dt),
                 crownRadius := crownRadius',
                 crownHeight := crownHeight',
                 rootDepth := min (height' * 0.8) (rootDepth t + rootGrowth * dt),
                 rootSpread := min (crownRadius' * 1.5) (rootSpread t + rootGrowth * 0.8 * dt),
                 leafArea := leafArea',
                 leafCount := \<lfloor>leafArea' * 500\<rfloor>\<rparr>)
      else t)"

definition updateBiomass :: "environment \<Rightarrow> real \<Rightarrow> real \<Rightarrow> tree \<Rightarrow> tree" where
  "updateBiomass env dt growthFactor t =
     (if growthFactor \<le> 0 then t
      else (let healthFactor = health t / 100;
                allocation = growthFactor * healthFactor * dt;
                trunkAlloc = (if season env = SPRING then 0.25 else 0.35);
                branchAlloc = 0.20;
                leafAlloc = (if season env = SPRING then 0.40
                             else if season env = AUTUMN then 0.10 else 0.25);
                rootAlloc = (if season env = SPRING then 0.20
                             else if season env = AUTUMN then 0.35 else 0.20);
                b = biomass t;
                trunk' = bm_trunk b + allocation * trunkAlloc * 10;
                branches' = bm_branches b + allocation * branchAlloc * 5;
                leaves' = bm_leaves b + allocation * leafAlloc * 2 * foliageOpacity t;
                roots' = bm_roots b + allocation * rootAlloc * 3;
                heartwood' = (if age t > 10 then bm_heartwood b + bm_sapwood b * 0.001 * dt
                              else bm_heartwood b);
                sapwood' = (if age t > 10 then trunk' - heartwood' else trunk')
            in t\<lparr>biomass := \<lparr>bm_total = trunk' + branches' + leaves' + roots',
                               bm_trunk = trunk', bm_branches = branches', bm_leaves = leaves',
                               bm_roots = roots', bm_heartwood = heartwood',
                               bm_sapwood = sapwood'\<rparr>\<rparr>))"

definition gasExchange :: "config \<Rightarrow> environment \<Rightarrow> real \<Rightarrow> bool \<Rightarrow> tree \<Rightarrow> tree" where
  "gasExchange cfg env dt dorm t =
     (if \<not> dorm
      then (let effectiveLeafArea = leafArea t * foliageOpacity t;
                absorbedCO2 = photoRate env * effectiveLeafArea * CO2_ABSORPTION_RATE cfg * dt / 365;
                producedO2 = photoRate env * effectiveLeafArea * O2_PRODUCTION_RATE cfg * dt / 365
            in t\<lparr>co2Absorbed := co2Absorbed t + absorbedCO2,
                 o2Produced := o2Produced t + producedO2,
                 carbonStored := bm_total (biomass t) * 0.5\<rparr>)
      else t)"

definition waterDynamics :: "environment \<Rightarrow> real \<Rightarrow> tree \<Rightarrow> tree" where
  "waterDynamics env dt t =
     (let evapotranspiration = calculateEvapotranspiration env;
          waterUptake = (water env / 100) * rootDepth t * rootSpread t * 0.5
      in t\<lparr>waterContent := clamp (waterContent t + (waterUptake - evapotranspiration) * dt) 0 100,
           waterTranspired := waterTranspired t + evapotranspiration * dt\<rparr>)"

definition updateChlorophyll :: "environment \<Rightarrow> real \<Rightarrow> tree \<Rightarrow> tree" where
  "updateChlorophyll env dt t =
     (let currentIsEvergreen = isEvergreen (speciesOf (species t)) in
      t\<lparr>chlorophyllContent :=
          (if currentIsEvergreen
           then (if season env = WINTER then max 50 (chlorophyllContent t - dt * 0.5)
                 else min 100 (chlorophyllContent t + dt * 2))
           else if season env = AUTUMN
                then max 0 (100 * (1 - getSeasonProgress (dayOfYear env)))
           else if season env = SPRING
                then min 100 (getSeasonProgress (dayOfYear env) * 100)
           else if season env = WINTER then 0
           else min 100 (chlorophyllContent t + dt * 2))\<rparr>)"

section \<open>Procedural structures and falling leaves (js/tree.js)\<close>

fun createBranch ::
  "config \<Rightarrow> real \<Rightarrow> real \<Rightarrow> real \<Rightarrow> real \<Rightarrow> real \<Rightarrow> nat \<Rightarrow> int
     \<Rightarrow> branch list \<times> prngState \<Rightarrow> branch list \<times> prngState" where
  "createBranch cfg x0 y0 ang len thick 0 parentIndex bp = bp"
| "createBranch cfg x0 y0 ang len thick (Suc d) parentIndex bp =
     (if len < 0.02 \<or> thick < 0.5 then bp
      else (let (angleVariation, p1) =
                  random2 (- BRANCH_ANGLE_VARIANCE cfg) (BRANCH_ANGLE_VARIANCE cfg) (snd bp);
                (lengthVariation, p2) = random2 0.85 1.15 p1;
                (twist, p3) = random2 (- BRANCH_TWIST cfg) (BRANCH_TWIST cfg) p2;
                actualAngle = ang + angleVariation + twist;
                actualLength = len * lengthVariation;
                endX = x0 + cos actualAngle * actualLength;
                endY = y0 + sin actualAngle * actualLength;
                branchIndex = int (length (fst bp));
                (swayPhase, p4) = random2 0 (pi * 2) p3;
                b = \<lparr>br_x1 = x0, br_y1 = y0, br_x2 = endX, br_y2 = endY, br_thickness = thick,
                     br_depth = Suc d, br_angle = actualAngle, br_length = actualLength,
                     br_parentIndex = parentIndex, br_swayPhase = swayPhase,
                     br_swayAmount = 0.02 / (real (Suc d) + 1), br_hasLeaves = (Suc d \<le> 2),
                     br_healthy = True\<rparr>;
                (numChildren, p5) = (if Suc d > 3 then randomInt 2 4 p4 else randomInt 1 3 p4)
            in fold (\<lambda>i acc.
                       let (r, q) = random2 (- 0.1) 0.1 (snd acc);
                           spread = (real i - (real_of_int numChildren - 1) / 2)
                                      * (BRANCH_ANGLE_BASE cfg + r)
                       in createBranch cfg endX endY (actualAngle + spread)
                            (actualLength * BRANCH_LENGTH_DECAY cfg)
                            (thick * BRANCH_THICKNESS_DECAY cfg) d branchIndex (fst acc, q))
                 [0..<nat numChildren] (fst bp @ [b], p5)))"

definition generateBranchArchitecture :: "config \<Rightarrow> tree \<times> prngState \<Rightarrow> tree \<times> prngState" where
  "generateBranchArchitecture cfg tp =
     (let t = fst tp;
          (bs, p') = createBranch cfg 0 0 (pi / 2) (height t * 0.5) (dbh t * 80)
                       (BRANCH_RECURSION cfg) (- 1) ([], snd tp)
      in (t\<lparr>branches := bs\<rparr>, p'))"

definition leafClusterStep :: "tree \<Rightarrow> leafCluster list \<times> prngState \<Rightarrow> leafCluster list \<times> prngState" where
  \<comment> \<open>One round of the loop of \<open>generateLeafClusters\<close>. A zero \<open>crownHeight\<close> makes the
      quotient infinite or NaN in the source and the test fail (for a crown radius that is
      not negative).\<close>
  "leafClusterStep t cp =
     (let crownCenter = height t * 0.75;
          (phi, p1) = random2 0 (pi * 2) (snd cp);
          (theta, p2) = random2 0 (pi * 0.6) p1;
          (r0, p3) = random2 0.3 1.0 p2;
          r = crownRadius t * r0;
          cx = r * sin theta * cos phi;
          cy = crownCenter + r * cos theta * 0.7 - crownRadius t * 0.3;
          cz = r * sin theta * sin phi;
          distFromCenter = sqrt (cx * cx + cz * cz);
          expectedRadius = crownRadius t * (1 - ((cy - crownCenter) / crownHeight t)\<^sup>2 * 0.5)
      in if crownHeight t \<noteq> 0 \<and> distFromCenter \<le> expectedRadius * 1.2
         then (let (sz, p4) = random2 0.8 1.5 p3;
                   (dn, p5) = random2 0.6 1.0 p4;
                   (hue, p6) = random2 (- 10) 10 p5;
                   (phase, p7) = random2 0 (pi * 2) p6;
                   (amount, p8) = random2 0.01 0.03 p7
               in (fst cp @ [\<lparr>lc_x = cx, lc_y = cy, lc_z = cz, lc_size = sz * leafSize t,
                               lc_density = dn * foliageDensity t, lc_hueShift = hue,
                               lc_swayPhase = phase, lc_swayAmount = amount,
                               lc_lightExposure = 0.5 + (cy / height t) * 0.5\<rparr>], p8))
         else (fst cp, p3))"

definition generateLeafClusters :: "config \<Rightarrow> tree \<times> prngState \<Rightarrow> tree \<times> prngState" where
  "generateLeafClusters cfg tp =
     (let t = fst tp;
          clusterCount = \<lfloor>LEAF_CLUSTER_COUNT cfg + height t * 12\<rfloor>;
          (cs, p') = fold (\<lambda>i cp. leafClusterStep t cp) [0..<nat clusterCount] ([], snd tp)
      in (t\<lparr>leafClusters := cs\<rparr>, p'))"

definition fineRootStep ::
  "real \<Rightarrow> real \<Rightarrow> real \<Rightarrow> real \<Rightarrow> fineRoot list \<times> prngState \<Rightarrow> fineRoot list \<times> prngState" where
  "fineRootStep ang dep spr thick fp =
     (let (a, p1) = random2 (- 0.5) 0.5 (snd fp);
          (d, p2) = random2 0.3 0.8 p1;
          (s, p3) = random2 0.2 0.6 p2
      in (fst fp @ [\<lparr>fr_angle = ang + a, fr_depth = dep * d, fr_spread = spr * s,
                      fr_thickness = thick * 0.3\<rparr>], p3))"

definition lateralRootStep :: "config \<Rightarrow> tree \<Rightarrow> nat \<Rightarrow> root list \<times> prngState \<Rightarrow> root list \<times> prngState" where
  "lateralRootStep cfg t i rp =
     (let (a, p1) = random2 (- 0.2) 0.2 (snd rp);
          ang = (real i / real (ROOT_SEGMENTS cfg)) * pi * 2 + a;
          (s, p2) = random2 0.7 1.3 p1;
          spr = rootSpread t * s;
          (d, p3) = random2 0.2 0.6 p2;
          dep = rootDepth t * d;
          (th, p4) = random2 0.4 0.8 p3;
          thick = dbh t * 30 * th;
          (numFine, p5) = randomInt 2 5 p4;
          (fine, p6) = fold (\<lambda>j fp. fineRootStep ang dep spr thick fp) [0..<nat numFine] ([], p5)
      in (fst rp @ [\<lparr>rt_type = ''lateral'', rt_x = 0, rt_angle = ang, rt_depth = dep,
                      rt_spread = spr, rt_thickness = thick, rt_children = fine\<rparr>], p6))"

definition generateRootMesh :: "config \<Rightarrow> tree \<times> prngState \<Rightarrow> tree \<times> prngState" where
  "generateRootMesh cfg tp =
     (let t = fst tp;
          (d, p1) = random2 0.9 1.1 (snd tp);
          tap = \<lparr>rt_type = ''tap'', rt_x = 0, rt_angle = - pi / 2, rt_depth = rootDepth t * d,
                 rt_spread = 0, rt_thickness = dbh t * 40, rt_children = []\<rparr>;
          (rs, p') = fold (lateralRootStep cfg t) [0..<ROOT_SEGMENTS cfg] ([tap], p1)
      in (t\<lparr>rootMesh := rs\<rparr>, p'))"

definition createFallingLeaf ::
  "config \<Rightarrow> real \<Rightarrow> real \<Rightarrow> season \<Rightarrow> tree \<times> prngState \<Rightarrow> tree \<times> prngState" where
  \<comment> \<open>The random properties are drawn in the order of the object literal.\<close>
  "createFallingLeaf cfg x0 y0 sn tp =
     (let t = fst tp in
      if length (leafDrops t) \<ge> PARTICLE_FALLING_LEAVES cfg then tp
      else (let colors = (if sn = AUTUMN
                          then [''#d4a017'', ''#c85a17'', ''#8b4513'', ''#ff6347'', ''#daa520'']
                          else [''#228b22'', ''#32cd32'', ''#6b8e23'']);
                (vx, p1) = random2 (- 1.5) 1.5 (snd tp);
                (vy, p2) = random2 0.3 1.2 p1;
                (rot, p3) = random2 0 (pi * 2) p2;
                (rotSpeed, p4) = random2 (- 0.15) 0.15 p3;
                (sz, p5) = random2 (LEAF_SIZE_MIN cfg) (LEAF_SIZE_MAX cfg) p4;
                (col, p6) = randomChoice colors p5;
                (life, p7) = random2 200 400 p6;
                (phase, p8) = random2 0 (pi * 2) p7;
                (wSpeed, p9) = random2 0.05 0.15 p8;
                (wAmount, p10) = random2 0.5 2 p9
            in (t\<lparr>leafDrops := leafDrops t @
                     [\<lparr>ld_x = x0, ld_y = y0, ld_vx = vx, ld_vy = vy, ld_ax = 0, ld_rotation = rot,
                       ld_rotationSpeed = rotSpeed, ld_size = sz, ld_color = col, ld_opacity = 1,
                       ld_lifetime = life, ld_wobblePhase = phase, ld_wobbleSpeed = wSpeed,
                       ld_wobbleAmount = wAmount\<rparr>]\<rparr>, p10)))"

definition getAutumnLeafDropRate :: "real \<Rightarrow> real" where
  "getAutumnLeafDropRate progress = progress\<^sup>2 * 0.8"

definition handleLeafDrop ::
  "config \<Rightarrow> environment \<Rightarrow> real \<Rightarrow> tree \<times> prngState \<Rightarrow> tree \<times> prngState" where
  \<comment> \<open>\<open>renderer.width\<close> is \<open>CONFIG.CANVAS_WIDTH\<close>.\<close>
  "handleLeafDrop cfg env dt tp =
     (let t = fst tp;
          seasonProgress = getSeasonProgress (dayOfYear env);
          d1 = (if season env = AUTUMN then getAutumnLeafDropRate seasonProgress else 0);
          d2 = (if stressLevel t > 50 then d1 + (stressLevel t - 50) / 100 * 0.3 else d1);
          dropProbability = (if storm env \<and> windSpeed env > 50 then d2 + 0.4 else d2);
          (r, p1) = random (snd tp)
      in if r < dropProbability * dt * 0.15 \<and> foliageOpacity t > 0.1
         then (let centerX = CANVAS_WIDTH cfg / 2;
                   treeTop = 850 - height t * 100;
                   canopyRadius = 60 + height t * 20;
                   (ang, p2) = random2 0 (pi * 2) p1;
                   (r0, p3) = random2 0.3 1 p2;
                   radius = r0 * canopyRadius;
                   leafX = centerX + cos ang * radius;
                   (off, p4) = random2 (- 30) 30 p3;
                   leafY = treeTop + crownHeight t * 50 + off
               in createFallingLeaf cfg leafX leafY (season env) (t, p4))
         else (t, p1))"

definition updateLeaf :: "real \<Rightarrow> real \<Rightarrow> leafDrop \<Rightarrow> leafDrop" where
  \<comment> \<open>The body of the loop of \<open>updateLeafDrops\<close> for one leaf, before the removal test.\<close>
  "updateLeaf dt wind l =
     (let ax = wind * 0.1 - ld_vx l * 0.1;
          vx1 = ld_vx l + ax * dt;
          phase = ld_wobblePhase l + ld_wobbleSpeed l * dt;
          vx2 = vx1 + sin phase * ld_wobbleAmount l * dt;
          vy = min (ld_vy l + 0.05 * dt) 2;
          life = ld_lifetime l - dt
      in l\<lparr>ld_ax := ax, ld_vx := vx2, ld_wobblePhase := phase, ld_vy := vy,
           ld_x := ld_x l + vx2 * dt, ld_y := ld_y l + vy * dt,
           ld_rotation := ld_rotation l + ld_rotationSpeed l * dt,
           ld_lifetime := life,
           ld_opacity := (if life < 50 then life / 50 else ld_opacity l)\<rparr>)"

definition updateLeafDrops :: "real \<Rightarrow> real \<Rightarrow> tree \<Rightarrow> tree" where
  \<comment> \<open>Every leaf is moved; the leaves that have faded or left the screen are removed.\<close>
  "updateLeafDrops dt wind t =
     t\<lparr>leafDrops := filter (\<lambda>l. \<not> (ld_lifetime l \<le> 0 \<or> ld_y l > 1000))
                        (map (updateLeaf dt wind) (leafDrops t))\<rparr>"

definition annualCycle :: "config \<Rightarrow> real \<Rightarrow> tree \<times> prngState \<Rightarrow> tree \<times> prngState" where
  \<comment> \<open>The block \<open>AGE & ANNUAL CYCLES\<close>: ageing, a growth ring in a new year, and the
      structures regenerated at every fifth ring.\<close>
  "annualCycle cfg dt tp =
     (let t = fst tp;
          prevYear = \<lfloor>(daysSinceBirth t - dt) / DAYS_PER_YEAR cfg\<rfloor>;
          t1 = t\<lparr>age := age t + dt / DAYS_PER_YEAR cfg, daysSinceBirth := daysSinceBirth t + dt\<rparr>;
          currentYear = \<lfloor>daysSinceBirth t1 / DAYS_PER_YEAR cfg\<rfloor>
      in if currentYear > prevYear
         then (let t2 = t1\<lparr>ringsGrown := ringsGrown t1 + 1, growthThisYear := 0\<rparr>
               in if js_rem (ringsGrown t2) 5 = 0
                  then generateRootMesh cfg
                         (generateLeafClusters cfg (generateBranchArchitecture cfg (t2, snd tp)))
                  else (t2, snd tp))
         else (t1, snd tp))"

definition recordHealth :: "config \<Rightarrow> int \<Rightarrow> tree \<Rightarrow> real list \<Rightarrow> real list" where
  \<comment> \<open>\<open>healthHistory\<close> after \<open>recordHealth()\<close>; the second argument is
      \<open>simulationState.frameCount\<close>. \<open>Math.round(x)\<close> is \<open>\<lfloor>x + 1/2\<rfloor>\<close>.\<close>
  "recordHealth cfg frames t hist =
     (if js_rem frames 5 \<noteq> 0 then hist
      else (let hist1 = (if length hist \<ge> MAX_HISTORY cfg then tl hist else hist)
            in hist1 @ [real_of_int \<lfloor>health t * 10 + 1 / 2\<rfloor> / 10]))"

section \<open>The substep (updateBiology) and runs of substeps\<close>

text \<open>The global objects that a substep reads and writes.\<close>

record world =
  w_prng :: prngState
  w_environment :: environment
  w_tree :: tree
  w_healthHistory :: "real list"

definition physiology ::
  "config \<Rightarrow> environment \<Rightarrow> real \<Rightarrow> real \<Rightarrow> bool \<Rightarrow> real \<Rightarrow> tree \<Rightarrow> tree" where
  \<comment> \<open>The blocks of \<open>updateBiology\<close> from \<open>VIGOR\<close> to \<open>CHLOROPHYLL CONTENT\<close>, in source
      order, for the net growth factor, the dormancy and the new health of the substep.\<close>
  "physiology cfg env dt ngf dorm h t =
     (let t3 = updateVitality env dt ngf h t;
          t4 = updateFoliage env dt t3;
          t5 = physicalGrowth cfg env dt ngf dorm t4;
          t6 = updateBiomass env dt ngf t5;
          t7 = gasExchange cfg env dt dorm t6;
          t8 = waterDynamics env dt t7
      in updateChlorophyll env dt t8)"

definition updateBiology :: "config \<Rightarrow> int \<Rightarrow> real \<Rightarrow> world \<Rightarrow> world option" where
  \<comment> \<open>\<open>updateBiology(dt)\<close>; the second argument is \<open>simulationState.frameCount\<close>. The result
      is \<open>None\<close> when the health would become NaN (see \<open>noisyHealth\<close>).\<close>
  "updateBiology cfg frames dt w =
     (let t = w_tree w in
      if health t \<le> 0
      then Some (w\<lparr>w_tree := updateLeafDrops dt (windSpeed (w_environment w)) t\<rparr>)
      else
        (let env1 = updateEnvironmentTime dt (w_environment w);
             (t1, p1) = applyMortalityModel cfg env1 dt (t, w_prng w)
         in if health t1 \<le> 0
            then Some (w\<lparr>w_environment := env1, w_prng := p1,
                         w_tree := updateLeafDrops dt (windSpeed env1) t1\<rparr>)
            else
              (let env2 = env1\<lparr>totalStress := calculateTotalStress env1,
                               waterAvailability := water env1\<rparr>;
                   dorm = isDormant env1 t1;
                   ngf = netGrowthFactor env1 t1;
                   t2 = t1\<lparr>dormant := dorm\<rparr>;
                   (g, p2) = randomGaussian 0 0.3 p1
               in case noisyHealth (health t2) (healthDelta env1 t2 ngf) dt g of
                    None \<Rightarrow> None
                  | Some h \<Rightarrow>
                     (let t9 = physiology cfg env1 dt ngf dorm h t2;
                          (t10, p3) = annualCycle cfg dt (t9, p2);
                          (t11, p4) = handleLeafDrop cfg env1 dt (t10, p3);
                          t12 = updateLeafDrops dt (windSpeed env1) t11
                      in Some (w\<lparr>w_environment := env2, w_prng := p4, w_tree := t12,
                                   w_healthHistory :=
                                     recordHealth cfg frames t12 (w_healthHistory w)\<rparr>)))))"

text \<open>
  The sliders and check boxes that \<open>updateEnvironmentFromUI\<close> reads; a control that is not
  on the page is \<open>None\<close> and leaves the environment field as it is.
\<close>

record ui =
  ui_sun :: "real option"
  ui_water :: "real option"
  ui_temp :: "real option"
  ui_soil :: "real option"
  ui_wind :: "real option"
  ui_humidity :: "real option"
  ui_disease :: "bool option"
  ui_pests :: "bool option"
  ui_storm :: "bool option"
  ui_pollution :: "bool option"

definition updateEnvironmentFromUI :: "ui \<Rightarrow> environment \<Rightarrow> environment" where
  "updateEnvironmentFromUI u env =
     env\<lparr>sunlight := (case ui_sun u of Some v \<Rightarrow> v | None \<Rightarrow> sunlight env),
         water := (case ui_water u of Some v \<Rightarrow> v | None \<Rightarrow> water env),
         temperature := (case ui_temp u of Some v \<Rightarrow> v | None \<Rightarrow> temperature env),
         soilQuality := (case ui_soil u of Some v \<Rightarrow> v | None \<Rightarrow> soilQuality env),
         windSpeed := (case ui_wind u of Some v \<Rightarrow> v | None \<Rightarrow> windSpeed env),
         humidity := (case ui_humidity u of Some v \<Rightarrow> v | None \<Rightarrow> humidity env),
         disease := (case ui_disease u of Some v \<Rightarrow> v | None \<Rightarrow> disease env),
         pests := (case ui_pests u of Some v \<Rightarrow> v | None \<Rightarrow> pests env),
         storm := (case ui_storm u of Some v \<Rightarrow> v | None \<Rightarrow> storm env),
         pollution := (case ui_pollution u of Some v \<Rightarrow> v | None \<Rightarrow> pollution env)\<rparr>"

definition substep :: "config \<Rightarrow> real \<Rightarrow> int \<times> ui \<Rightarrow> world \<Rightarrow> world option" where
  \<comment> \<open>The body of the scheduler's loop, \<open>updateEnvironmentFromUI(); updateBiology(dt)\<close>, for
      the frame count and the state of the controls at that moment.\<close>
  "substep cfg dt fu w =
     updateBiology cfg (fst fu) dt
       (w\<lparr>w_environment := updateEnvironmentFromUI (snd fu) (w_environment w)\<rparr>)"

fun run :: "config \<Rightarrow> real \<Rightarrow> (int \<times> ui) list \<Rightarrow> world \<Rightarrow> world list option" where
  \<comment> \<open>The trajectory of a run: the state after each substep, one substep for each
      snapshot of the frame count and the controls.\<close>
  "run cfg dt [] w = Some []"
| "run cfg dt (fu # fus) w =
     (case substep cfg dt fu w of
        None \<Rightarrow> None
      | Some w' \<Rightarrow> (case run cfg dt fus w' of None \<Rightarrow> None | Some ws \<Rightarrow> Some (w' # ws)))"

definition vital :: "tree \<Rightarrow> bool" where
  \<comment> \<open>The clamp invariant of the vitality fields.\<close>
  "vital t \<longleftrightarrow>
     0 \<le> health t \<and> health t \<le> 100 \<and> 0 \<le> vigor t \<and> vigor t \<le> 100
     \<and> 0 \<le> stressLevel t \<and> stressLevel t \<le> 100 \<and> 0 \<le> diseaseLoad t \<and> diseaseLoad t \<le> 100
     \<and> 0 \<le> chlorophyllContent t \<and> chlorophyllContent t \<le> 100
     \<and> 0 \<le> waterContent t \<and> waterContent t \<le> 100"

definition biomassConsistent :: "tree \<Rightarrow> bool" where
  "biomassConsistent t \<longleftrightarrow>
     bm_total (biomass t)
       = bm_trunk (biomass t) + bm_branches (biomass t) + bm_leaves (biomass t) + bm_roots (biomass t)"

definition sameBiology :: "tree \<Rightarrow> tree \<Rightarrow> bool" where
  \<comment> \<open>Agreement on the fields that ageing, the procedural structures and the falling
      leaves leave alone.\<close>
  "sameBiology t t' \<longleftrightarrow>
     health t' = health t \<and> vigor t' = vigor t \<and> stressLevel t' = stressLevel t
     \<and> diseaseLoad t' = diseaseLoad t \<and> chlorophyllContent t' = chlorophyllContent t
     \<and> waterContent t' = waterContent t \<and> dormant t' = dormant t \<and> biomass t' = biomass t
     \<and> deathCause t' = deathCause t \<and> species t' = species t \<and> mortality t' = mortality t
     \<and> height t' = height t \<and> dbh t' = dbh t \<and> foliageOpacity t' = foliageOpacity t"

definition exampleConfig :: config where
  \<comment> \<open>The configuration of the examples: \<open>js/config.js\<close> with sample values for the four
      entries it lacks.\<close>
  "exampleConfig = CONFIG (15 / 100) 35 70 30"

definition enabledMortality :: "config \<Rightarrow> mortality" where
  \<comment> \<open>\<open>tree.mortality\<close> of the literal once \<open>enable_mortality\<close> has switched it on.\<close>
  "enabledMortality cfg = (mortality0 cfg)\<lparr>enabled := True\<rparr>"

definition mortalTree :: "config \<Rightarrow> tree" where
  \<comment> \<open>The \<open>tree\<close> literal with the mortality model switched on.\<close>
  "mortalTree cfg = (tree0 cfg)\<lparr>mortality := Some (enabledMortality cfg)\<rparr>"

definition sickTree :: "config \<Rightarrow> tree" where
  \<comment> \<open>The same tree at half health.\<close>
  "sickTree cfg = (mortalTree cfg)\<lparr>health := 50\<rparr>"

definition stormEnvironment :: environment where
  \<comment> \<open>The environment literal in a storm with disease: wind at 90, both stressors on.\<close>
  "stormEnvironment = environment0\<lparr>windSpeed := 90, storm := True, disease := True\<rparr>"

definition world0 :: "config \<Rightarrow> int \<Rightarrow> world" where
  \<comment> \<open>The page after \<open>initPRNG(seed)\<close>, with the \<open>tree\<close> and \<open>environment\<close> literals.\<close>
  "world0 cfg s =
     \<lparr>w_prng = \<lparr>seed = s, state = s\<rparr>, w_environment = environment0, w_tree = tree0 cfg,
      w_healthHistory = []\<rparr>"

definition ui0 :: ui where
  \<comment> \<open>A page without controls: the environment stays as it is.\<close>
  "ui0 = \<lparr>ui_sun = None, ui_water = None, ui_temp = None, ui_soil = None, ui_wind = None,
          ui_humidity = None, ui_disease = None, ui_pests = None, ui_storm = None,
          ui_pollution = None\<rparr>"

definition winterWorld :: "config \<Rightarrow> int \<Rightarrow> world" where
  \<comment> \<open>The page on day 300 of the year.\<close>
  "winterWorld cfg s = (world0 cfg s)\<lparr>w_environment := environment0\<lparr>dayOfYear := 300\<rparr>\<rparr>"

definition agedWorld :: "config \<Rightarrow> int \<Rightarrow> tree \<Rightarrow> world" where
  \<comment> \<open>The page with the tree \<open>t\<close> at the age \<open>CONFIG.TREE_MAX_AGE\<close>.\<close>
  "agedWorld cfg s t = (world0 cfg s)\<lparr>w_tree := t\<lparr>age := TREE_MAX_AGE cfg\<rparr>\<rparr>"

section \<open>The page: frames rendered between substeps (renderScene)\<close>

text \<open>
  \<open>animationLoop\<close> calls \<open>renderScene\<close> at the end of every frame, and the drawing routines
  of the renderer (\<open>drawGrassBlades\<close>, \<open>drawLeafLitter\<close>, \<open>drawSoilTexture\<close>,
  \<open>drawDetailedRoots\<close>, \<open>drawLightning\<close>, ...) call \<open>random()\<close> of \<open>js/prng.js\<close>, the generator
  that \<open>updateBiology\<close> draws from. How many calls a frame makes depends on the width of the
  canvas, the season, the weather and the samples themselves; the number is an input of the
  model.
\<close>

definition renderScene :: "nat \<Rightarrow> prngState \<Rightarrow> prngState" where
  \<comment> \<open>The generator after a frame whose drawing calls \<open>random()\<close> \<open>r\<close> times.\<close>
  "renderScene r p = snd (draws r p)"

fun pageRun :: "config \<Rightarrow> real \<Rightarrow> (nat \<times> int \<times> ui) list \<Rightarrow> world \<Rightarrow> world list option" where
  \<comment> \<open>A run of substeps on the page. Each substep comes with the number of calls of
      \<open>random()\<close> made by the frames rendered since the substep before it (none when both
      substeps belong to one frame), the frame count and the controls.\<close>
  "pageRun cfg dt [] w = Some []"
| "pageRun cfg dt (rfu # rest) w =
     (case substep cfg dt (snd rfu) (w\<lparr>w_prng := renderScene (fst rfu) (w_prng w)\<rparr>) of
        None \<Rightarrow> None
      | Some w' \<Rightarrow> (case pageRun cfg dt rest w' of None \<Rightarrow> None | Some ws \<Rightarrow> Some (w' # ws)))"


section \<open>Double-precision arithmetic of the scheduler\<close>

text \<open>
  The numbers of the source are IEEE 754 doubles, and the scheduler compares an accumulated
  sum with the substep size, so the rounding of every addition, subtraction, multiplication
  and division counts there. \<open>double x\<close> is the double nearest to the real \<open>x\<close>, ties to the
  even significand: a significand of 53 bits, exponents from -1022, subnormal numbers below.
  Overflow is left out: the result is the one of the source as long as it does not exceed
  the largest double, \<open>2^1024 - 2^971\<close>, in absolute value. An operation \<open>a + b\<close> of the
  source on doubles \<open>a\<close> and \<open>b\<close> is \<open>double (a + b)\<close>.
\<close>

definition roundTiesToEven :: "real \<Rightarrow> int" where
  "roundTiesToEven y =
     (let f = \<lfloor>y\<rfloor>; r = y - real_of_int f
      in if r < 1 / 2 then f else if r > 1 / 2 then f + 1 else if even f then f else f + 1)"

definition ulp :: "real \<Rightarrow> real" where
  \<comment> \<open>The distance between the doubles around \<open>x \<noteq> 0\<close>.\<close>
  "ulp x = 2 powr (real_of_int (max \<lfloor>log 2 \<bar>x\<bar>\<rfloor> (- 1022)) - 52)"

definition double :: "real \<Rightarrow> real" where
  "double x = (if x = 0 then 0 else real_of_int (roundTiesToEven (x / ulp x)) * ulp x)"

section \<open>Fixed-timestep scheduler (animationLoop)\<close>

record simulationState =
  running :: bool
  paused :: bool
  time :: real
  lastFrameTime :: real
  fps :: real
  frameCount :: int
  physicsAccumulator :: real
  substepTime :: real

definition maxSubsteps :: nat where
  "maxSubsteps = 10"

text \<open>
  The \<open>while\<close> loop of \<open>animationLoop\<close>. The parameter \<open>upd\<close> stands for the body
  \<open>updateEnvironmentFromUI(); updateBiology(simulationState.substepTime)\<close>, which works on
  the rest of the program state \<open>w\<close> and leaves \<open>simulationState\<close> alone.
\<close>

function substepLoop ::
  "(real \<Rightarrow> 'w \<Rightarrow> 'w) \<Rightarrow> simulationState \<Rightarrow> nat \<Rightarrow> 'w \<Rightarrow> simulationState \<times> nat \<times> 'w" where
  "substepLoop upd st substeps w =
     (if physicsAccumulator st \<ge> substepTime st \<and> substeps < maxSubsteps
      then substepLoop upd
             (st\<lparr>physicsAccumulator := double (physicsAccumulator st - substepTime st)\<rparr>)
             (substeps + 1) (upd (substepTime st) w)
      else (st, substeps, w))"
  by pat_completeness auto
termination
  by (relation "measure (\<lambda>(upd, st, substeps, w). maxSubsteps - substeps)") auto

definition physicsUpdate ::
  "(real \<Rightarrow> 'w \<Rightarrow> 'w) \<Rightarrow> real \<Rightarrow> simulationState \<times> 'w \<Rightarrow> simulationState \<times> nat \<times> 'w" where
  \<comment> \<open>The block guarded by \<open>running && !paused\<close>; also returns the number of substeps run.\<close>
  "physicsUpdate upd deltaTime sw =
     (let st = fst sw; w = snd sw in
      if running st \<and> \<not> paused st
      then (let st1 = st\<lparr>physicsAccumulator := double (physicsAccumulator st + deltaTime)\<rparr>;
                (st2, n, w') = substepLoop upd st1 0 w
            in (st2\<lparr>time := double (time st2 + deltaTime)\<rparr>, n, w'))
      else (st, 0, w))"

definition animationLoop ::
  "(real \<Rightarrow> 'w \<Rightarrow> 'w) \<Rightarrow> real \<Rightarrow> real \<Rightarrow> simulationState \<times> 'w \<Rightarrow> simulationState \<times> nat \<times> 'w" where
  \<comment> \<open>One frame: \<open>timestamp\<close> in milliseconds, \<open>speedMultiplier\<close> as \<open>getTimeSpeed()\<close>
      returns it. Of the rendering and the readouts only the frame counter and the \<open>fps\<close>
      field are part of the model.\<close>
  "animationLoop upd timestamp speedMultiplier sw =
     (let st = fst sw; w = snd sw;
          st1 = (if lastFrameTime st = 0 then st\<lparr>lastFrameTime := timestamp\<rparr> else st);
          deltaMs = min (double (timestamp - lastFrameTime st1)) 100;
          st2 = st1\<lparr>lastFrameTime := timestamp\<rparr>;
          deltaTime = double (double (deltaMs / 1000) * speedMultiplier);
          (st3, n, w') = physicsUpdate upd deltaTime (st2, w);
          st4 = st3\<lparr>frameCount := frameCount st3 + 1\<rparr>;
          st5 = (if js_rem (frameCount st4) 30 = 0
                 then st4\<lparr>fps := real_of_int
                                    \<lfloor>double (1000 / js_or deltaMs (double 16.67)) + 1 / 2\<rfloor>\<rparr>
                 else st4)
      in (st5, n, w'))"

fun runFrames ::
  "(real \<Rightarrow> 'w \<Rightarrow> 'w) \<Rightarrow> real \<Rightarrow> real list \<Rightarrow> simulationState \<times> 'w \<Rightarrow> simulationState \<times> nat \<times> 'w" where
  \<comment> \<open>Successive frames at the given timestamps, with a constant speed multiplier; the
      substeps of all frames are counted.\<close>
  "runFrames upd speed [] sw = (fst sw, 0, snd sw)"
| "runFrames upd speed (t # ts) sw =
     (let (st1, n1, w1) = animationLoop upd t speed sw;
          (st2, n2, w2) = runFrames upd speed ts (st1, w1)
      in (st2, n1 + n2, w2))"

definition simulationState0 :: simulationState where
  \<comment> \<open>The initial \<open>simulationState\<close> object; \<open>substepTime\<close> is the double that \<open>1 / 60\<close>
      evaluates to.\<close>
  "simulationState0 =
     \<lparr>running = True, paused = False, time = 0, lastFrameTime = 0, fps = 0, frameCount = 0,
      physicsAccumulator = 0, substepTime = double (1 / 60)\<rparr>"

definition frameAt :: "real \<Rightarrow> simulationState" where
  \<comment> \<open>The scheduler at the start, but with its last frame at the timestamp \<open>t\<close>.\<close>
  "frameAt t = simulationState0\<lparr>lastFrameTime := t\<rparr>"

text \<open>
  Sequences of frames, given by the timestamps that follow a frame at \<open>t0\<close>: the
  milliseconds that the frames count (each step capped at 100, as \<open>deltaMs\<close> is), whether
  every step is within the cap, and whether the timestamps do not decrease and no frame
  brings more than nine substeps of scaled time, so that the bound of ten substeps a frame
  is not reached.
\<close>

fun elapsed :: "real \<Rightarrow> real list \<Rightarrow> real" where
  "elapsed t0 [] = 0"
| "elapsed t0 (t # ts) = min (t - t0) 100 + elapsed t ts"

fun uncapped :: "real \<Rightarrow> real list \<Rightarrow> bool" where
  "uncapped t0 [] = True"
| "uncapped t0 (t # ts) = (t - t0 \<le> 100 \<and> uncapped t ts)"

fun paced :: "real \<Rightarrow> real \<Rightarrow> real \<Rightarrow> real list \<Rightarrow> bool" where
  "paced speed dt t0 [] = True"
| "paced speed dt t0 (t # ts) =
     (t0 \<le> t \<and> speed * min (t - t0) 100 / 1000 \<le> 9 * dt \<and> paced speed dt t ts)"


section \<open>Range of the generator\<close>

lemma lcg_next_range: "0 \<le> s \<Longrightarrow> 0 \<le> lcg_next s \<and> lcg_next s < 4294967296"
proof -
  assume "0 \<le> s"
  then have "0 \<le> s * 1664525 + 1013904223" by simp
  then have "js_rem (s * 1664525 + 1013904223) 4294967296 = (s * 1664525 + 1013904223) mod 4294967296"
    by (simp add: js_rem_def sgn_if)
  then show ?thesis by (simp add: lcg_next_def)
qed

lemma lcg_exact:
  fixes s :: int
  assumes "0 \<le> s" and "s < 4294967296"
  shows "s * 1664525 + 1013904223 < 2 ^ 53"
proof -
  from assms have "s * 1664525 \<le> 4294967295 * 1664525" by simp
  then show ?thesis by simp
qed

lemma random_range:
  assumes "state_ok p"
  shows "0 \<le> fst (random p) \<and> fst (random p) < 1 \<and> state_ok (snd (random p))"
proof -
  from assms have "0 \<le> state p" by (simp add: state_ok_def)
  then have r: "0 \<le> lcg_next (state p) \<and> lcg_next (state p) < 4294967296"
    by (rule lcg_next_range)
  then have "real_of_int (lcg_next (state p)) < 4294967296" by linarith
  with r show ?thesis by (simp add: random_def Let_def state_ok_def)
qed

lemma draws_range:
  "state_ok p \<Longrightarrow> (\<forall>r \<in> set (fst (draws n p)). 0 \<le> r \<and> r < 1) \<and> state_ok (snd (draws n p))"
proof (induction n arbitrary: p)
  case 0
  then show ?case by simp
next
  case (Suc n)
  from random_range [OF Suc.prems]
  have r: "0 \<le> fst (random p)" "fst (random p) < 1" "state_ok (snd (random p))" by simp_all
  from Suc.IH [OF r(3)] r(1,2) show ?case
    by (simp add: case_prod_beta Let_def)
qed

lemma initPRNG_ok: "0 \<le> s \<Longrightarrow> s < 4294967296 \<Longrightarrow> state_ok (initPRNG s p)"
  by (simp add: initPRNG_def state_ok_def)

text \<open>
  C10. For an integer seed in \<open>[0, 2 ^ 32)\<close>, after \<open>initPRNG(seed)\<close> every call of
  \<open>random()\<close> returns a value in \<open>[0, 1)\<close> and leaves the state an integer in
  \<open>[0, 2 ^ 32)\<close>; the same holds for each of any number of subsequent calls, and a
  state in that range keeps the product of the congruential step below \<open>2 ^ 53\<close>.
\<close>

theorem C10_random_in_unit_interval:
  assumes "0 \<le> s" and "s < 4294967296"
  shows "(\<forall>r \<in> set (fst (draws n (initPRNG s p))). 0 \<le> r \<and> r < 1)
       \<and> 0 \<le> state (snd (draws n (initPRNG s p)))
       \<and> state (snd (draws n (initPRNG s p))) < 4294967296
       \<and> state (snd (draws n (initPRNG s p))) * 1664525 + 1013904223 < 2 ^ 53"
proof -
  have ok: "state_ok (initPRNG s p)" using assms by (rule initPRNG_ok)
  from draws_range [OF ok, of n]
  have a: "\<forall>r \<in> set (fst (draws n (initPRNG s p))). 0 \<le> r \<and> r < 1"
    and b: "state_ok (snd (draws n (initPRNG s p)))" by simp_all
  from b have c: "0 \<le> state (snd (draws n (initPRNG s p)))"
    and d: "state (snd (draws n (initPRNG s p))) < 4294967296" by (simp_all add: state_ok_def)
  from lcg_exact [OF c d] a c d show ?thesis by simp
qed

theorem C10_random_in_unit_interval_witness:
  "(0::int) \<le> 12345 \<and> (12345::int) < 4294967296
   \<and> list_all (\<lambda>r. 0 \<le> r \<and> r < 1) (fst (draws 3 (initPRNG 12345 \<lparr>seed = 0, state = 0\<rparr>)))
   \<and> 0 \<le> state (snd (draws 3 (initPRNG 12345 \<lparr>seed = 0, state = 0\<rparr>)))
   \<and> state (snd (draws 3 (initPRNG 12345 \<lparr>seed = 0, state = 0\<rparr>))) < 4294967296
   \<and> state (snd (draws 3 (initPRNG 12345 \<lparr>seed = 0, state = 0\<rparr>))) * 1664525 + 1013904223 < 2 ^ 53"
  using C10_random_in_unit_interval [of 12345 3 "\<lparr>seed = 0, state = 0\<rparr>"]
  by (simp add: list_all_iff)

section \<open>Season classifier and season progress\<close>

lemma getSeasonProgress_range: "0 \<le> getSeasonProgress d \<and> getSeasonProgress d < 1"
proof -
  define q :: real where "q = 365 / 4"
  have q: "q > 0" by (simp add: q_def)
  have a: "real_of_int \<lfloor>d / q\<rfloor> \<le> d / q" by simp
  have b: "d / q < real_of_int \<lfloor>d / q\<rfloor> + 1" by linarith
  from a q have a': "real_of_int \<lfloor>d / q\<rfloor> * q \<le> d"
    by (simp add: pos_le_divide_eq [symmetric])
  from b q have b': "d < (real_of_int \<lfloor>d / q\<rfloor> + 1) * q"
    by (simp add: pos_divide_less_eq [symmetric])
  have "getSeasonProgress d = (d - real_of_int \<lfloor>d / q\<rfloor> * q) / q"
    by (simp add: getSeasonProgress_def Let_def q_def)
  moreover have "0 \<le> (d - real_of_int \<lfloor>d / q\<rfloor> * q) / q" using a' q by simp
  moreover have "(d - real_of_int \<lfloor>d / q\<rfloor> * q) / q < 1" using b' q by (simp add: algebra_simps)
  ultimately show ?thesis by simp
qed

lemma season_of_updateEnvironmentTime:
  "season (updateEnvironmentTime dt env) = seasonOfDay (dayOfYear (updateEnvironmentTime dt env))"
  by (simp add: updateEnvironmentTime_def Let_def)


text \<open>
  C9. The season classifier is a pure function of \<open>dayOfYear\<close> that partitions the year
  into four ranges of width 91/91/91/92 (or an even quartering), and the season progress is
  the fractional position of \<open>dayOfYear\<close> within that same range, in \<open>[0, 1)\<close>.
  The code evaluated: the classifier cuts at days 90, 180 and 270 (widths 90/90/90/95),
  not at the \<open>dayStart\<close>/\<open>dayEnd\<close> values 91, 182 and 273 of the \<open>SEASONS\<close> table, and
  \<open>getSeasonProgress\<close> measures the position within quarters of 91.25 days. At day 90
  the classifier answers Summer although the table still has Spring, and the progress is
  \<open>72/73\<close>, the position within the first quarter, not the position \<open>0\<close> at the start of
  the classifier's Summer range. Purity and the range \<open>[0, 1)\<close> of the progress do hold.
\<close>

theorem C9_season_ranges_evaluated:
  "(\<forall>d. (seasonOfDay d = SPRING \<longleftrightarrow> d < 90)
      \<and> (seasonOfDay d = SUMMER \<longleftrightarrow> 90 \<le> d \<and> d < 180)
      \<and> (seasonOfDay d = AUTUMN \<longleftrightarrow> 180 \<le> d \<and> d < 270)
      \<and> (seasonOfDay d = WINTER \<longleftrightarrow> 270 \<le> d))
   \<and> seasonOfDay 90 = SUMMER \<and> dayStart SPRING \<le> 90 \<and> 90 < dayEnd SPRING
   \<and> getSeasonProgress 90 = 72 / 73
   \<and> (90 - 90) / (180 - 90) = (0::real)
   \<and> seasonOfDay 272 = WINTER \<and> dayStart AUTUMN \<le> 272 \<and> 272 < dayEnd AUTUMN
   \<and> getSeasonProgress 272 = 358 / 365
   \<and> (\<forall>d. 0 \<le> getSeasonProgress d \<and> getSeasonProgress d < 1)"
proof -
  have "getSeasonProgress 90 = 72 / 73" by (simp add: getSeasonProgress_def Let_def)
  moreover have "getSeasonProgress 272 = 358 / 365" by (simp add: getSeasonProgress_def Let_def)
  ultimately show ?thesis
    using getSeasonProgress_range by (simp add: seasonOfDay_def)
qed

section \<open>Mortality model, paths of a substep and normal samples\<close>

lemma clamp_range: "lo \<le> hi \<Longrightarrow> lo \<le> clamp v lo hi \<and> clamp v lo hi \<le> hi"
  by (simp add: clamp_def)

lemma hazardPerYear_range: "0 \<le> hazardPerYear cfg env t m \<and> hazardPerYear cfg env t m \<le> 5"
  unfolding hazardPerYear_def by (rule clamp_range) simp

lemma pDie_mono:
  assumes "0 < DAYS_PER_YEAR cfg" and "d1 \<le> d2"
  shows "pDie cfg env t m d1 \<le> pDie cfg env t m d2"
proof -
  have h: "0 \<le> hazardPerYear cfg env t m" using hazardPerYear_range by simp
  from assms have "d1 / DAYS_PER_YEAR cfg \<le> d2 / DAYS_PER_YEAR cfg"
    by (simp add: divide_right_mono)
  then have "hazardPerYear cfg env t m * (d1 / DAYS_PER_YEAR cfg)
      \<le> hazardPerYear cfg env t m * (d2 / DAYS_PER_YEAR cfg)"
    using h by (rule mult_left_mono)
  then show ?thesis unfolding pDie_def Let_def by simp
qed

lemma pDie_nonneg:
  assumes "0 < DAYS_PER_YEAR cfg" and "0 \<le> d"
  shows "0 \<le> pDie cfg env t m d \<and> pDie cfg env t m d < 1"
proof -
  have h: "0 \<le> hazardPerYear cfg env t m" using hazardPerYear_range by simp
  from assms have "0 \<le> d / DAYS_PER_YEAR cfg" by simp
  with h have "0 \<le> hazardPerYear cfg env t m * (d / DAYS_PER_YEAR cfg)"
    by (rule mult_nonneg_nonneg)
  then have "exp (- (hazardPerYear cfg env t m * (d / DAYS_PER_YEAR cfg))) \<le> 1" by simp
  moreover have "0 < exp (- (hazardPerYear cfg env t m * (d / DAYS_PER_YEAR cfg)))" by simp
  ultimately show ?thesis unfolding pDie_def Let_def by simp
qed

lemma pDie_tendsto_0:
  assumes "0 < DAYS_PER_YEAR cfg"
  shows "((\<lambda>d. pDie cfg env t m d) \<longlongrightarrow> 0) (at_right 0)"
proof -
  have "((\<lambda>d. 1 - exp (- hazardPerYear cfg env t m * (d / DAYS_PER_YEAR cfg)))
          \<longlongrightarrow> 1 - exp (- hazardPerYear cfg env t m * (0 / DAYS_PER_YEAR cfg))) (at_right 0)"
    using assms by (intro tendsto_intros) simp
  then show ?thesis by (simp add: pDie_def Let_def)
qed

lemma applyMortalityModel_sampled:
  assumes "health t > 0" and "mortality t = Some m" and "enabled m"
    and "\<not> maxAgeReached m (age t)" and "0 < dtDays" and "0 < DAYS_PER_YEAR cfg"
  shows "applyMortalityModel cfg env dtDays (t, p) =
     (if fst (random p) < pDie cfg env t m dtDays
      then (t\<lparr>health := 0, deathCause := Some (sampledDeathCause cfg env t m)\<rparr>, snd (random p))
      else (t, snd (random p)))"
proof -
  from assms(5,6) have "0 < dtDays / DAYS_PER_YEAR cfg" by simp
  then have "\<not> dtDays / DAYS_PER_YEAR cfg \<le> 0" by simp
  with assms(1-4) show ?thesis
    by (simp add: applyMortalityModel_def Let_def split_beta)
qed

lemma applyMortalityModel_old_age:
  assumes "health t > 0" and "mortality t = Some m" and "enabled m"
    and "maxAgeReached m (age t)"
  shows "applyMortalityModel cfg env dtDays (t, p) =
     (t\<lparr>health := 0, deathCause := Some ''Old age''\<rparr>, p)"
  using assms by (simp add: applyMortalityModel_def Let_def)

lemma applyMortalityModel_disabled:
  assumes "mortality t = None \<or> (\<exists>m. mortality t = Some m \<and> \<not> enabled m)"
  shows "applyMortalityModel cfg env dtDays (t, p) = (t, p)"
  using assms by (auto simp add: applyMortalityModel_def Let_def)

lemma sampled_cause_is_priority: "sampledDeathCause cfg env t m = causeByPriority cfg env t m"
  by (simp add: sampledDeathCause_def causeByPriority_def windthrowActive_def fireActive_def senescenceActive_def)

lemma generateBranchArchitecture_fst:
  "fst (generateBranchArchitecture cfg tp) =
     (fst tp)\<lparr>branches := branches (fst (generateBranchArchitecture cfg tp))\<rparr>"
  by (simp add: generateBranchArchitecture_def Let_def split_beta)

lemma generateLeafClusters_fst:
  "fst (generateLeafClusters cfg tp) =
     (fst tp)\<lparr>leafClusters := leafClusters (fst (generateLeafClusters cfg tp))\<rparr>"
  by (simp add: generateLeafClusters_def Let_def split_beta)

lemma generateRootMesh_fst:
  "fst (generateRootMesh cfg tp) =
     (fst tp)\<lparr>rootMesh := rootMesh (fst (generateRootMesh cfg tp))\<rparr>"
  by (simp add: generateRootMesh_def Let_def split_beta)

lemma createFallingLeaf_fst:
  "fst (createFallingLeaf cfg x0 y0 sn tp) =
     (fst tp)\<lparr>leafDrops := leafDrops (fst (createFallingLeaf cfg x0 y0 sn tp))\<rparr>"
  by (simp add: createFallingLeaf_def Let_def split_beta)

lemma handleLeafDrop_fst:
  "fst (handleLeafDrop cfg env dt tp) =
     (fst tp)\<lparr>leafDrops := leafDrops (fst (handleLeafDrop cfg env dt tp))\<rparr>"
  unfolding handleLeafDrop_def Let_def split_beta
  by (simp add: createFallingLeaf_def Let_def split_beta)

lemma annualCycle_fst:
  "fst (annualCycle cfg dt tp) =
     (fst tp)\<lparr>age := age (fst (annualCycle cfg dt tp)),
              daysSinceBirth := daysSinceBirth (fst (annualCycle cfg dt tp)),
              ringsGrown := ringsGrown (fst (annualCycle cfg dt tp)),
              growthThisYear := growthThisYear (fst (annualCycle cfg dt tp)),
              branches := branches (fst (annualCycle cfg dt tp)),
              leafClusters := leafClusters (fst (annualCycle cfg dt tp)),
              rootMesh := rootMesh (fst (annualCycle cfg dt tp))\<rparr>"
  unfolding annualCycle_def Let_def
  by (simp add: generateBranchArchitecture_def generateLeafClusters_def generateRootMesh_def Let_def split_beta)

lemma sameBiology_refl: "sameBiology t t" by (simp add: sameBiology_def)

lemma sameBiology_trans: "sameBiology a b \<Longrightarrow> sameBiology b c \<Longrightarrow> sameBiology a c"
  by (simp add: sameBiology_def)

lemma annualCycle_same: "sameBiology (fst tp) (fst (annualCycle cfg dt tp))"
  by (subst annualCycle_fst) (simp add: sameBiology_def)

lemma handleLeafDrop_same: "sameBiology (fst tp) (fst (handleLeafDrop cfg env dt tp))"
  by (subst handleLeafDrop_fst) (simp add: sameBiology_def)

lemma updateLeafDrops_same: "sameBiology t (updateLeafDrops dt wind t)"
  by (simp add: sameBiology_def updateLeafDrops_def)

lemma updateBiology_dead:
  "health (w_tree w) \<le> 0 \<Longrightarrow>
   updateBiology cfg frames dt w =
     Some (w\<lparr>w_tree := updateLeafDrops dt (windSpeed (w_environment w)) (w_tree w)\<rparr>)"
  by (simp add: updateBiology_def Let_def)

lemma updateBiology_killed:
  assumes "0 < health (w_tree w)"
    and "health (fst (applyMortalityModel cfg (updateEnvironmentTime dt (w_environment w)) dt
                        (w_tree w, w_prng w))) \<le> 0"
  shows "updateBiology cfg frames dt w =
     Some (w\<lparr>w_environment := updateEnvironmentTime dt (w_environment w),
              w_prng := snd (applyMortalityModel cfg (updateEnvironmentTime dt (w_environment w)) dt
                               (w_tree w, w_prng w)),
              w_tree := updateLeafDrops dt (windSpeed (updateEnvironmentTime dt (w_environment w)))
                          (fst (applyMortalityModel cfg (updateEnvironmentTime dt (w_environment w)) dt
                                  (w_tree w, w_prng w)))\<rparr>)"
  using assms by (simp add: updateBiology_def Let_def split_beta)

lemma updateBiology_live:
  assumes "0 < health (w_tree w)"
    and "env1 = updateEnvironmentTime dt (w_environment w)"
    and "applyMortalityModel cfg env1 dt (w_tree w, w_prng w) = (t1, p1)"
    and "0 < health t1"
    and "noisyHealth (health t1) (healthDelta env1 (t1\<lparr>dormant := isDormant env1 t1\<rparr>)
           (netGrowthFactor env1 t1)) dt (fst (randomGaussian 0 0.3 p1)) = Some h"
  shows "\<exists>w'. updateBiology cfg frames dt w = Some w'
      \<and> sameBiology (physiology cfg env1 dt (netGrowthFactor env1 t1) (isDormant env1 t1) h
                         (t1\<lparr>dormant := isDormant env1 t1\<rparr>)) (w_tree w')"
proof -
  let ?t9 = "physiology cfg env1 dt (netGrowthFactor env1 t1) (isDormant env1 t1) h
               (t1\<lparr>dormant := isDormant env1 t1\<rparr>)"
  let ?p2 = "snd (randomGaussian 0 0.3 p1)"
  let ?a = "annualCycle cfg dt (?t9, ?p2)"
  let ?b = "handleLeafDrop cfg env1 dt ?a"
  let ?t12 = "updateLeafDrops dt (windSpeed env1) (fst ?b)"
  have s: "sameBiology ?t9 ?t12"
    using annualCycle_same [of "(?t9, ?p2)" cfg dt] handleLeafDrop_same [of ?a cfg env1 dt]
      updateLeafDrops_same [of "fst ?b" dt "windSpeed env1"]
    by (auto intro: sameBiology_trans)
  have "updateBiology cfg frames dt w =
      Some (w\<lparr>w_environment := env1\<lparr>totalStress := calculateTotalStress env1,
                                         waterAvailability := water env1\<rparr>,
               w_prng := snd ?b, w_tree := ?t12,
               w_healthHistory := recordHealth cfg frames ?t12 (w_healthHistory w)\<rparr>)"
    using assms by (simp add: updateBiology_def Let_def split_beta not_le)
  with s show ?thesis by simp
qed

lemma random_state: "state (snd (random p)) = lcg_next (state p)"
  by (simp add: random_def Let_def)

lemma random_fst: "fst (random p) = real_of_int (lcg_next (state p)) / 4294967296"
  by (simp add: random_def Let_def)

lemma cos_second_sample_pos: "0 < cos (2 * pi * (1013904223 / 4294967296))"
proof -
  have "2 * pi * (1013904223 / 4294967296) < pi / 2" using pi_gt_zero by simp
  moreover have "- (pi / 2) < 2 * pi * (1013904223 / 4294967296)" using pi_gt_zero by simp
  ultimately show ?thesis by (rule cos_gt_zero_pi [rotated])
qed

lemma randomGaussian_cases:
  assumes "state_ok p"
  shows "(\<exists>z. fst (randomGaussian 0 0.3 p) = Finite z \<and> \<bar>z\<bar> \<le> 12 / 5)
       \<or> fst (randomGaussian 0 0.3 p) = PlusInfinity"
proof -
  let ?u1 = "fst (random p)" and ?p1 = "snd (random p)"
  let ?u2 = "fst (random ?p1)"
  from random_range [OF assms] have u1: "0 \<le> ?u1" "?u1 < 1" and ok1: "state_ok ?p1" by simp_all
  show ?thesis
  proof (cases "?u1 = 0")
    case True
    then have "lcg_next (state p) = 0" by (simp add: random_fst)
    then have "state ?p1 = 0" by (simp add: random_state)
    then have "?u2 = 1013904223 / 4294967296"
      by (simp add: random_fst lcg_next_def js_rem_def)
    then have u2: "?u2 = 1013904223 / 4294967296" .
    have "0 < cos (2 * pi * ?u2)" unfolding u2 by (rule cos_second_sample_pos)
    then have "0 < cos (2 * pi * ?u2) * 0.3" by simp
    with True have "fst (randomGaussian 0 0.3 p) = PlusInfinity"
      by (simp add: randomGaussian_def randomNormal_def Let_def split_beta)
    then show ?thesis by simp
  next
    case False
    with u1 have pos: "0 < ?u1" by simp
    have "0 < lcg_next (state p)" using pos by (simp add: random_fst zero_less_divide_iff)
    then have "1 \<le> lcg_next (state p)" by simp
    then have "1 \<le> real_of_int (lcg_next (state p))" by linarith
    then have lb: "1 / 4294967296 \<le> ?u1" by (simp add: random_fst divide_right_mono)
    have "exp (- 32) \<le> (1 / 4294967296 :: real)"
    proof -
      have "(2::real) \<le> exp 1" using exp_ge_add_one_self [of 1] by simp
      then have "(2::real) ^ 32 \<le> exp 1 ^ 32" by (rule power_mono) simp
      also have "exp (1::real) ^ 32 = exp 32" by (simp add: exp_of_nat_mult [symmetric])
      finally have "(4294967296::real) \<le> exp 32" by simp
      then have "1 / exp 32 \<le> (1 / 4294967296 :: real)" by (simp add: frac_le)
      then show ?thesis by (simp add: exp_minus inverse_eq_divide)
    qed
    with lb have "exp (- 32) \<le> ?u1" by simp
    then have ln_lb: "- 32 \<le> ln ?u1" using pos by (simp add: ln_ge_iff)
    have ln_ub: "ln ?u1 \<le> 0" using pos u1 by simp
    have "sqrt (- 2 * ln ?u1) \<le> sqrt 64" using ln_lb by (intro real_sqrt_le_mono) simp
    then have sq: "sqrt (- 2 * ln ?u1) \<le> 8" by simp
    have sq0: "0 \<le> sqrt (- 2 * ln ?u1)" using ln_ub by simp
    have c: "\<bar>cos (2 * pi * ?u2)\<bar> \<le> 1" by (rule abs_cos_le_one)
    have "\<bar>sqrt (- 2 * ln ?u1) * cos (2 * pi * ?u2)\<bar> \<le> 8 * 1"
      unfolding abs_mult using sq sq0 c by (intro mult_mono) simp_all
    then have "\<bar>sqrt (- 2 * ln ?u1) * cos (2 * pi * ?u2) * 0.3 + 0\<bar> \<le> 12 / 5"
      by (simp add: abs_mult)
    moreover have "fst (randomGaussian 0 0.3 p)
        = Finite (sqrt (- 2 * ln ?u1) * cos (2 * pi * ?u2) * 0.3 + 0)"
      using pos u1 by (simp add: randomGaussian_def randomNormal_def Let_def split_beta)
    ultimately show ?thesis by blast
  qed
qed

lemma randomGaussian_state_ok:
  "state_ok p \<Longrightarrow> state_ok (snd (randomGaussian 0 0.3 p))"
  using random_range [of p] random_range [of "snd (random p)"]
  by (simp add: randomGaussian_def randomNormal_def Let_def split_beta)

section \<open>Death probability and death cause\<close>

text \<open>
  C1. For a substep of \<open>dtDays > 0\<close> days, the death probability of the mortality model is
  \<open>1 - exp (- h * dtYears)\<close> with \<open>dtYears = dtDays / DAYS_PER_YEAR\<close> and \<open>h\<close> the clamped
  annualized hazard, which lies in \<open>[0, 5]\<close>; the probability is 0 when \<open>h = 0\<close>; for a
  fixed state it does not increase when the substep gets shorter and it tends to 0 as the
  substep length tends to 0; the sampled test of \<open>applyMortalityModel\<close> compares one
  sample of \<open>random()\<close> with exactly this probability.
\<close>

theorem C1_death_probability:
  assumes "0 < DAYS_PER_YEAR cfg" and "0 < dtDays"
  shows "pDie cfg env t m dtDays
           = 1 - exp (- hazardPerYear cfg env t m * (dtDays / DAYS_PER_YEAR cfg))
       \<and> 0 \<le> hazardPerYear cfg env t m \<and> hazardPerYear cfg env t m \<le> 5
       \<and> (hazardPerYear cfg env t m = 0 \<longrightarrow> pDie cfg env t m dtDays = 0)
       \<and> (\<forall>d d'. 0 < d \<and> d \<le> d' \<longrightarrow>
             0 \<le> pDie cfg env t m d \<and> pDie cfg env t m d \<le> pDie cfg env t m d')
       \<and> ((\<lambda>d. pDie cfg env t m d) \<longlongrightarrow> 0) (at_right 0)
       \<and> (0 < health t \<and> mortality t = Some m \<and> enabled m \<and> \<not> maxAgeReached m (age t) \<longrightarrow>
            applyMortalityModel cfg env dtDays (t, p) =
              (if fst (random p) < pDie cfg env t m dtDays
               then (t\<lparr>health := 0, deathCause := Some (sampledDeathCause cfg env t m)\<rparr>,
                     snd (random p))
               else (t, snd (random p))))"
proof -
  have a: "pDie cfg env t m dtDays
      = 1 - exp (- hazardPerYear cfg env t m * (dtDays / DAYS_PER_YEAR cfg))"
    by (simp add: pDie_def Let_def)
  have b: "hazardPerYear cfg env t m = 0 \<longrightarrow> pDie cfg env t m dtDays = 0"
    by (simp add: pDie_def Let_def)
  have c: "\<forall>d d'. 0 < d \<and> d \<le> d' \<longrightarrow>
      0 \<le> pDie cfg env t m d \<and> pDie cfg env t m d \<le> pDie cfg env t m d'"
    using pDie_nonneg [OF assms(1)] pDie_mono [OF assms(1)] by (simp add: less_imp_le)
  have d: "0 < health t \<and> mortality t = Some m \<and> enabled m \<and> \<not> maxAgeReached m (age t) \<longrightarrow>
      applyMortalityModel cfg env dtDays (t, p) =
        (if fst (random p) < pDie cfg env t m dtDays
         then (t\<lparr>health := 0, deathCause := Some (sampledDeathCause cfg env t m)\<rparr>, snd (random p))
         else (t, snd (random p)))"
    using applyMortalityModel_sampled [of t m dtDays cfg env p] assms by blast
  from a b c d hazardPerYear_range [of cfg env t m] pDie_tendsto_0 [OF assms(1), of env t m]
  show ?thesis by blast
qed

lemmas example_defs =
  exampleConfig_def CONFIG_def environment0_def tree0_def mortality0_def biomass0_def
  enabledMortality_def mortalTree_def sickTree_def stormEnvironment_def

lemmas hazard_defs =
  hazardPerYear_def senescenceTerm_def stressTerm_def droughtTerm_def heatTerm_def
  diseaseTerm_def stormTerm_def fireTerm_def windthrowTerm_def water01_def clamp_def js_or_def
  js_or_opt_def fireActive_def windthrowActive_def speciesOf_def TREE_SPECIES_def OAK_def

lemma example_hazard:
  "hazardPerYear exampleConfig environment0 (mortalTree exampleConfig) (enabledMortality exampleConfig)
     = 1 / 1000"
  by (simp add: example_defs hazard_defs Let_def)

lemma one_minus_exp_le: "1 - exp (- x) \<le> (x::real)"
  using exp_ge_add_one_self [of "- x"] by simp

theorem C1_death_probability_witness:
  "0 < DAYS_PER_YEAR exampleConfig \<and> (0::real) < 1 / 60
   \<and> pDie exampleConfig environment0 (mortalTree exampleConfig) (enabledMortality exampleConfig) (1 / 60)
       = 1 - exp (- hazardPerYear exampleConfig environment0 (mortalTree exampleConfig)
                      (enabledMortality exampleConfig) * ((1 / 60) / DAYS_PER_YEAR exampleConfig))
   \<and> hazardPerYear exampleConfig environment0 (mortalTree exampleConfig) (enabledMortality exampleConfig)
       = 1 / 1000
   \<and> pDie exampleConfig environment0 (mortalTree exampleConfig) (enabledMortality exampleConfig) (1 / 120)
       \<le> pDie exampleConfig environment0 (mortalTree exampleConfig) (enabledMortality exampleConfig) (1 / 60)
   \<and> ((\<lambda>d. pDie exampleConfig environment0 (mortalTree exampleConfig) (enabledMortality exampleConfig) d)
         \<longlongrightarrow> 0) (at_right 0)
   \<and> applyMortalityModel exampleConfig environment0 (1 / 60)
         (mortalTree exampleConfig, \<lparr>seed = 12345, state = 12345\<rparr>)
       = (mortalTree exampleConfig, snd (random \<lparr>seed = 12345, state = 12345\<rparr>))"
proof -
  let ?t = "mortalTree exampleConfig" and ?m = "enabledMortality exampleConfig"
  let ?p = "\<lparr>seed = 12345, state = 12345\<rparr>"
  have h1: "0 < DAYS_PER_YEAR exampleConfig" by (simp add: example_defs)
  have h2: "(0::real) < 1 / 60" by simp
  note t = C1_death_probability [OF h1 h2, of environment0 ?t ?m ?p]
  note t1 = t [THEN conjunct1]
  note t5 = t [THEN conjunct2, THEN conjunct2, THEN conjunct2, THEN conjunct2, THEN conjunct1]
  note t6 = t [THEN conjunct2, THEN conjunct2, THEN conjunct2, THEN conjunct2, THEN conjunct2,
               THEN conjunct1]
  note t7 = t [THEN conjunct2, THEN conjunct2, THEN conjunct2, THEN conjunct2, THEN conjunct2,
               THEN conjunct2]
  have mono: "pDie exampleConfig environment0 ?t ?m (1 / 120) \<le> pDie exampleConfig environment0 ?t ?m (1 / 60)"
    using t5 [THEN spec, of "1 / 120", THEN spec, of "1 / 60"] by simp
  have pre: "0 < health ?t \<and> mortality ?t = Some ?m \<and> enabled ?m \<and> \<not> maxAgeReached ?m (age ?t)"
    by (simp add: example_defs maxAgeReached_def)
  have "pDie exampleConfig environment0 ?t ?m (1 / 60) \<le> 1 / 1000 * ((1 / 60) / 365)"
    unfolding t1 example_hazard using one_minus_exp_le [of "1 / 1000 * ((1 / 60) / 365)"]
    by (simp add: example_defs)
  moreover have "fst (random ?p) = 87628868 / 4294967296"
    by (simp add: random_def Let_def lcg_next_def js_rem_def)
  ultimately have "\<not> fst (random ?p) < pDie exampleConfig environment0 ?t ?m (1 / 60)" by simp
  with t7 pre have app: "applyMortalityModel exampleConfig environment0 (1 / 60) (?t, ?p)
      = (?t, snd (random ?p))" by simp
  from h1 h2 t1 example_hazard mono t6 app show ?thesis by blast
qed

text \<open>
  C6. When the sampled death test succeeds, the recorded cause is the first active risk
  condition in the order windthrow, fire, disease, senescence (age past
  \<open>senescenceStartAge\<close>), and the generic cause when none is active. The sizes of the
  hazard terms play no part: in the example of the witness the disease term is the largest
  and the recorded cause is windthrow.
\<close>

theorem C6_death_cause_by_priority:
  assumes "0 < health t" and "mortality t = Some m" and "enabled m"
    and "\<not> maxAgeReached m (age t)" and "0 < dtDays" and "0 < DAYS_PER_YEAR cfg"
    and "fst (random p) < pDie cfg env t m dtDays"
  shows "health (fst (applyMortalityModel cfg env dtDays (t, p))) = 0
       \<and> deathCause (fst (applyMortalityModel cfg env dtDays (t, p)))
           = Some (causeByPriority cfg env t m)
       \<and> (windthrowActive cfg env \<longrightarrow> causeByPriority cfg env t m = ''Windthrow'')
       \<and> (\<not> windthrowActive cfg env \<and> fireActive cfg env \<longrightarrow>
            causeByPriority cfg env t m = ''Fire'')
       \<and> (\<not> windthrowActive cfg env \<and> \<not> fireActive cfg env \<and> disease env \<longrightarrow>
            causeByPriority cfg env t m = ''Disease'')
       \<and> (\<not> windthrowActive cfg env \<and> \<not> fireActive cfg env \<and> \<not> disease env
            \<and> senescenceActive m (age t) \<longrightarrow> causeByPriority cfg env t m = ''Old age'')
       \<and> (\<not> windthrowActive cfg env \<and> \<not> fireActive cfg env \<and> \<not> disease env
            \<and> \<not> senescenceActive m (age t) \<longrightarrow> causeByPriority cfg env t m = ''Mortality event'')"
proof -
  from applyMortalityModel_sampled [OF assms(1-6), of env p] assms(7)
  have "applyMortalityModel cfg env dtDays (t, p) =
      (t\<lparr>health := 0, deathCause := Some (sampledDeathCause cfg env t m)\<rparr>, snd (random p))"
    by simp
  then show ?thesis
    by (simp add: sampled_cause_is_priority) (simp add: causeByPriority_def)
qed

theorem C6_death_cause_by_priority_witness:
  "0 < health (sickTree exampleConfig)
   \<and> fst (random \<lparr>seed = 1, state = 634785765\<rparr>)
       < pDie exampleConfig stormEnvironment (sickTree exampleConfig)
           (enabledMortality exampleConfig) (1 / 60)
   \<and> windthrowTerm exampleConfig stormEnvironment (sickTree exampleConfig)
       < diseaseTerm (enabledMortality exampleConfig) stormEnvironment (sickTree exampleConfig)
   \<and> health (fst (applyMortalityModel exampleConfig stormEnvironment (1 / 60)
                     (sickTree exampleConfig, \<lparr>seed = 1, state = 634785765\<rparr>))) = 0
   \<and> deathCause (fst (applyMortalityModel exampleConfig stormEnvironment (1 / 60)
                         (sickTree exampleConfig, \<lparr>seed = 1, state = 634785765\<rparr>)))
       = Some ''Windthrow''"
proof -
  let ?t = "sickTree exampleConfig" and ?m = "enabledMortality exampleConfig"
  let ?p = "\<lparr>seed = 1, state = 634785765\<rparr>"
  have h1: "0 < health ?t" and h2: "mortality ?t = Some ?m" and h3: "enabled ?m"
    and h4: "\<not> maxAgeReached ?m (age ?t)" and h5: "(0::real) < 1 / 60"
    and h6: "0 < DAYS_PER_YEAR exampleConfig"
    by (simp_all add: example_defs maxAgeReached_def)
  have r: "fst (random ?p) = 0" by (simp add: random_def Let_def lcg_next_def js_rem_def)
  have hz: "0 < hazardPerYear exampleConfig stormEnvironment ?t ?m"
    by (simp add: example_defs hazard_defs Let_def)
  then have "0 < hazardPerYear exampleConfig stormEnvironment ?t ?m * ((1 / 60) / 365)" by simp
  then have pd: "0 < pDie exampleConfig stormEnvironment ?t ?m (1 / 60)"
    by (simp add: pDie_def Let_def exampleConfig_def CONFIG_def)
  have h7: "fst (random ?p) < pDie exampleConfig stormEnvironment ?t ?m (1 / 60)"
    using r pd by simp
  have terms: "windthrowTerm exampleConfig stormEnvironment ?t < diseaseTerm ?m stormEnvironment ?t"
    by (simp add: example_defs hazard_defs Let_def)
  have act: "windthrowActive exampleConfig stormEnvironment"
    by (simp add: example_defs windthrowActive_def)
  note t = C6_death_cause_by_priority [OF h1 h2 h3 h4 h5 h6 h7]
  from t act have "health (fst (applyMortalityModel exampleConfig stormEnvironment (1 / 60) (?t, ?p))) = 0"
    and "deathCause (fst (applyMortalityModel exampleConfig stormEnvironment (1 / 60) (?t, ?p)))
           = Some ''Windthrow''"
    by simp_all
  with h1 h7 terms show ?thesis by blast
qed

section \<open>Phases of the physiology\<close>

lemma physicalGrowth_shape:
  "\<exists>a b c d e f g h i. physicalGrowth cfg env dt ngf dorm t =
     t\<lparr>height := a, growthThisYear := b, dbh := c, crownRadius := d, crownHeight := e,
       rootDepth := f, rootSpread := g, leafArea := h, leafCount := i\<rparr>"
proof (cases "health t > 25 \<and> \<not> dorm \<and> ngf > 0")
  case True
  show ?thesis
    unfolding physicalGrowth_def Let_def if_P [OF True] by (intro exI) (rule refl)
next
  case False
  have "t = t\<lparr>height := height t, growthThisYear := growthThisYear t, dbh := dbh t,
       crownRadius := crownRadius t, crownHeight := crownHeight t,
       rootDepth := rootDepth t, rootSpread := rootSpread t, leafArea := leafArea t,
       leafCount := leafCount t\<rparr>" by simp
  then show ?thesis
    unfolding physicalGrowth_def if_not_P [OF False] by (intro exI)
qed

lemma updateFoliage_shape:
  "\<exists>a b. updateFoliage env dt t = t\<lparr>foliageOpacity := a, foliageDensity := b\<rparr>"
  unfolding updateFoliage_def Let_def case_prod_beta by (intro exI) (rule refl)

lemma updateBiomass_shape:
  "(ngf \<le> 0 \<and> updateBiomass env dt ngf t = t)
   \<or> (0 < ngf \<and> (\<exists>tr br lv ro hw sw. updateBiomass env dt ngf t =
        t\<lparr>biomass := \<lparr>bm_total = tr + br + lv + ro, bm_trunk = tr, bm_branches = br,
                        bm_leaves = lv, bm_roots = ro, bm_heartwood = hw, bm_sapwood = sw\<rparr>\<rparr>))"
proof (cases "ngf \<le> 0")
  case True
  then show ?thesis by (simp add: updateBiomass_def)
next
  case False
  have "\<exists>tr br lv ro hw sw. updateBiomass env dt ngf t =
        t\<lparr>biomass := \<lparr>bm_total = tr + br + lv + ro, bm_trunk = tr, bm_branches = br,
                        bm_leaves = lv, bm_roots = ro, bm_heartwood = hw, bm_sapwood = sw\<rparr>\<rparr>"
    unfolding updateBiomass_def Let_def if_not_P [OF False] by (intro exI) (rule refl)
  with False show ?thesis by simp
qed

lemma gasExchange_shape:
  "\<exists>a b c. gasExchange cfg env dt dorm t = t\<lparr>co2Absorbed := a, o2Produced := b, carbonStored := c\<rparr>"
proof (cases "\<not> dorm")
  case True
  show ?thesis
    unfolding gasExchange_def Let_def if_P [OF True] by (intro exI) (rule refl)
next
  case False
  have "t = t\<lparr>co2Absorbed := co2Absorbed t, o2Produced := o2Produced t,
              carbonStored := carbonStored t\<rparr>" by simp
  then show ?thesis
    unfolding gasExchange_def if_not_P [OF False] by (intro exI)
qed

lemma waterDynamics_shape:
  "\<exists>a b. waterDynamics env dt t = t\<lparr>waterContent := clamp a 0 100, waterTranspired := b\<rparr>"
  unfolding waterDynamics_def Let_def by (intro exI) (rule refl)

lemma updateChlorophyll_shape:
  "updateChlorophyll env dt t = t\<lparr>chlorophyllContent :=
     (if isEvergreen (speciesOf (species t))
      then (if season env = WINTER then max 50 (chlorophyllContent t - dt * 0.5)
            else min 100 (chlorophyllContent t + dt * 2))
      else if season env = AUTUMN
           then max 0 (100 * (1 - getSeasonProgress (dayOfYear env)))
      else if season env = SPRING
           then min 100 (getSeasonProgress (dayOfYear env) * 100)
      else if season env = WINTER then 0
      else min 100 (chlorophyllContent t + dt * 2))\<rparr>"
  unfolding updateChlorophyll_def Let_def by (rule refl)

lemma physicalGrowth_keeps:
  "health (physicalGrowth cfg env dt ngf dorm t) = health t
   \<and> vigor (physicalGrowth cfg env dt ngf dorm t) = vigor t
   \<and> stressLevel (physicalGrowth cfg env dt ngf dorm t) = stressLevel t
   \<and> diseaseLoad (physicalGrowth cfg env dt ngf dorm t) = diseaseLoad t
   \<and> chlorophyllContent (physicalGrowth cfg env dt ngf dorm t) = chlorophyllContent t
   \<and> waterContent (physicalGrowth cfg env dt ngf dorm t) = waterContent t
   \<and> dormant (physicalGrowth cfg env dt ngf dorm t) = dormant t
   \<and> deathCause (physicalGrowth cfg env dt ngf dorm t) = deathCause t
   \<and> species (physicalGrowth cfg env dt ngf dorm t) = species t
   \<and> mortality (physicalGrowth cfg env dt ngf dorm t) = mortality t
   \<and> biomass (physicalGrowth cfg env dt ngf dorm t) = biomass t"
proof -
  from physicalGrowth_shape [of cfg env dt ngf dorm t] obtain a b c d e f g h i where e: "physicalGrowth cfg env dt ngf dorm t = t\<lparr>height := a, growthThisYear := b, dbh := c, crownRadius := d, crownHeight := e,
       rootDepth := f, rootSpread := g, leafArea := h, leafCount := i\<rparr>" by blast
  show ?thesis unfolding e by simp
qed

lemma updateFoliage_keeps:
  "health (updateFoliage env dt t) = health t
   \<and> vigor (updateFoliage env dt t) = vigor t
   \<and> stressLevel (updateFoliage env dt t) = stressLevel t
   \<and> diseaseLoad (updateFoliage env dt t) = diseaseLoad t
   \<and> chlorophyllContent (updateFoliage env dt t) = chlorophyllContent t
   \<and> waterContent (updateFoliage env dt t) = waterContent t
   \<and> dormant (updateFoliage env dt t) = dormant t
   \<and> deathCause (updateFoliage env dt t) = deathCause t
   \<and> species (updateFoliage env dt t) = species t
   \<and> mortality (updateFoliage env dt t) = mortality t
   \<and> biomass (updateFoliage env dt t) = biomass t"
proof -
  from updateFoliage_shape [of env dt t] obtain a b where e: "updateFoliage env dt t = t\<lparr>foliageOpacity := a, foliageDensity := b\<rparr>" by blast
  show ?thesis unfolding e by simp
qed

lemma gasExchange_keeps:
  "health (gasExchange cfg env dt dorm t) = health t
   \<and> vigor (gasExchange cfg env dt dorm t) = vigor t
   \<and> stressLevel (gasExchange cfg env dt dorm t) = stressLevel t
   \<and> diseaseLoad (gasExchange cfg env dt dorm t) = diseaseLoad t
   \<and> chlorophyllContent (gasExchange cfg env dt dorm t) = chlorophyllContent t
   \<and> waterContent (gasExchange cfg env dt dorm t) = waterContent t
   \<and> dormant (gasExchange cfg env dt dorm t) = dormant t
   \<and> deathCause (gasExchange cfg env dt dorm t) = deathCause t
   \<and> species (gasExchange cfg env dt dorm t) = species t
   \<and> mortality (gasExchange cfg env dt dorm t) = mortality t
   \<and> biomass (gasExchange cfg env dt dorm t) = biomass t"
proof -
  from gasExchange_shape [of cfg env dt dorm t] obtain a b c where e: "gasExchange cfg env dt dorm t = t\<lparr>co2Absorbed := a, o2Produced := b, carbonStored := c\<rparr>" by blast
  show ?thesis unfolding e by simp
qed

lemma waterDynamics_keeps:
  "health (waterDynamics env dt t) = health t
   \<and> vigor (waterDynamics env dt t) = vigor t
   \<and> stressLevel (waterDynamics env dt t) = stressLevel t
   \<and> diseaseLoad (waterDynamics env dt t) = diseaseLoad t
   \<and> chlorophyllContent (waterDynamics env dt t) = chlorophyllContent t
   \<and> dormant (waterDynamics env dt t) = dormant t
   \<and> deathCause (waterDynamics env dt t) = deathCause t
   \<and> species (waterDynamics env dt t) = species t
   \<and> mortality (waterDynamics env dt t) = mortality t
   \<and> biomass (waterDynamics env dt t) = biomass t"
proof -
  from waterDynamics_shape [of env dt t] obtain a b where e: "waterDynamics env dt t = t\<lparr>waterContent := clamp a 0 100, waterTranspired := b\<rparr>" by blast
  show ?thesis unfolding e by simp
qed

lemma updateBiomass_keeps:
  "health (updateBiomass env dt ngf t) = health t
   \<and> vigor (updateBiomass env dt ngf t) = vigor t
   \<and> stressLevel (updateBiomass env dt ngf t) = stressLevel t
   \<and> diseaseLoad (updateBiomass env dt ngf t) = diseaseLoad t
   \<and> chlorophyllContent (updateBiomass env dt ngf t) = chlorophyllContent t
   \<and> waterContent (updateBiomass env dt ngf t) = waterContent t
   \<and> dormant (updateBiomass env dt ngf t) = dormant t
   \<and> deathCause (updateBiomass env dt ngf t) = deathCause t
   \<and> species (updateBiomass env dt ngf t) = species t
   \<and> mortality (updateBiomass env dt ngf t) = mortality t"
proof -
  from updateBiomass_shape [where env = env and dt = dt and ngf = ngf and t = t]
  obtain b where e: "updateBiomass env dt ngf t = t\<lparr>biomass := b\<rparr>"
  proof (elim disjE conjE exE)
    assume "updateBiomass env dt ngf t = t"
    then have "updateBiomass env dt ngf t = t\<lparr>biomass := biomass t\<rparr>" by simp
    then show ?thesis by (rule that)
  next
    fix tr br lv ro hw sw
    assume "updateBiomass env dt ngf t =
        t\<lparr>biomass := \<lparr>bm_total = tr + br + lv + ro, bm_trunk = tr, bm_branches = br,
                        bm_leaves = lv, bm_roots = ro, bm_heartwood = hw, bm_sapwood = sw\<rparr>\<rparr>"
    then show ?thesis by (rule that)
  qed
  show ?thesis unfolding e by simp
qed

lemma updateChlorophyll_keeps:
  "health (updateChlorophyll env dt t) = health t
   \<and> vigor (updateChlorophyll env dt t) = vigor t
   \<and> stressLevel (updateChlorophyll env dt t) = stressLevel t
   \<and> diseaseLoad (updateChlorophyll env dt t) = diseaseLoad t
   \<and> waterContent (updateChlorophyll env dt t) = waterContent t
   \<and> dormant (updateChlorophyll env dt t) = dormant t
   \<and> deathCause (updateChlorophyll env dt t) = deathCause t
   \<and> species (updateChlorophyll env dt t) = species t
   \<and> mortality (updateChlorophyll env dt t) = mortality t
   \<and> biomass (updateChlorophyll env dt t) = biomass t"
  unfolding updateChlorophyll_shape [of env dt t] by simp

lemma updateVitality_keeps:
  "chlorophyllContent (updateVitality env dt ngf h t) = chlorophyllContent t
   \<and> waterContent (updateVitality env dt ngf h t) = waterContent t
   \<and> dormant (updateVitality env dt ngf h t) = dormant t
   \<and> deathCause (updateVitality env dt ngf h t) = deathCause t
   \<and> species (updateVitality env dt ngf h t) = species t
   \<and> mortality (updateVitality env dt ngf h t) = mortality t
   \<and> biomass (updateVitality env dt ngf h t) = biomass t"
  by (simp add: updateVitality_def)


lemma updateVitality_fields:
  "health (updateVitality env dt ngf h t) = h
   \<and> vigor (updateVitality env dt ngf h t) = clamp (vigor t * 0.98 + (h * ngf) * 0.02) 0 100
   \<and> stressLevel (updateVitality env dt ngf h t)
       = clamp (stressLevel t * 0.95 + calculateTotalStress env * 30 * dt) 0 100
   \<and> diseaseLoad (updateVitality env dt ngf h t)
       = (if disease env then min 100 (diseaseLoad t + dt * 2 * (100 - h) / 100)
          else max 0 (diseaseLoad t - dt * 0.5))"
  by (simp add: updateVitality_def)

lemma waterDynamics_waterContent:
  "0 \<le> waterContent (waterDynamics env dt t) \<and> waterContent (waterDynamics env dt t) \<le> 100"
proof -
  from waterDynamics_shape [of env dt t] obtain a b
    where e: "waterDynamics env dt t = t\<lparr>waterContent := clamp a 0 100, waterTranspired := b\<rparr>"
    by blast
  show ?thesis unfolding e by (simp add: clamp_def)
qed

lemma updateBiomass_consistent:
  "biomassConsistent t \<or> 0 < ngf \<Longrightarrow> biomassConsistent (updateBiomass env dt ngf t)"
proof -
  assume a: "biomassConsistent t \<or> 0 < ngf"
  from updateBiomass_shape [where env = env and dt = dt and ngf = ngf and t = t] show ?thesis
  proof (elim disjE conjE exE)
    assume "ngf \<le> 0" and e: "updateBiomass env dt ngf t = t"
    with a show ?thesis by simp
  next
    fix tr br lv ro hw sw
    assume e: "updateBiomass env dt ngf t =
        t\<lparr>biomass := \<lparr>bm_total = tr + br + lv + ro, bm_trunk = tr, bm_branches = br,
                        bm_leaves = lv, bm_roots = ro, bm_heartwood = hw, bm_sapwood = sw\<rparr>\<rparr>"
    show ?thesis unfolding e by (simp add: biomassConsistent_def)
  qed
qed

lemmas phase_keeps =
  updateVitality_keeps updateFoliage_keeps physicalGrowth_keeps updateBiomass_keeps
  gasExchange_keeps waterDynamics_keeps updateChlorophyll_keeps

lemma physiology_fields:
  "health (physiology cfg env dt ngf dorm h t) = h
   \<and> dormant (physiology cfg env dt ngf dorm h t) = dormant t
   \<and> deathCause (physiology cfg env dt ngf dorm h t) = deathCause t
   \<and> species (physiology cfg env dt ngf dorm h t) = species t
   \<and> mortality (physiology cfg env dt ngf dorm h t) = mortality t
   \<and> vigor (physiology cfg env dt ngf dorm h t) = clamp (vigor t * 0.98 + (h * ngf) * 0.02) 0 100
   \<and> stressLevel (physiology cfg env dt ngf dorm h t)
       = clamp (stressLevel t * 0.95 + calculateTotalStress env * 30 * dt) 0 100
   \<and> diseaseLoad (physiology cfg env dt ngf dorm h t)
       = (if disease env then min 100 (diseaseLoad t + dt * 2 * (100 - h) / 100)
          else max 0 (diseaseLoad t - dt * 0.5))"
  unfolding physiology_def Let_def by (simp add: phase_keeps updateVitality_fields)

lemma physiology_waterContent:
  "0 \<le> waterContent (physiology cfg env dt ngf dorm h t)
   \<and> waterContent (physiology cfg env dt ngf dorm h t) \<le> 100"
  unfolding physiology_def Let_def by (simp add: phase_keeps waterDynamics_waterContent)

lemma physiology_chlorophyll:
  assumes "0 \<le> dt" and "0 \<le> chlorophyllContent t" and "chlorophyllContent t \<le> 100"
  shows "0 \<le> chlorophyllContent (physiology cfg env dt ngf dorm h t)
   \<and> chlorophyllContent (physiology cfg env dt ngf dorm h t) \<le> 100"
proof -
  let ?t8 = "waterDynamics env dt (gasExchange cfg env dt dorm (updateBiomass env dt ngf
               (physicalGrowth cfg env dt ngf dorm (updateFoliage env dt (updateVitality env dt ngf h t)))))"
  have p: "physiology cfg env dt ngf dorm h t = updateChlorophyll env dt ?t8"
    by (simp add: physiology_def Let_def)
  have c: "chlorophyllContent ?t8 = chlorophyllContent t" by (simp add: phase_keeps)
  have sp: "species ?t8 = species t" by (simp add: phase_keeps)
  from getSeasonProgress_range [of "dayOfYear env"] assms show ?thesis
    unfolding p updateChlorophyll_shape [of env dt ?t8] by (auto simp add: c sp max_def min_def)
qed

lemma physiology_vital:
  assumes "0 \<le> dt" and "vital t" and "0 \<le> h" and "h \<le> 100"
  shows "vital (physiology cfg env dt ngf dorm h t)"
proof -
  from assms(2) have ch: "0 \<le> chlorophyllContent t" "chlorophyllContent t \<le> 100"
    and dl: "0 \<le> diseaseLoad t" "diseaseLoad t \<le> 100" by (simp_all add: vital_def)
  have d1: "0 \<le> dt * 2 * (100 - h) / 100" using assms(1,4) by simp
  have d2: "0 \<le> dt * 0.5" using assms(1) by simp
  note f = physiology_fields [of cfg env dt ngf dorm h t]
  have dis: "0 \<le> diseaseLoad (physiology cfg env dt ngf dorm h t)
      \<and> diseaseLoad (physiology cfg env dt ngf dorm h t) \<le> 100"
    using f dl d1 d2 by auto
  have vg: "0 \<le> vigor (physiology cfg env dt ngf dorm h t)
      \<and> vigor (physiology cfg env dt ngf dorm h t) \<le> 100"
    using f by (simp add: clamp_def)
  have sl: "0 \<le> stressLevel (physiology cfg env dt ngf dorm h t)
      \<and> stressLevel (physiology cfg env dt ngf dorm h t) \<le> 100"
    using f by (simp add: clamp_def)
  have hl: "health (physiology cfg env dt ngf dorm h t) = h" using f by simp
  from physiology_chlorophyll [OF assms(1) ch, of cfg env ngf dorm h]
    physiology_waterContent [of cfg env dt ngf dorm h t] dis vg sl assms(3,4)
  show ?thesis unfolding vital_def hl by blast
qed

lemma physiology_biomass:
  assumes "biomassConsistent t"
  shows "biomassConsistent (physiology cfg env dt ngf dorm h t)"
proof -
  let ?t5 = "physicalGrowth cfg env dt ngf dorm (updateFoliage env dt (updateVitality env dt ngf h t))"
  have "biomass ?t5 = biomass t" by (simp add: phase_keeps)
  with assms have "biomassConsistent ?t5" by (simp add: biomassConsistent_def)
  then have "biomassConsistent (updateBiomass env dt ngf ?t5)"
    by (simp add: updateBiomass_consistent)
  moreover have "biomass (physiology cfg env dt ngf dorm h t) = biomass (updateBiomass env dt ngf ?t5)"
    unfolding physiology_def Let_def by (simp add: phase_keeps)
  ultimately show ?thesis by (simp add: biomassConsistent_def)
qed

section \<open>Generator state and invariants of a substep\<close>

lemma fold_snd_invariant:
  assumes "\<And>x s. P (snd s) \<Longrightarrow> P (snd (f x s))" and "P (snd s0)"
  shows "P (snd (fold f xs s0))"
  using assms(2) by (induction xs arbitrary: s0) (simp_all add: assms(1))

lemma random_ok: "state_ok p \<Longrightarrow> state_ok (snd (random p))"
  using random_range [of p] by simp

lemma random2_ok: "state_ok p \<Longrightarrow> state_ok (snd (random2 a b p))"
  by (simp add: random2_def split_beta random_ok)

lemma randomInt_ok: "state_ok p \<Longrightarrow> state_ok (snd (randomInt a b p))"
  by (simp add: randomInt_def split_beta random_ok)

lemma randomChoice_ok: "state_ok p \<Longrightarrow> state_ok (snd (randomChoice xs p))"
  by (simp add: randomChoice_def split_beta Let_def random_ok)

lemma createBranch_ok:
  "state_ok (snd bp) \<Longrightarrow> state_ok (snd (createBranch cfg x0 y0 ang len thick d parentIndex bp))"
proof (induction d arbitrary: x0 y0 ang len thick parentIndex bp)
  case 0
  then show ?case by simp
next
  case (Suc d)
  show ?case
  proof (cases "len < 0.02 \<or> thick < 0.5")
    case True
    with Suc.prems show ?thesis by simp
  next
    case False
    have step: "\<And>i acc ex ey a l th bi nc. state_ok (snd acc) \<Longrightarrow>
        state_ok (snd (let (r, q) = random2 (- 0.1) 0.1 (snd acc);
                           spread = (real i - (real_of_int nc - 1) / 2) * (BRANCH_ANGLE_BASE cfg + r)
                       in createBranch cfg ex ey (a + spread) l th d bi (fst acc, q)))"
      by (simp add: split_beta Let_def Suc.IH random2_ok)
    have pre: "\<And>q. state_ok q \<Longrightarrow> state_ok (snd (if Suc d > 3 then randomInt 2 4 q else randomInt 1 3 q))"
      by (simp add: randomInt_ok)
    show ?thesis
      unfolding createBranch.simps if_not_P [OF False] Let_def split_beta
      apply (rule fold_snd_invariant [where P = state_ok])
       apply (rule step [unfolded Let_def split_beta], assumption)
      apply (simp only: snd_conv)
      apply (intro pre random2_ok Suc.prems)
      done
  qed
qed

lemmas draw_ok = random_ok random2_ok randomInt_ok randomChoice_ok

lemma generateBranchArchitecture_ok:
  "state_ok (snd tp) \<Longrightarrow> state_ok (snd (generateBranchArchitecture cfg tp))"
  by (simp add: generateBranchArchitecture_def Let_def split_beta createBranch_ok)

lemma if_snd_invariant: "P (snd a) \<Longrightarrow> P (snd b) \<Longrightarrow> P (snd (if c then a else b))"
  by simp

lemma leafClusterStep_ok: "state_ok (snd cp) \<Longrightarrow> state_ok (snd (leafClusterStep t cp))"
  unfolding leafClusterStep_def Let_def split_beta
  apply (rule if_snd_invariant [where P = state_ok])
   apply (simp_all only: snd_conv)
   apply (intro draw_ok, assumption)+
  done

lemma generateLeafClusters_ok:
  "state_ok (snd tp) \<Longrightarrow> state_ok (snd (generateLeafClusters cfg tp))"
  unfolding generateLeafClusters_def Let_def split_beta snd_conv
  by (rule fold_snd_invariant [where P = state_ok]) (simp_all add: leafClusterStep_ok)

lemma fineRootStep_ok: "state_ok (snd fp) \<Longrightarrow> state_ok (snd (fineRootStep a d s th fp))"
  unfolding fineRootStep_def Let_def split_beta by (simp only: snd_conv draw_ok)

lemma lateralRootStep_ok: "state_ok (snd rp) \<Longrightarrow> state_ok (snd (lateralRootStep cfg t i rp))"
  unfolding lateralRootStep_def Let_def split_beta snd_conv
  by (rule fold_snd_invariant [where P = state_ok]) (simp_all only: snd_conv draw_ok fineRootStep_ok)

lemma generateRootMesh_ok:
  "state_ok (snd tp) \<Longrightarrow> state_ok (snd (generateRootMesh cfg tp))"
  unfolding generateRootMesh_def Let_def split_beta snd_conv
  by (rule fold_snd_invariant [where P = state_ok]) (simp_all only: snd_conv draw_ok lateralRootStep_ok)

lemma createFallingLeaf_ok:
  "state_ok (snd tp) \<Longrightarrow> state_ok (snd (createFallingLeaf cfg x0 y0 sn tp))"
  unfolding createFallingLeaf_def Let_def split_beta
  by (simp only: snd_conv draw_ok split: if_split) simp

lemma handleLeafDrop_ok:
  "state_ok (snd tp) \<Longrightarrow> state_ok (snd (handleLeafDrop cfg env dt tp))"
  unfolding handleLeafDrop_def Let_def split_beta
  by (simp only: snd_conv draw_ok createFallingLeaf_ok split: if_split) simp

lemma annualCycle_ok:
  "state_ok (snd tp) \<Longrightarrow> state_ok (snd (annualCycle cfg dt tp))"
  unfolding annualCycle_def Let_def
  by (simp only: snd_conv generateRootMesh_ok generateLeafClusters_ok generateBranchArchitecture_ok
        split: if_split) simp

lemma applyMortalityModel_ok:
  "state_ok (snd tp) \<Longrightarrow> state_ok (snd (applyMortalityModel cfg env dt tp))"
  by (simp add: applyMortalityModel_def Let_def split_beta random_ok split: option.split)

lemma clamp_mono: "a \<le> b \<Longrightarrow> clamp a lo hi \<le> clamp b lo hi"
  by (simp add: clamp_def min_def max_def)

lemma noisyHealth_some:
  assumes "state_ok p" and "0 < dt"
  shows "\<exists>h. noisyHealth a b dt (fst (randomGaussian 0 0.3 p)) = Some h
           \<and> 0 \<le> h \<and> h \<le> 100 \<and> clamp (a + (b * dt - 12 / 5 * dt)) 0 100 \<le> h"
proof -
  from randomGaussian_cases [OF assms(1)] show ?thesis
  proof (elim disjE exE conjE)
    fix z assume g: "fst (randomGaussian 0 0.3 p) = Finite z" and z: "\<bar>z\<bar> \<le> 12 / 5"
    from z have "- (12 / 5) \<le> z" by linarith
    then have "- (12 / 5) * dt \<le> z * dt" using assms(2) by (intro mult_right_mono) simp_all
    then have "a + (b * dt - 12 / 5 * dt) \<le> a + (b * dt + z * dt)" by simp
    then have "clamp (a + (b * dt - 12 / 5 * dt)) 0 100 \<le> clamp (a + (b * dt + z * dt)) 0 100"
      by (rule clamp_mono)
    moreover have "0 \<le> clamp (a + (b * dt + z * dt)) 0 100 \<and> clamp (a + (b * dt + z * dt)) 0 100 \<le> 100"
      by (rule clamp_range) simp
    ultimately show ?thesis by (simp add: noisyHealth_def g)
  next
    assume g: "fst (randomGaussian 0 0.3 p) = PlusInfinity"
    have "clamp (a + (b * dt - 12 / 5 * dt)) 0 100 \<le> 100"
      using clamp_range [of 0 100 "a + (b * dt - 12 / 5 * dt)"] by simp
    with assms(2) show ?thesis by (simp add: noisyHealth_def g)
  qed
qed

lemma applyMortalityModel_shape:
  "fst (applyMortalityModel cfg env dt (t, p)) = t
   \<or> (\<exists>c. fst (applyMortalityModel cfg env dt (t, p)) = t\<lparr>health := 0, deathCause := Some c\<rparr>)"
  by (auto simp add: applyMortalityModel_def Let_def split_beta split: option.split)

lemma sameBiology_vital: "sameBiology t t' \<Longrightarrow> vital t \<Longrightarrow> vital t'"
  by (simp add: sameBiology_def vital_def)

lemma sameBiology_biomass: "sameBiology t t' \<Longrightarrow> biomassConsistent t \<Longrightarrow> biomassConsistent t'"
  by (simp add: sameBiology_def biomassConsistent_def)

lemma updateBiology_live_eq:
  assumes "0 < health (w_tree w)"
    and "env1 = updateEnvironmentTime dt (w_environment w)"
    and "applyMortalityModel cfg env1 dt (w_tree w, w_prng w) = (t1, p1)"
    and "0 < health t1"
    and "noisyHealth (health t1) (healthDelta env1 (t1\<lparr>dormant := isDormant env1 t1\<rparr>)
           (netGrowthFactor env1 t1)) dt (fst (randomGaussian 0 0.3 p1)) = Some h"
    and "t9 = physiology cfg env1 dt (netGrowthFactor env1 t1) (isDormant env1 t1) h
                (t1\<lparr>dormant := isDormant env1 t1\<rparr>)"
    and "b = handleLeafDrop cfg env1 dt (annualCycle cfg dt (t9, snd (randomGaussian 0 0.3 p1)))"
  shows "updateBiology cfg fc dt w =
      Some (w\<lparr>w_environment := env1\<lparr>totalStress := calculateTotalStress env1,
                                         waterAvailability := water env1\<rparr>,
               w_prng := snd b, w_tree := updateLeafDrops dt (windSpeed env1) (fst b),
               w_healthHistory := recordHealth cfg fc (updateLeafDrops dt (windSpeed env1) (fst b))
                                    (w_healthHistory w)\<rparr>)"
  using assms by (simp add: updateBiology_def Let_def split_beta not_le)

lemma live_tail_same:
  "sameBiology t9 (updateLeafDrops dt wind
      (fst (handleLeafDrop cfg env dt (annualCycle cfg dt' (t9, p)))))"
  using annualCycle_same [of "(t9, p)" cfg dt'] handleLeafDrop_same [of "annualCycle cfg dt' (t9, p)" cfg env dt]
    updateLeafDrops_same [of "fst (handleLeafDrop cfg env dt (annualCycle cfg dt' (t9, p)))" dt wind]
  by (auto intro: sameBiology_trans)

lemma updateBiology_step:
  assumes ok: "state_ok (w_prng w)" and dt: "0 < dt"
  shows "\<exists>w'. updateBiology cfg fc dt w = Some w' \<and> state_ok (w_prng w')
           \<and> (vital (w_tree w) \<longrightarrow> vital (w_tree w'))
           \<and> (biomassConsistent (w_tree w) \<longrightarrow> biomassConsistent (w_tree w'))"
proof (cases "health (w_tree w) \<le> 0")
  case True
  from updateLeafDrops_same [of "w_tree w" dt "windSpeed (w_environment w)"] ok
  show ?thesis
    unfolding updateBiology_dead [OF True]
    by (auto intro: sameBiology_vital sameBiology_biomass)
next
  case False
  then have alive: "0 < health (w_tree w)" by simp
  define env1 where "env1 = updateEnvironmentTime dt (w_environment w)"
  define t1 where "t1 = fst (applyMortalityModel cfg env1 dt (w_tree w, w_prng w))"
  define p1 where "p1 = snd (applyMortalityModel cfg env1 dt (w_tree w, w_prng w))"
  have am: "applyMortalityModel cfg env1 dt (w_tree w, w_prng w) = (t1, p1)"
    by (simp add: t1_def p1_def)
  have ok1: "state_ok p1"
    unfolding p1_def using ok by (intro applyMortalityModel_ok) simp
  have v1: "vital (w_tree w) \<longrightarrow> vital t1"
    using applyMortalityModel_shape [of cfg env1 dt "w_tree w" "w_prng w"]
    unfolding t1_def [symmetric] by (auto simp add: vital_def)
  have b1: "biomassConsistent (w_tree w) \<longrightarrow> biomassConsistent t1"
    using applyMortalityModel_shape [of cfg env1 dt "w_tree w" "w_prng w"]
    unfolding t1_def [symmetric] by (auto simp add: biomassConsistent_def)
  show ?thesis
  proof (cases "health t1 \<le> 0")
    case True
    then have k: "health (fst (applyMortalityModel cfg (updateEnvironmentTime dt (w_environment w)) dt
                        (w_tree w, w_prng w))) \<le> 0"
      by (simp add: t1_def env1_def)
    from updateLeafDrops_same [of t1 dt "windSpeed env1"] ok1 v1 b1
    show ?thesis
      unfolding updateBiology_killed [OF alive k] env1_def [symmetric] t1_def [symmetric] p1_def [symmetric]
      by (auto intro: sameBiology_vital sameBiology_biomass)
  next
    case False
    then have alive1: "0 < health t1" by simp
    define t2 where "t2 = t1\<lparr>dormant := isDormant env1 t1\<rparr>"
    from noisyHealth_some [OF ok1 dt, of "health t1" "healthDelta env1 t2 (netGrowthFactor env1 t1)"]
    obtain h where nh: "noisyHealth (health t1) (healthDelta env1 t2 (netGrowthFactor env1 t1)) dt
                          (fst (randomGaussian 0 0.3 p1)) = Some h"
      and h: "0 \<le> h" "h \<le> 100" by blast
    define t9 where "t9 = physiology cfg env1 dt (netGrowthFactor env1 t1) (isDormant env1 t1) h t2"
    define b where "b = handleLeafDrop cfg env1 dt (annualCycle cfg dt (t9, snd (randomGaussian 0 0.3 p1)))"
    note eq = updateBiology_live_eq [OF alive env1_def am alive1 nh [unfolded t2_def]
                t9_def [unfolded t2_def] b_def, of fc]
    have same: "sameBiology t9 (updateLeafDrops dt (windSpeed env1) (fst b))"
      unfolding b_def by (rule live_tail_same)
    have okb: "state_ok (snd b)"
      unfolding b_def
      by (intro handleLeafDrop_ok annualCycle_ok) (simp add: randomGaussian_state_ok ok1)
    have v2: "vital t1 \<Longrightarrow> vital t2" and b2: "biomassConsistent t1 \<Longrightarrow> biomassConsistent t2"
      by (simp_all add: t2_def vital_def biomassConsistent_def)
    have v9: "vital t1 \<Longrightarrow> vital t9"
      unfolding t9_def using dt h by (intro physiology_vital v2) simp_all
    have b9: "biomassConsistent t1 \<Longrightarrow> biomassConsistent t9"
      unfolding t9_def by (intro physiology_biomass b2)
    from same okb v1 b1 v9 b9 show ?thesis
      unfolding eq by (auto intro: sameBiology_vital sameBiology_biomass)
  qed
qed

section \<open>Runs of substeps: clamp invariant and biomass total\<close>

lemma substep_step:
  assumes "state_ok (w_prng w)" and "0 < dt"
  shows "\<exists>w'. substep cfg dt fu w = Some w' \<and> state_ok (w_prng w')
           \<and> (vital (w_tree w) \<longrightarrow> vital (w_tree w'))
           \<and> (biomassConsistent (w_tree w) \<longrightarrow> biomassConsistent (w_tree w'))"
proof -
  define w0 where "w0 = w\<lparr>w_environment := updateEnvironmentFromUI (snd fu) (w_environment w)\<rparr>"
  have p: "w_prng w0 = w_prng w" and t: "w_tree w0 = w_tree w" by (simp_all add: w0_def)
  have ok: "state_ok (w_prng w0)" unfolding p by (rule assms(1))
  have s: "substep cfg dt fu w = updateBiology cfg (fst fu) dt w0"
    by (simp add: substep_def w0_def)
  show ?thesis
    unfolding s t [symmetric] by (rule updateBiology_step [OF ok assms(2)])
qed

lemma run_invariant:
  "state_ok (w_prng w) \<Longrightarrow> 0 < dt \<Longrightarrow>
   \<exists>ws. run cfg dt fus w = Some ws \<and> length ws = length fus
     \<and> (vital (w_tree w) \<longrightarrow> (\<forall>w' \<in> set ws. vital (w_tree w')))
     \<and> (biomassConsistent (w_tree w) \<longrightarrow> (\<forall>w' \<in> set ws. biomassConsistent (w_tree w')))"
proof (induction fus arbitrary: w)
  case Nil
  then show ?case by simp
next
  case (Cons fu fus)
  from substep_step [OF Cons.prems, of cfg fu] obtain w1
    where c1: "substep cfg dt fu w = Some w1 \<and> state_ok (w_prng w1)
           \<and> (vital (w_tree w) \<longrightarrow> vital (w_tree w1))
           \<and> (biomassConsistent (w_tree w) \<longrightarrow> biomassConsistent (w_tree w1))" ..
  note s = c1 [THEN conjunct1] and ok = c1 [THEN conjunct2, THEN conjunct1]
    and v = c1 [THEN conjunct2, THEN conjunct2, THEN conjunct1]
    and b = c1 [THEN conjunct2, THEN conjunct2, THEN conjunct2]
  from Cons.IH [OF ok Cons.prems(2)] obtain ws
    where c2: "run cfg dt fus w1 = Some ws \<and> length ws = length fus
     \<and> (vital (w_tree w1) \<longrightarrow> (\<forall>w' \<in> set ws. vital (w_tree w')))
     \<and> (biomassConsistent (w_tree w1) \<longrightarrow> (\<forall>w' \<in> set ws. biomassConsistent (w_tree w')))" ..
  note r = c2 [THEN conjunct1] and l = c2 [THEN conjunct2, THEN conjunct1]
    and vs = c2 [THEN conjunct2, THEN conjunct2, THEN conjunct1]
    and bs = c2 [THEN conjunct2, THEN conjunct2, THEN conjunct2]
  show ?case
  proof (intro exI conjI)
    show "run cfg dt (fu # fus) w = Some (w1 # ws)" by (simp add: s r)
    show "length (w1 # ws) = length (fu # fus)" using l by simp
    show "vital (w_tree w) \<longrightarrow> (\<forall>w' \<in> set (w1 # ws). vital (w_tree w'))"
    proof (rule impI, rule ballI)
      fix w' assume a: "vital (w_tree w)" and m: "w' \<in> set (w1 # ws)"
      note a1 = v [THEN mp, OF a]
      note a2 = vs [THEN mp, OF a1]
      from set_ConsD [OF m] show "vital (w_tree w')"
      proof
        assume "w' = w1" then show ?thesis by (simp only: a1)
      next
        assume "w' \<in> set ws" then show ?thesis by (rule a2 [THEN bspec])
      qed
    qed
    show "biomassConsistent (w_tree w) \<longrightarrow> (\<forall>w' \<in> set (w1 # ws). biomassConsistent (w_tree w'))"
    proof (rule impI, rule ballI)
      fix w' assume a: "biomassConsistent (w_tree w)" and m: "w' \<in> set (w1 # ws)"
      note a1 = b [THEN mp, OF a]
      note a2 = bs [THEN mp, OF a1]
      from set_ConsD [OF m] show "biomassConsistent (w_tree w')"
      proof
        assume "w' = w1" then show ?thesis by (simp only: a1)
      next
        assume "w' \<in> set ws" then show ?thesis by (rule a2 [THEN bspec])
      qed
    qed
  qed
qed

text \<open>
  C3. From a tree state whose vitality fields lie in \<open>[0, 100]\<close> and a generator state in
  range, a run of any number of substeps of size \<open>dt > 0\<close>, for any environment inputs
  between the substeps, returns a state after every substep, and in each of these states
  health, vigor, stressLevel, diseaseLoad, chlorophyllContent and waterContent lie in
  \<open>[0, 100]\<close>.
\<close>

theorem C3_vitality_fields_stay_clamped:
  assumes "state_ok (w_prng w)" and "0 < dt" and "vital (w_tree w)"
  shows "\<exists>ws. run cfg dt fus w = Some ws \<and> length ws = length fus
     \<and> (\<forall>w' \<in> set ws.
           0 \<le> health (w_tree w') \<and> health (w_tree w') \<le> 100
         \<and> 0 \<le> vigor (w_tree w') \<and> vigor (w_tree w') \<le> 100
         \<and> 0 \<le> stressLevel (w_tree w') \<and> stressLevel (w_tree w') \<le> 100
         \<and> 0 \<le> diseaseLoad (w_tree w') \<and> diseaseLoad (w_tree w') \<le> 100
         \<and> 0 \<le> chlorophyllContent (w_tree w') \<and> chlorophyllContent (w_tree w') \<le> 100
         \<and> 0 \<le> waterContent (w_tree w') \<and> waterContent (w_tree w') \<le> 100)"
proof -
  from run_invariant [OF assms(1,2), of cfg fus] obtain ws
    where c: "run cfg dt fus w = Some ws \<and> length ws = length fus
     \<and> (vital (w_tree w) \<longrightarrow> (\<forall>w' \<in> set ws. vital (w_tree w')))
     \<and> (biomassConsistent (w_tree w) \<longrightarrow> (\<forall>w' \<in> set ws. biomassConsistent (w_tree w')))" ..
  note r = c [THEN conjunct1] and l = c [THEN conjunct2, THEN conjunct1]
  note v = c [THEN conjunct2, THEN conjunct2, THEN conjunct1, THEN mp, OF assms(3)]
  note v' = v [unfolded vital_def]
  show ?thesis by (rule exI [of _ ws]) (rule conjI [OF r conjI [OF l v']])
qed

theorem C3_vitality_fields_stay_clamped_witness:
  "state_ok (w_prng (world0 exampleConfig 12345)) \<and> (0::real) < 1 / 60
   \<and> vital (w_tree (world0 exampleConfig 12345))
   \<and> (\<exists>ws. run exampleConfig (1 / 60) [(0, ui0), (0, ui0), (1, ui0)] (world0 exampleConfig 12345) = Some ws
         \<and> length ws = length [(0::int, ui0), (0, ui0), (1, ui0)]
         \<and> list_all (\<lambda>w'. 0 \<le> health (w_tree w') \<and> health (w_tree w') \<le> 100
                         \<and> 0 \<le> vigor (w_tree w') \<and> vigor (w_tree w') \<le> 100
                         \<and> 0 \<le> stressLevel (w_tree w') \<and> stressLevel (w_tree w') \<le> 100
                         \<and> 0 \<le> diseaseLoad (w_tree w') \<and> diseaseLoad (w_tree w') \<le> 100
                         \<and> 0 \<le> chlorophyllContent (w_tree w') \<and> chlorophyllContent (w_tree w') \<le> 100
                         \<and> 0 \<le> waterContent (w_tree w') \<and> waterContent (w_tree w') \<le> 100) ws)"
proof -
  have h1: "state_ok (w_prng (world0 exampleConfig 12345))"
    by (simp add: world0_def state_ok_def)
  have h2: "(0::real) < 1 / 60" by simp
  have h3: "vital (w_tree (world0 exampleConfig 12345))"
    by (simp add: world0_def tree0_def vital_def)
  note t = C3_vitality_fields_stay_clamped
             [OF h1 h2 h3, of exampleConfig "[(0, ui0), (0, ui0), (1, ui0)]", folded list_all_iff]
  show ?thesis by (rule conjI [OF h1 conjI [OF h2 conjI [OF h3 t]]])
qed

text \<open>
  C4. From a tree state whose \<open>biomass.total\<close> is the sum of trunk, branches, leaves and
  roots (as in the \<open>tree\<close> literal and after \<open>initializeTree\<close>), \<open>biomass.total\<close> is that sum
  after every substep of a run: a substep with a net growth factor that is zero or negative
  leaves the biomass as it is, and a substep that allocates recomputes the total as the sum
  of the four compartments, whatever the total was before.
\<close>

theorem C4_biomass_total_is_sum:
  assumes "state_ok (w_prng w)" and "0 < dt" and "biomassConsistent (w_tree w)"
  shows "(\<exists>ws. run cfg dt fus w = Some ws \<and> length ws = length fus
     \<and> (\<forall>w' \<in> set ws.
           bm_total (biomass (w_tree w'))
             = bm_trunk (biomass (w_tree w')) + bm_branches (biomass (w_tree w'))
               + bm_leaves (biomass (w_tree w')) + bm_roots (biomass (w_tree w'))))
     \<and> (\<forall>env g t. g \<le> 0 \<longrightarrow> updateBiomass env dt g t = t)
     \<and> (\<forall>env g t. 0 < g \<longrightarrow>
           bm_total (biomass (updateBiomass env dt g t))
             = bm_trunk (biomass (updateBiomass env dt g t))
               + bm_branches (biomass (updateBiomass env dt g t))
               + bm_leaves (biomass (updateBiomass env dt g t))
               + bm_roots (biomass (updateBiomass env dt g t)))"
proof -
  from run_invariant [OF assms(1,2), of cfg fus] obtain ws
    where c: "run cfg dt fus w = Some ws \<and> length ws = length fus
     \<and> (vital (w_tree w) \<longrightarrow> (\<forall>w' \<in> set ws. vital (w_tree w')))
     \<and> (biomassConsistent (w_tree w) \<longrightarrow> (\<forall>w' \<in> set ws. biomassConsistent (w_tree w')))" ..
  note r = c [THEN conjunct1] and l = c [THEN conjunct2, THEN conjunct1]
  note v = c [THEN conjunct2, THEN conjunct2, THEN conjunct2, THEN mp, OF assms(3)]
  note v' = v [unfolded biomassConsistent_def]
  have a: "\<exists>ws. run cfg dt fus w = Some ws \<and> length ws = length fus
     \<and> (\<forall>w' \<in> set ws.
           bm_total (biomass (w_tree w'))
             = bm_trunk (biomass (w_tree w')) + bm_branches (biomass (w_tree w'))
               + bm_leaves (biomass (w_tree w')) + bm_roots (biomass (w_tree w')))"
    by (rule exI [of _ ws]) (rule conjI [OF r conjI [OF l v']])
  have b: "\<forall>env g t. g \<le> 0 \<longrightarrow> updateBiomass env dt g t = t"
    by (simp add: updateBiomass_def)
  have c: "\<forall>env g t. 0 < g \<longrightarrow> biomassConsistent (updateBiomass env dt g t)"
    by (simp add: updateBiomass_consistent)
  note c' = c [unfolded biomassConsistent_def]
  show ?thesis by (rule conjI [OF a conjI [OF b c']])
qed

theorem C4_biomass_total_is_sum_witness:
  "state_ok (w_prng (world0 exampleConfig 12345)) \<and> (0::real) < 1 / 60
   \<and> biomassConsistent (w_tree (world0 exampleConfig 12345))
   \<and> (\<exists>ws. run exampleConfig (1 / 60) [(0, ui0), (0, ui0), (1, ui0)] (world0 exampleConfig 12345) = Some ws
         \<and> length ws = length [(0::int, ui0), (0, ui0), (1, ui0)]
         \<and> list_all (\<lambda>w'. bm_total (biomass (w_tree w'))
             = bm_trunk (biomass (w_tree w')) + bm_branches (biomass (w_tree w'))
               + bm_leaves (biomass (w_tree w')) + bm_roots (biomass (w_tree w'))) ws)"
proof -
  have h1: "state_ok (w_prng (world0 exampleConfig 12345))"
    by (simp add: world0_def state_ok_def)
  have h2: "(0::real) < 1 / 60" by simp
  have h3: "biomassConsistent (w_tree (world0 exampleConfig 12345))"
    by (simp add: world0_def tree0_def biomass0_def biomassConsistent_def)
  note t = C4_biomass_total_is_sum
             [OF h1 h2 h3, of exampleConfig "[(0, ui0), (0, ui0), (1, ui0)]", THEN conjunct1,
              folded list_all_iff]
  show ?thesis by (rule conjI [OF h1 conjI [OF h2 conjI [OF h3 t]]])
qed

section \<open>Winter dormancy and maximum age\<close>

lemma applyMortalityModel_species:
  "species (fst (applyMortalityModel cfg env dt (t, p))) = species t"
  using applyMortalityModel_shape [of cfg env dt t p] by auto

lemma winter_dormant:
  assumes "season env = WINTER" and "\<not> isEvergreen (speciesOf (species t))"
  shows "isDormant env t" and "netGrowthFactor env t = 0"
  using assms by (simp_all add: isDormant_def netGrowthFactor_def Let_def)

text \<open>
  C8. In a substep of size \<open>dt > 0\<close> on a living tree that survives the mortality check, if
  the season of the environment (as \<open>updateEnvironmentTime\<close> sets it at the start of the
  substep) is Winter and the species of the tree is not evergreen, then the substep returns
  a state in which the dormant flag is true, and the net growth factor computed for the
  substep is exactly 0, whatever light, water, temperature, soil and stressors are.
\<close>

theorem C8_winter_dormancy:
  assumes "state_ok (w_prng w)" and "0 < dt"
    and "season (updateEnvironmentTime dt (w_environment w)) = WINTER"
    and "\<not> isEvergreen (speciesOf (species (w_tree w)))"
    and "0 < health (w_tree w)"
    and "0 < health (fst (applyMortalityModel cfg (updateEnvironmentTime dt (w_environment w)) dt
                            (w_tree w, w_prng w)))"
  shows "\<exists>w'. updateBiology cfg fc dt w = Some w' \<and> dormant (w_tree w')
     \<and> isDormant (updateEnvironmentTime dt (w_environment w))
         (fst (applyMortalityModel cfg (updateEnvironmentTime dt (w_environment w)) dt
                 (w_tree w, w_prng w)))
     \<and> netGrowthFactor (updateEnvironmentTime dt (w_environment w))
         (fst (applyMortalityModel cfg (updateEnvironmentTime dt (w_environment w)) dt
                 (w_tree w, w_prng w))) = 0"
proof -
  define env1 where "env1 = updateEnvironmentTime dt (w_environment w)"
  define t1 where "t1 = fst (applyMortalityModel cfg env1 dt (w_tree w, w_prng w))"
  define p1 where "p1 = snd (applyMortalityModel cfg env1 dt (w_tree w, w_prng w))"
  have am: "applyMortalityModel cfg env1 dt (w_tree w, w_prng w) = (t1, p1)"
    by (simp add: t1_def p1_def)
  have ok1: "state_ok p1"
    unfolding p1_def using assms(1) by (intro applyMortalityModel_ok) simp
  have alive1: "0 < health t1" using assms(6) by (simp add: t1_def env1_def)
  have sp: "\<not> isEvergreen (speciesOf (species t1))"
    unfolding t1_def applyMortalityModel_species by (rule assms(4))
  have se: "season env1 = WINTER" unfolding env1_def by (rule assms(3))
  note d = winter_dormant(1) [OF se sp] and g = winter_dormant(2) [OF se sp]
  define t2 where "t2 = t1\<lparr>dormant := isDormant env1 t1\<rparr>"
  from noisyHealth_some [OF ok1 assms(2), of "health t1" "healthDelta env1 t2 (netGrowthFactor env1 t1)"]
  obtain h where c: "noisyHealth (health t1) (healthDelta env1 t2 (netGrowthFactor env1 t1)) dt
                          (fst (randomGaussian 0 0.3 p1)) = Some h
           \<and> 0 \<le> h \<and> h \<le> 100
           \<and> clamp (health t1 + (healthDelta env1 t2 (netGrowthFactor env1 t1) * dt - 12 / 5 * dt)) 0 100 \<le> h" ..
  note nh = c [THEN conjunct1]
  define t9 where "t9 = physiology cfg env1 dt (netGrowthFactor env1 t1) (isDormant env1 t1) h t2"
  define b where "b = handleLeafDrop cfg env1 dt (annualCycle cfg dt (t9, snd (randomGaussian 0 0.3 p1)))"
  note eq = updateBiology_live_eq [OF assms(5) env1_def am alive1 nh [unfolded t2_def]
              t9_def [unfolded t2_def] b_def, of fc]
  have s: "sameBiology t9 (updateLeafDrops dt (windSpeed env1) (fst b))"
    unfolding b_def by (rule live_tail_same)
  have d9: "dormant t9"
    unfolding t9_def using physiology_fields [of cfg env1 dt "netGrowthFactor env1 t1" "isDormant env1 t1" h t2]
    by (simp add: t2_def d)
  have d12: "dormant (updateLeafDrops dt (windSpeed env1) (fst b))"
    using s d9 by (simp add: sameBiology_def)
  have r: "dormant (w_tree (w\<lparr>w_environment := env1\<lparr>totalStress := calculateTotalStress env1,
                                         waterAvailability := water env1\<rparr>,
               w_prng := snd b, w_tree := updateLeafDrops dt (windSpeed env1) (fst b),
               w_healthHistory := recordHealth cfg fc (updateLeafDrops dt (windSpeed env1) (fst b))
                                    (w_healthHistory w)\<rparr>))"
    using d12 by simp
  have "\<exists>w'. updateBiology cfg fc dt w = Some w' \<and> dormant (w_tree w')
          \<and> isDormant env1 t1 \<and> netGrowthFactor env1 t1 = 0"
    by (rule exI, rule conjI [OF eq conjI [OF r conjI [OF d g]]])
  then show ?thesis unfolding t1_def env1_def .
qed

theorem C8_winter_dormancy_witness:
  "state_ok (w_prng (winterWorld exampleConfig 12345)) \<and> (0::real) < 1 / 60
   \<and> season (updateEnvironmentTime (1 / 60) (w_environment (winterWorld exampleConfig 12345))) = WINTER
   \<and> \<not> isEvergreen (speciesOf (species (w_tree (winterWorld exampleConfig 12345))))
   \<and> 0 < health (w_tree (winterWorld exampleConfig 12345))
   \<and> 0 < health (fst (applyMortalityModel exampleConfig
                        (updateEnvironmentTime (1 / 60) (w_environment (winterWorld exampleConfig 12345)))
                        (1 / 60)
                        (w_tree (winterWorld exampleConfig 12345), w_prng (winterWorld exampleConfig 12345))))
   \<and> (\<exists>w'. updateBiology exampleConfig 0 (1 / 60) (winterWorld exampleConfig 12345) = Some w'
         \<and> dormant (w_tree w')
         \<and> isDormant (updateEnvironmentTime (1 / 60) (w_environment (winterWorld exampleConfig 12345)))
             (fst (applyMortalityModel exampleConfig
                        (updateEnvironmentTime (1 / 60) (w_environment (winterWorld exampleConfig 12345)))
                        (1 / 60)
                        (w_tree (winterWorld exampleConfig 12345), w_prng (winterWorld exampleConfig 12345))))
         \<and> netGrowthFactor (updateEnvironmentTime (1 / 60) (w_environment (winterWorld exampleConfig 12345)))
             (fst (applyMortalityModel exampleConfig
                        (updateEnvironmentTime (1 / 60) (w_environment (winterWorld exampleConfig 12345)))
                        (1 / 60)
                        (w_tree (winterWorld exampleConfig 12345), w_prng (winterWorld exampleConfig 12345)))) = 0)"
proof -
  have h1: "state_ok (w_prng (winterWorld exampleConfig 12345))"
    by (simp add: winterWorld_def world0_def state_ok_def)
  have h2: "(0::real) < 1 / 60" by simp
  have h3: "season (updateEnvironmentTime (1 / 60) (w_environment (winterWorld exampleConfig 12345))) = WINTER"
    by (simp add: winterWorld_def updateEnvironmentTime_def seasonOfDay_def Let_def)
  have h4: "\<not> isEvergreen (speciesOf (species (w_tree (winterWorld exampleConfig 12345))))"
    by (simp add: winterWorld_def world0_def tree0_def speciesOf_def TREE_SPECIES_def OAK_def isEvergreen_def)
  have h5: "0 < health (w_tree (winterWorld exampleConfig 12345))"
    by (simp add: winterWorld_def world0_def tree0_def)
  have m: "mortality (w_tree (winterWorld exampleConfig 12345)) = None
           \<or> (\<exists>m. mortality (w_tree (winterWorld exampleConfig 12345)) = Some m \<and> \<not> enabled m)"
    by (simp add: winterWorld_def world0_def tree0_def mortality0_def)
  have h6: "0 < health (fst (applyMortalityModel exampleConfig
                        (updateEnvironmentTime (1 / 60) (w_environment (winterWorld exampleConfig 12345)))
                        (1 / 60)
                        (w_tree (winterWorld exampleConfig 12345), w_prng (winterWorld exampleConfig 12345))))"
    unfolding applyMortalityModel_disabled [OF m] fst_conv by (rule h5)
  note t = C8_winter_dormancy [OF h1 h2 h3 h4 h5 h6, of 0]
  show ?thesis by (rule conjI [OF h1 conjI [OF h2 conjI [OF h3 conjI [OF h4 conjI [OF h5 conjI [OF h6 t]]]]]])
qed

lemma netGrowthFactor_nonneg: "0 \<le> netGrowthFactor env t"
  by (simp add: netGrowthFactor_def)

lemma initPRNG_forgets: "initPRNG s p = initPRNG s p'"
  by (cases p, cases p') (simp add: initPRNG_def)

lemma run_reseeded:
  "run cfg dt fus (w\<lparr>w_prng := initPRNG s p\<rparr>) = run cfg dt fus (w\<lparr>w_prng := initPRNG s p'\<rparr>)"
  by (simp only: initPRNG_forgets [of s p p'])

text \<open>
  C2, as the claim words it, fails on the \<open>tree\<close> literal itself: its mortality model is
  switched off (\<open>mortality.enabled\<close> is false until the configuration switches it on), so at
  the age \<open>maxAge = CONFIG.TREE_MAX_AGE = 600\<close> a substep leaves the tree alive and without a
  death cause.
\<close>

theorem C2_counterexample:
  "age (w_tree (agedWorld exampleConfig 12345 (tree0 exampleConfig))) = 600
   \<and> (\<exists>m. mortality (w_tree (agedWorld exampleConfig 12345 (tree0 exampleConfig))) = Some m
          \<and> maxAge m = Some 600)
   \<and> (\<exists>w'. updateBiology exampleConfig 0 (1 / 60)
              (agedWorld exampleConfig 12345 (tree0 exampleConfig)) = Some w'
          \<and> 0 < health (w_tree w') \<and> deathCause (w_tree w') = None)"
proof -
  define W where "W = agedWorld exampleConfig 12345 (tree0 exampleConfig)"
  define env1 where "env1 = updateEnvironmentTime (1 / 60) (w_environment W)"
  define t2 where "t2 = (w_tree W)\<lparr>dormant := isDormant env1 (w_tree W)\<rparr>"
  have a: "age (w_tree W) = 600"
    by (simp add: W_def agedWorld_def exampleConfig_def CONFIG_def)
  have m: "\<exists>m. mortality (w_tree W) = Some m \<and> maxAge m = Some 600"
    by (simp add: W_def agedWorld_def tree0_def mortality0_def exampleConfig_def CONFIG_def)
  have alive: "0 < health (w_tree W)" by (simp add: W_def agedWorld_def tree0_def)
  have h100: "health (w_tree W) = 100" by (simp add: W_def agedWorld_def tree0_def)
  have ok: "state_ok (w_prng W)" by (simp add: W_def agedWorld_def world0_def state_ok_def)
  have off: "mortality (w_tree W) = None \<or> (\<exists>m. mortality (w_tree W) = Some m \<and> \<not> enabled m)"
    by (simp add: W_def agedWorld_def tree0_def mortality0_def)
  note am = applyMortalityModel_disabled [OF off, of exampleConfig env1 "1 / 60" "w_prng W"]
  have st: "calculateTotalStress env1 = 0"
    by (simp add: env1_def W_def agedWorld_def world0_def environment0_def updateEnvironmentTime_def
          calculateTotalStress_def Let_def)
  have ph: "photoRate env1 = 49 / 100"
    by (simp add: env1_def W_def agedWorld_def world0_def environment0_def updateEnvironmentTime_def
          photoRate_def calculatePhotosynthesis_def Let_def)
  have sl: "stressLevel t2 = 0" by (simp add: t2_def W_def agedWorld_def tree0_def)
  have hd: "0 \<le> healthDelta env1 t2 (netGrowthFactor env1 (w_tree W))"
    using netGrowthFactor_nonneg [of env1 "w_tree W"] by (simp add: healthDelta_def Let_def st ph sl)
  from noisyHealth_some [OF ok, of "1 / 60" "health (w_tree W)"
         "healthDelta env1 t2 (netGrowthFactor env1 (w_tree W))"]
  obtain h where c: "noisyHealth (health (w_tree W)) (healthDelta env1 t2 (netGrowthFactor env1 (w_tree W)))
                        (1 / 60) (fst (randomGaussian 0 0.3 (w_prng W))) = Some h
           \<and> 0 \<le> h \<and> h \<le> 100
           \<and> clamp (health (w_tree W) + (healthDelta env1 t2 (netGrowthFactor env1 (w_tree W)) * (1 / 60)
                       - 12 / 5 * (1 / 60))) 0 100 \<le> h"
    by auto
  note nh = c [THEN conjunct1] and lb = c [THEN conjunct2, THEN conjunct2, THEN conjunct2]
  have "clamp 99 0 100 \<le> clamp (health (w_tree W)
          + (healthDelta env1 t2 (netGrowthFactor env1 (w_tree W)) * (1 / 60) - 12 / 5 * (1 / 60))) 0 100"
    using hd by (intro clamp_mono) (simp add: h100)
  with lb have hpos: "0 < h" by (simp add: clamp_def)
  from updateBiology_live [OF alive env1_def am alive nh [unfolded t2_def], of 0]
  obtain w' where u: "updateBiology exampleConfig 0 (1 / 60) W = Some w'"
    and s: "sameBiology (physiology exampleConfig env1 (1 / 60) (netGrowthFactor env1 (w_tree W))
                           (isDormant env1 (w_tree W)) h t2) (w_tree w')"
    unfolding t2_def by blast
  note f = physiology_fields [of exampleConfig env1 "1 / 60" "netGrowthFactor env1 (w_tree W)"
             "isDormant env1 (w_tree W)" h t2]
  have hw: "health (w_tree w') = h" using s f by (simp add: sameBiology_def)
  have dc: "deathCause (w_tree w') = None"
    using s f by (simp add: sameBiology_def t2_def W_def agedWorld_def tree0_def)
  have r: "\<exists>w'. updateBiology exampleConfig 0 (1 / 60) W = Some w'
          \<and> 0 < health (w_tree w') \<and> deathCause (w_tree w') = None"
    using u hw dc hpos by simp
  show ?thesis using a m r unfolding W_def by (intro conjI)
qed

text \<open>
  C2. For a living tree whose mortality model is switched on and whose age is at least its
  finite \<open>maxAge\<close>, one substep returns the tree dead (health 0) with the cause
  \<open>'Old age'\<close>; the seeded generator is left as it was, and the result is the same for every
  state of the generator.
\<close>

theorem C2_old_age_is_deterministic:
  assumes "0 < health (w_tree w)" and "mortality (w_tree w) = Some m" and "enabled m"
    and "maxAge m = Some mx" and "mx \<le> age (w_tree w)"
  shows "\<exists>w'. updateBiology cfg fc dt w = Some w' \<and> health (w_tree w') = 0
     \<and> deathCause (w_tree w') = Some ''Old age'' \<and> w_prng w' = w_prng w
     \<and> (\<forall>p. updateBiology cfg fc dt (w\<lparr>w_prng := p\<rparr>) = Some (w'\<lparr>w_prng := p\<rparr>))"
proof -
  define env1 where "env1 = updateEnvironmentTime dt (w_environment w)"
  define t1 where "t1 = (w_tree w)\<lparr>health := 0, deathCause := Some ''Old age''\<rparr>"
  define w' where "w' = w\<lparr>w_environment := env1, w_prng := w_prng w,
                          w_tree := updateLeafDrops dt (windSpeed env1) t1\<rparr>"
  have mr: "maxAgeReached m (age (w_tree w))" using assms(4,5) by (simp add: maxAgeReached_def)
  have am: "applyMortalityModel cfg env1 dt (w_tree w, p) = (t1, p)" for p
    unfolding t1_def by (rule applyMortalityModel_old_age [OF assms(1,2,3) mr])
  have eq: "updateBiology cfg fc dt (w\<lparr>w_prng := p\<rparr>) = Some (w'\<lparr>w_prng := p\<rparr>)" for p
  proof -
    have alive: "0 < health (w_tree (w\<lparr>w_prng := p\<rparr>))" using assms(1) by simp
    have k: "health (fst (applyMortalityModel cfg
                (updateEnvironmentTime dt (w_environment (w\<lparr>w_prng := p\<rparr>))) dt
                (w_tree (w\<lparr>w_prng := p\<rparr>), w_prng (w\<lparr>w_prng := p\<rparr>)))) \<le> 0"
      by (simp add: env1_def [symmetric] am) (simp add: t1_def)
    show ?thesis
      unfolding updateBiology_killed [OF alive k]
      by (simp add: env1_def [symmetric] am w'_def)
  qed
  have e0: "updateBiology cfg fc dt w = Some w'" using eq [of "w_prng w"] by (simp add: w'_def)
  have s: "sameBiology t1 (updateLeafDrops dt (windSpeed env1) t1)" by (rule updateLeafDrops_same)
  have h: "health (w_tree w') = 0" using s by (simp add: w'_def sameBiology_def t1_def)
  have d: "deathCause (w_tree w') = Some ''Old age''" using s by (simp add: w'_def sameBiology_def t1_def)
  have p: "w_prng w' = w_prng w" by (simp add: w'_def)
  have a: "\<forall>p. updateBiology cfg fc dt (w\<lparr>w_prng := p\<rparr>) = Some (w'\<lparr>w_prng := p\<rparr>)"
    by (rule allI) (rule eq)
  show ?thesis by (rule exI [of _ w'], rule conjI [OF e0 conjI [OF h conjI [OF d conjI [OF p a]]]])
qed

theorem C2_old_age_is_deterministic_witness:
  "0 < health (w_tree (agedWorld exampleConfig 12345 (mortalTree exampleConfig)))
   \<and> mortality (w_tree (agedWorld exampleConfig 12345 (mortalTree exampleConfig)))
       = Some (enabledMortality exampleConfig)
   \<and> enabled (enabledMortality exampleConfig)
   \<and> maxAge (enabledMortality exampleConfig) = Some 600
   \<and> (600::real) \<le> age (w_tree (agedWorld exampleConfig 12345 (mortalTree exampleConfig)))
   \<and> (\<exists>w'. updateBiology exampleConfig 0 (1 / 60)
              (agedWorld exampleConfig 12345 (mortalTree exampleConfig)) = Some w'
         \<and> health (w_tree w') = 0 \<and> deathCause (w_tree w') = Some ''Old age''
         \<and> w_prng w' = w_prng (agedWorld exampleConfig 12345 (mortalTree exampleConfig))
         \<and> (\<forall>p. updateBiology exampleConfig 0 (1 / 60)
                   ((agedWorld exampleConfig 12345 (mortalTree exampleConfig))\<lparr>w_prng := p\<rparr>)
                 = Some (w'\<lparr>w_prng := p\<rparr>)))"
proof -
  have h1: "0 < health (w_tree (agedWorld exampleConfig 12345 (mortalTree exampleConfig)))"
    by (simp add: agedWorld_def mortalTree_def tree0_def)
  have h2: "mortality (w_tree (agedWorld exampleConfig 12345 (mortalTree exampleConfig)))
       = Some (enabledMortality exampleConfig)"
    by (simp add: agedWorld_def mortalTree_def)
  have h3: "enabled (enabledMortality exampleConfig)" by (simp add: enabledMortality_def)
  have h4: "maxAge (enabledMortality exampleConfig) = Some 600"
    by (simp add: enabledMortality_def mortality0_def exampleConfig_def CONFIG_def)
  have h5: "(600::real) \<le> age (w_tree (agedWorld exampleConfig 12345 (mortalTree exampleConfig)))"
    by (simp add: agedWorld_def exampleConfig_def CONFIG_def)
  note t = C2_old_age_is_deterministic [OF h1 h2 h3 h4 h5, of exampleConfig 0 "1 / 60"]
  show ?thesis by (rule conjI [OF h1 conjI [OF h2 conjI [OF h3 conjI [OF h4 conjI [OF h5 t]]]]])
qed

section \<open>Scheduler: rounding of the accumulator and partitions of the elapsed time\<close>

lemma roundTiesToEven_err: "\<bar>real_of_int (roundTiesToEven y) - y\<bar> \<le> 1 / 2"
  unfolding roundTiesToEven_def Let_def by (auto simp add: abs_if) linarith+

lemma roundTiesToEven_nonneg: "0 \<le> y \<Longrightarrow> 0 \<le> roundTiesToEven y"
  unfolding roundTiesToEven_def Let_def by (auto simp add: le_floor_iff) 

lemma ulp_pos: "0 < ulp x"
  by (simp add: ulp_def)

lemma two_powr_floor_log: 
  assumes "x \<noteq> 0" shows "2 powr real_of_int \<lfloor>log 2 \<bar>x\<bar>\<rfloor> \<le> \<bar>x\<bar>"
proof -
  have "real_of_int \<lfloor>log 2 \<bar>x\<bar>\<rfloor> \<le> log 2 \<bar>x\<bar>" by simp
  then have "2 powr real_of_int \<lfloor>log 2 \<bar>x\<bar>\<rfloor> \<le> 2 powr (log 2 \<bar>x\<bar>)"
    by (simp only: powr_le_cancel_iff [of 2]) 
  also have "\<dots> = \<bar>x\<bar>" using assms by simp
  finally show ?thesis .
qed

lemma ulp_le:
  assumes "x \<noteq> 0" and "\<bar>x\<bar> \<le> B" and "1 / 16 \<le> B"
  shows "ulp x \<le> B / 2 ^ 52"
proof -
  have m: "(2::real) powr (- 52) = 1 / 2 ^ 52" by (simp add: powr_minus_divide)
  show ?thesis
  proof (cases "- 1022 \<le> \<lfloor>log 2 \<bar>x\<bar>\<rfloor>")
    case True
    then have "max \<lfloor>log 2 \<bar>x\<bar>\<rfloor> (- 1022) = \<lfloor>log 2 \<bar>x\<bar>\<rfloor>" by (rule max_absorb1)
    then have "ulp x = 2 powr (real_of_int \<lfloor>log 2 \<bar>x\<bar>\<rfloor> - 52)" by (simp only: ulp_def)
    also have "\<dots> = 2 powr real_of_int \<lfloor>log 2 \<bar>x\<bar>\<rfloor> * 2 powr (- 52)"
      by (simp add: powr_diff powr_minus_divide)
    also have "\<dots> \<le> \<bar>x\<bar> * 2 powr (- 52)"
      using two_powr_floor_log [OF assms(1)] by (intro mult_right_mono) simp_all
    also have "\<dots> \<le> B * 2 powr (- 52)" using assms(2) by (intro mult_right_mono) simp_all
    finally show ?thesis by (simp add: m)
  next
    case False
    then have "\<lfloor>log 2 \<bar>x\<bar>\<rfloor> \<le> - 1022" by linarith
    then have "max \<lfloor>log 2 \<bar>x\<bar>\<rfloor> (- 1022) = - 1022" by (rule max_absorb2)
    then have u: "ulp x = 2 powr (- 1074)" by (simp add: ulp_def)
    have s: "(2::real) powr (- 1022) * 2 powr (- 52) = 2 powr (- 1074)"
      by (simp add: powr_add [symmetric])
    have a: "(2::real) powr (- 1022) \<le> 2 powr (- 4)" by (rule powr_mono) simp_all
    have b: "(2::real) powr (- 4) = 1 / 16" by (simp add: powr_minus_divide)
    have "ulp x = 2 powr (- 1022) * 2 powr (- 52)" unfolding u s ..
    also have "\<dots> \<le> 2 powr (- 4) * 2 powr (- 52)"
      using a by (intro mult_right_mono) simp_all
    also have "\<dots> \<le> B * 2 powr (- 52)"
      unfolding b using assms(3) by (intro mult_right_mono) simp_all
    finally show ?thesis by (simp add: m)
  qed
qed

lemma double_err:
  assumes "\<bar>x\<bar> \<le> B" and "1 / 16 \<le> B"
  shows "\<bar>double x - x\<bar> \<le> B / 2 ^ 53"
proof (cases "x = 0")
  case True
  with assms show ?thesis by (simp add: double_def)
next
  case False
  let ?u = "ulp x"
  have p: "0 < ?u" by (rule ulp_pos)
  have "double x - x = (real_of_int (roundTiesToEven (x / ?u)) - x / ?u) * ?u"
    using False p by (simp add: double_def field_simps)
  then have "\<bar>double x - x\<bar> = \<bar>real_of_int (roundTiesToEven (x / ?u)) - x / ?u\<bar> * ?u"
    using p by (simp add: abs_mult)
  also have "\<dots> \<le> 1 / 2 * ?u"
    using roundTiesToEven_err [of "x / ?u"] p by (intro mult_right_mono) simp_all
  also have "\<dots> \<le> 1 / 2 * (B / 2 ^ 52)"
    using ulp_le [OF False assms] by simp
  finally show ?thesis by simp
qed

lemma double_nonneg: "0 \<le> x \<Longrightarrow> 0 \<le> double x"
  using ulp_pos [of x] by (simp add: double_def roundTiesToEven_nonneg)


lemma double_min_100:
  assumes "0 \<le> d"
  shows "\<bar>min (double d) 100 - min d 100\<bar> \<le> 100 / 2 ^ 53 \<and> 0 \<le> min (double d) 100
         \<and> min (double d) 100 \<le> 100"
proof (cases "d \<le> 100")
  case True
  with assms have "\<bar>d\<bar> \<le> 100" by simp
  from double_err [OF this] have e: "\<bar>double d - d\<bar> \<le> 100 / 2 ^ 53" by simp
  have m2: "min d 100 = d" using True by simp
  note nn = double_nonneg [OF assms]
  show ?thesis
  proof (cases "double d \<le> 100")
    case T2: True
    then have m1: "min (double d) 100 = double d" by simp
    show ?thesis unfolding m1 m2 by (rule conjI [OF e conjI [OF nn T2]])
  next
    case F2: False
    then have m1: "min (double d) 100 = 100" by simp
    have "\<bar>100 - d\<bar> \<le> \<bar>double d - d\<bar>" using True F2 by linarith
    then have a: "\<bar>100 - d\<bar> \<le> 100 / 2 ^ 53" using e by (rule order_trans)
    show ?thesis unfolding m1 m2 using a by simp
  qed
next
  case False
  then have d: "100 < d" by simp
  then have m2: "min d 100 = 100" by simp
  define u where "u = (1::real) / 2 ^ 53"
  have u: "0 < u" "u < 1" by (simp_all add: u_def)
  from d have "\<bar>d\<bar> \<le> d" "1 / 16 \<le> d" by simp_all
  from double_err [OF this] have "\<bar>double d - d\<bar> \<le> d * u" by (simp add: u_def)
  then have "- (d * u) \<le> double d - d" by linarith
  then have "d * (1 - u) \<le> double d" by (simp add: algebra_simps)
  moreover have "100 * (1 - u) \<le> d * (1 - u)" using d u by (intro mult_right_mono) simp_all
  ultimately have l: "100 - 100 * u \<le> double d" by (simp add: algebra_simps)
  show ?thesis
  proof (cases "double d \<le> 100")
    case T2: True
    then have m1: "min (double d) 100 = double d" by simp
    have "\<bar>double d - 100\<bar> \<le> 100 * u" using l T2 by linarith
    then have a: "\<bar>double d - 100\<bar> \<le> 100 / 2 ^ 53" by (simp add: u_def)
    note nn = double_nonneg [OF assms]
    show ?thesis unfolding m1 m2 by (rule conjI [OF a conjI [OF nn T2]])
  next
    case F2: False
    then have m1: "min (double d) 100 = 100" by simp
    show ?thesis unfolding m1 m2 by simp
  qed
qed

lemma err_step:
  fixes a' A d e m acc :: real
  assumes "\<bar>a' - (A - d)\<bar> \<le> e" and "\<bar>acc - (a' - m * d)\<bar> \<le> m * e"
  shows "\<bar>acc - (A - (m + 1) * d)\<bar> \<le> (m + 1) * e"
proof -
  have "acc - (A - (m + 1) * d) = (acc - (a' - m * d)) + (a' - (A - d))"
    by (simp add: algebra_simps)
  then have "\<bar>acc - (A - (m + 1) * d)\<bar> \<le> \<bar>acc - (a' - m * d)\<bar> + \<bar>a' - (A - d)\<bar>"
    by (simp only: abs_triangle_ineq)
  also have "\<dots> \<le> m * e + e" using assms by (intro add_mono)
  finally show ?thesis by (simp add: algebra_simps)
qed

lemma substepLoop_bounds:
  "11 / 2 ^ 53 \<le> substepTime st \<Longrightarrow> 0 \<le> physicsAccumulator st \<Longrightarrow>
   physicsAccumulator st \<le> 11 \<Longrightarrow> k \<le> maxSubsteps \<Longrightarrow>
   \<exists>acc n. substepLoop upd st k w
              = (st\<lparr>physicsAccumulator := acc\<rparr>, n, (upd (substepTime st) ^^ (n - k)) w)
     \<and> k \<le> n \<and> n \<le> maxSubsteps \<and> 0 \<le> acc \<and> acc \<le> physicsAccumulator st
     \<and> \<bar>acc - (physicsAccumulator st - real (n - k) * substepTime st)\<bar> \<le> real (n - k) * (11 / 2 ^ 53)
     \<and> (acc < substepTime st \<or> n = maxSubsteps)"
proof (induction upd st k w rule: substepLoop.induct)
  case (1 upd st k w)
  let ?acc = "physicsAccumulator st" and ?dt = "substepTime st"
  show ?case
  proof (cases "?acc \<ge> ?dt \<and> k < maxSubsteps")
    case True
    let ?a = "double (?acc - ?dt)"
    let ?st' = "st\<lparr>physicsAccumulator := ?a\<rparr>"
    from True "1.prems" have r: "\<bar>?acc - ?dt\<bar> \<le> 11" by simp
    from double_err [OF r] have e: "\<bar>?a - (?acc - ?dt)\<bar> \<le> 11 / 2 ^ 53" by simp
    have a0: "0 \<le> ?a" using True by (intro double_nonneg) simp
    define u where "u = (11::real) / 2 ^ 53"
    have a1: "?a \<le> ?acc" using e [folded u_def] "1.prems"(1) [folded u_def] by linarith
    have p1: "11 / 2 ^ 53 \<le> substepTime ?st'" using "1.prems"(1) by simp
    have p2: "0 \<le> physicsAccumulator ?st'" using a0 by simp
    have p3: "physicsAccumulator ?st' \<le> 11" using a1 "1.prems"(3) by simp
    have p4: "k + 1 \<le> maxSubsteps" using True by simp
    from "1.IH" [OF True p1 p2 p3 p4] obtain acc where "\<exists>n. substepLoop upd ?st' (k + 1) (upd ?dt w)
              = (?st'\<lparr>physicsAccumulator := acc\<rparr>, n, (upd (substepTime ?st') ^^ (n - (k + 1))) (upd ?dt w))
         \<and> k + 1 \<le> n \<and> n \<le> maxSubsteps \<and> 0 \<le> acc \<and> acc \<le> physicsAccumulator ?st'
         \<and> \<bar>acc - (physicsAccumulator ?st' - real (n - (k + 1)) * substepTime ?st')\<bar>
              \<le> real (n - (k + 1)) * (11 / 2 ^ 53)
         \<and> (acc < substepTime ?st' \<or> n = maxSubsteps)" ..
    then obtain n where
      c: "substepLoop upd ?st' (k + 1) (upd ?dt w)
              = (?st'\<lparr>physicsAccumulator := acc\<rparr>, n, (upd (substepTime ?st') ^^ (n - (k + 1))) (upd ?dt w))
         \<and> k + 1 \<le> n \<and> n \<le> maxSubsteps \<and> 0 \<le> acc \<and> acc \<le> physicsAccumulator ?st'
         \<and> \<bar>acc - (physicsAccumulator ?st' - real (n - (k + 1)) * substepTime ?st')\<bar>
              \<le> real (n - (k + 1)) * (11 / 2 ^ 53)
         \<and> (acc < substepTime ?st' \<or> n = maxSubsteps)" ..
    note c1 = c [THEN conjunct1, simplified]
    note kn = c [THEN conjunct2, THEN conjunct1]
    note cn = c [THEN conjunct2, THEN conjunct2, THEN conjunct1]
    note c0 = c [THEN conjunct2, THEN conjunct2, THEN conjunct2, THEN conjunct1]
    note ca = c [THEN conjunct2, THEN conjunct2, THEN conjunct2, THEN conjunct2, THEN conjunct1, simplified]
    note c5 = c [THEN conjunct2, THEN conjunct2, THEN conjunct2, THEN conjunct2, THEN conjunct2,
                 THEN conjunct1, simplified]
    note c6 = c [THEN conjunct2, THEN conjunct2, THEN conjunct2, THEN conjunct2, THEN conjunct2,
                 THEN conjunct2, simplified]
    from kn have kn': "k \<le> n" by simp
    from kn have nk: "n - k = Suc (n - (k + 1))" by simp
    have fp: "(upd ?dt ^^ (n - (k + 1))) (upd ?dt w) = (upd ?dt ^^ (n - k)) w"
      unfolding nk by (simp add: funpow_swap1)
    have rk: "real (n - k) = real (n - (k + 1)) + 1" using nk by simp
    have eq: "substepLoop upd st k w = (st\<lparr>physicsAccumulator := acc\<rparr>, n, (upd ?dt ^^ (n - k)) w)"
      using True c1 fp by (subst substepLoop.simps) simp
    have c5': "\<bar>acc - (?a - real (n - (k + 1)) * ?dt)\<bar> \<le> real (n - (k + 1)) * (11 / 2 ^ 53)"
      using c5 by simp
    have er: "\<bar>acc - (?acc - real (n - k) * ?dt)\<bar> \<le> real (n - k) * (11 / 2 ^ 53)"
      unfolding rk by (rule err_step [OF e c5'])
    have ca': "acc \<le> ?acc" using ca a1 by (rule order_trans)
    show ?thesis
      by (rule exI [of _ acc], rule exI [of _ n])
         (rule conjI [OF eq conjI [OF kn' conjI [OF cn conjI [OF c0 conjI [OF ca' conjI [OF er c6]]]]]])
  next
    case False
    have eq0: "substepLoop upd st k w = (st, k, w)"
      by (subst substepLoop.simps) (rule if_not_P [OF False])
    have eq: "substepLoop upd st k w = (st\<lparr>physicsAccumulator := ?acc\<rparr>, k, (upd ?dt ^^ (k - k)) w)"
      unfolding eq0 by simp
    from False "1.prems"(4) have ex: "?acc < ?dt \<or> k = maxSubsteps" by auto
    have er: "\<bar>?acc - (?acc - real (k - k) * ?dt)\<bar> \<le> real (k - k) * (11 / 2 ^ 53)" by simp
    have kk: "k \<le> k" and aa: "?acc \<le> ?acc" by simp_all
    show ?thesis
      by (rule exI [of _ ?acc], rule exI [of _ k])
         (rule conjI [OF eq conjI [OF kk conjI [OF "1.prems"(4) conjI [OF "1.prems"(2)
            conjI [OF aa conjI [OF er ex]]]]]])
  qed
qed


lemma deltaTime_bounds:
  assumes "0 \<le> delta" and "0 \<le> sp" and "sp \<le> 100" and "sp * min delta 100 / 1000 \<le> 9"
  shows "0 \<le> double (double (min (double delta) 100 / 1000) * sp)
       \<and> \<bar>double (double (min (double delta) 100 / 1000) * sp) - sp * min delta 100 / 1000\<bar>
            \<le> 30 / 2 ^ 53"
proof -
  define u where "u = (1::real) / 2 ^ 53"
  define x where "x = min delta 100"
  define b where "b = min (double delta) 100"
  define c where "c = double (b / 1000)"
  define d where "d = double (c * sp)"
  define y where "y = sp * x / 1000"
  have u: "0 < u" "u \<le> 1 / 1000" by (simp_all add: u_def)
  from double_min_100 [OF assms(1)]
  have b: "\<bar>b - x\<bar> \<le> 100 * u" "0 \<le> b" "b \<le> 100" by (simp_all add: b_def x_def u_def)
  have "\<bar>b / 1000\<bar> \<le> 1 / 10" using b by simp
  from double_err [OF this] have c: "\<bar>c - b / 1000\<bar> \<le> u / 10" by (simp add: c_def u_def)
  have c0: "0 \<le> c" unfolding c_def using b by (intro double_nonneg) simp
  have cu: "c \<le> x / 1000 + u / 5" and cl: "x / 1000 - u / 5 \<le> c" using b c by linarith+
  have s5: "u / 5 * sp \<le> 20 * u" using assms(2,3) u by simp
  have "c * sp \<le> (x / 1000 + u / 5) * sp" using cu assms(2) by (rule mult_right_mono)
  also have "\<dots> = y + u / 5 * sp" by (simp add: y_def algebra_simps)
  finally have pu: "c * sp \<le> y + 20 * u" using s5 by linarith
  have "(x / 1000 - u / 5) * sp \<le> c * sp" using cl assms(2) by (rule mult_right_mono)
  moreover have "(x / 1000 - u / 5) * sp = y - u / 5 * sp" by (simp add: y_def algebra_simps)
  ultimately have pl: "y - 20 * u \<le> c * sp" using s5 by linarith
  have y9: "y \<le> 9" using assms(4) by (simp add: y_def x_def)
  have p0: "0 \<le> c * sp" using c0 assms(2) by simp
  have "\<bar>c * sp\<bar> \<le> 10" using p0 pu y9 u by linarith
  from double_err [OF this] have d: "\<bar>d - c * sp\<bar> \<le> 10 * u" by (simp add: d_def u_def)
  have d0: "0 \<le> d" unfolding d_def using p0 by (rule double_nonneg)
  have "\<bar>d - y\<bar> \<le> 30 * u" using d pu pl by linarith
  then have "\<bar>d - y\<bar> \<le> 30 / 2 ^ 53" by (simp add: u_def)
  with d0 show ?thesis unfolding d_def c_def b_def y_def x_def by simp
qed


lemma physicsUpdate_bounds:
  assumes run: "running st" "\<not> paused st"
    and dt: "151 / 2 ^ 53 \<le> substepTime st" "substepTime st \<le> 1"
    and acc: "0 \<le> physicsAccumulator st" "physicsAccumulator st < substepTime st"
    and d: "0 \<le> d" "\<bar>d - y\<bar> \<le> 30 / 2 ^ 53" "y \<le> 9 * substepTime st"
  shows "\<exists>acc' n. physicsUpdate upd d (st, w)
            = (st\<lparr>physicsAccumulator := acc', time := double (time st + d)\<rparr>, n,
               (upd (substepTime st) ^^ n) w)
     \<and> n \<le> maxSubsteps \<and> 0 \<le> acc' \<and> acc' < substepTime st
     \<and> \<bar>acc' - (physicsAccumulator st + y - real n * substepTime st)\<bar> \<le> 151 / 2 ^ 53"
proof -
  define u where "u = (1::real) / 2 ^ 53"
  define a where "a = physicsAccumulator st"
  define h where "h = substepTime st"
  define a1 where "a1 = double (a + d)"
  let ?st1 = "st\<lparr>physicsAccumulator := a1\<rparr>"
  have u: "0 < u" "u \<le> 1 / 1000" by (simp_all add: u_def)
  have h: "151 * u \<le> h" "h \<le> 1" using dt by (simp_all add: h_def u_def)
  have a: "0 \<le> a" "a < h" using acc by (simp_all add: a_def h_def)
  have dy: "\<bar>d - y\<bar> \<le> 30 * u" and y: "y \<le> 9 * h" using d by (simp_all add: u_def h_def)
  have "\<bar>a + d\<bar> \<le> 11" using a h d(1) dy y u by linarith
  from double_err [OF this] have e1: "\<bar>a1 - (a + d)\<bar> \<le> 11 * u" by (simp add: a1_def u_def)
  have a10: "0 \<le> a1" unfolding a1_def using a d(1) by (intro double_nonneg) simp
  have a11: "a1 \<le> 11" using e1 a h dy y u by linarith
  have p1: "11 / 2 ^ 53 \<le> substepTime ?st1" using h u by (simp add: h_def u_def)
  have p2: "0 \<le> physicsAccumulator ?st1" using a10 by simp
  have p3: "physicsAccumulator ?st1 \<le> 11" using a11 by simp
  have p4: "0 \<le> maxSubsteps" by simp
  from substepLoop_bounds [OF p1 p2 p3 p4, of upd w] obtain acc' where
    "\<exists>n. substepLoop upd ?st1 0 w
              = (?st1\<lparr>physicsAccumulator := acc'\<rparr>, n, (upd (substepTime ?st1) ^^ (n - 0)) w)
     \<and> 0 \<le> n \<and> n \<le> maxSubsteps \<and> 0 \<le> acc' \<and> acc' \<le> physicsAccumulator ?st1
     \<and> \<bar>acc' - (physicsAccumulator ?st1 - real (n - 0) * substepTime ?st1)\<bar> \<le> real (n - 0) * (11 / 2 ^ 53)
     \<and> (acc' < substepTime ?st1 \<or> n = maxSubsteps)" ..
  then obtain n where
    c: "substepLoop upd ?st1 0 w
              = (?st1\<lparr>physicsAccumulator := acc'\<rparr>, n, (upd (substepTime ?st1) ^^ (n - 0)) w)
     \<and> 0 \<le> n \<and> n \<le> maxSubsteps \<and> 0 \<le> acc' \<and> acc' \<le> physicsAccumulator ?st1
     \<and> \<bar>acc' - (physicsAccumulator ?st1 - real (n - 0) * substepTime ?st1)\<bar> \<le> real (n - 0) * (11 / 2 ^ 53)
     \<and> (acc' < substepTime ?st1 \<or> n = maxSubsteps)" ..
  note c1 = c [THEN conjunct1]
  note cn = c [THEN conjunct2, THEN conjunct2, THEN conjunct1]
  note c0 = c [THEN conjunct2, THEN conjunct2, THEN conjunct2, THEN conjunct1]
  note c5 = c [THEN conjunct2, THEN conjunct2, THEN conjunct2, THEN conjunct2, THEN conjunct2,
               THEN conjunct1, simplified]
  note c6 = c [THEN conjunct2, THEN conjunct2, THEN conjunct2, THEN conjunct2, THEN conjunct2,
               THEN conjunct2, simplified]
  have n10: "real n \<le> 10" using cn by (simp add: maxSubsteps_def)
  have e2: "\<bar>acc' - (a1 - real n * h)\<bar> \<le> real n * (11 * u)" using c5 by (simp add: h_def u_def)
  have "real n * (11 * u) \<le> 10 * (11 * u)" using n10 u by (intro mult_right_mono) simp_all
  with e2 have e3: "\<bar>acc' - (a1 - real n * h)\<bar> \<le> 110 * u" by linarith
  have er: "\<bar>acc' - (a + y - real n * h)\<bar> \<le> 151 * u" using e3 e1 dy by linarith
  have lt: "acc' < h"
  proof (cases "n = maxSubsteps")
    case True
    then have "real n = 10" by (simp add: maxSubsteps_def)
    with e3 have "acc' \<le> a1 - 10 * h + 110 * u" by (simp add: abs_le_iff) 
    then show ?thesis using e1 a dy y h by linarith
  next
    case False
    with c6 show ?thesis by (simp add: h_def)
  qed
  have eq: "physicsUpdate upd d (st, w)
            = (st\<lparr>physicsAccumulator := acc', time := double (time st + d)\<rparr>, n,
               (upd (substepTime st) ^^ n) w)"
    using run c1 by (simp add: physicsUpdate_def Let_def a1_def a_def del: substepLoop.simps)
  have er': "\<bar>acc' - (physicsAccumulator st + y - real n * substepTime st)\<bar> \<le> 151 / 2 ^ 53"
    using er by (simp add: a_def h_def u_def)
  have lt': "acc' < substepTime st" using lt by (simp add: h_def)
  show ?thesis
    by (rule exI [of _ acc'], rule exI [of _ n])
       (rule conjI [OF eq conjI [OF cn conjI [OF c0 conjI [OF lt' er']]]])
qed


lemma animationLoop_bounds:
  assumes run: "running st" "\<not> paused st"
    and t0: "lastFrameTime st \<noteq> 0" "lastFrameTime st \<le> ts"
    and sp: "0 \<le> sp" "sp \<le> 100"
    and dt: "151 / 2 ^ 53 \<le> substepTime st" "substepTime st \<le> 1"
    and acc: "0 \<le> physicsAccumulator st" "physicsAccumulator st < substepTime st"
    and pace: "sp * min (ts - lastFrameTime st) 100 / 1000 \<le> 9 * substepTime st"
  shows "\<exists>st' n. animationLoop upd ts sp (st, w) = (st', n, (upd (substepTime st) ^^ n) w)
     \<and> running st' \<and> \<not> paused st' \<and> lastFrameTime st' = ts \<and> substepTime st' = substepTime st
     \<and> n \<le> maxSubsteps \<and> 0 \<le> physicsAccumulator st' \<and> physicsAccumulator st' < substepTime st
     \<and> \<bar>physicsAccumulator st'
          - (physicsAccumulator st + sp * min (ts - lastFrameTime st) 100 / 1000
               - real n * substepTime st)\<bar> \<le> 151 / 2 ^ 53"
proof -
  define delta where "delta = ts - lastFrameTime st"
  define b where "b = min (double delta) 100"
  define d where "d = double (double (b / 1000) * sp)"
  define y where "y = sp * min delta 100 / 1000"
  let ?st2 = "st\<lparr>lastFrameTime := ts\<rparr>"
  have delta: "0 \<le> delta" using t0(2) by (simp add: delta_def)
  have y9: "y \<le> 9" using pace dt(2) by (simp add: y_def delta_def)
  from deltaTime_bounds [OF delta sp y9 [unfolded y_def]]
  have d0: "0 \<le> d" and dy: "\<bar>d - y\<bar> \<le> 30 / 2 ^ 53" by (simp_all add: d_def b_def y_def)
  have q1: "running ?st2" "\<not> paused ?st2" using run by simp_all
  have q2: "151 / 2 ^ 53 \<le> substepTime ?st2" "substepTime ?st2 \<le> 1" using dt by simp_all
  have q3: "0 \<le> physicsAccumulator ?st2" "physicsAccumulator ?st2 < substepTime ?st2"
    using acc by simp_all
  have q4: "y \<le> 9 * substepTime ?st2" using pace by (simp add: y_def delta_def)
  from physicsUpdate_bounds [OF q1 q2 q3 d0 dy q4, of upd w] obtain acc' where
    "\<exists>n. physicsUpdate upd d (?st2, w)
            = (?st2\<lparr>physicsAccumulator := acc', time := double (time ?st2 + d)\<rparr>, n,
               (upd (substepTime ?st2) ^^ n) w)
     \<and> n \<le> maxSubsteps \<and> 0 \<le> acc' \<and> acc' < substepTime ?st2
     \<and> \<bar>acc' - (physicsAccumulator ?st2 + y - real n * substepTime ?st2)\<bar> \<le> 151 / 2 ^ 53" ..
  then obtain n where
    c: "physicsUpdate upd d (?st2, w)
            = (?st2\<lparr>physicsAccumulator := acc', time := double (time ?st2 + d)\<rparr>, n,
               (upd (substepTime ?st2) ^^ n) w)
     \<and> n \<le> maxSubsteps \<and> 0 \<le> acc' \<and> acc' < substepTime ?st2
     \<and> \<bar>acc' - (physicsAccumulator ?st2 + y - real n * substepTime ?st2)\<bar> \<le> 151 / 2 ^ 53" ..
  note c1 = c [THEN conjunct1]
  note cn = c [THEN conjunct2, THEN conjunct1]
  note c0 = c [THEN conjunct2, THEN conjunct2, THEN conjunct1]
  note cl = c [THEN conjunct2, THEN conjunct2, THEN conjunct2, THEN conjunct1, simplified]
  note ce = c [THEN conjunct2, THEN conjunct2, THEN conjunct2, THEN conjunct2, simplified]
  define st4 where "st4 = st\<lparr>lastFrameTime := ts, physicsAccumulator := acc',
                               time := double (time st + d), frameCount := frameCount st + 1\<rparr>"
  define st5 where "st5 = (if js_rem (frameCount st4) 30 = 0
                           then st4\<lparr>fps := real_of_int
                                    \<lfloor>double (1000 / js_or b (double 16.67)) + 1 / 2\<rfloor>\<rparr>
                           else st4)"
  have eq: "animationLoop upd ts sp (st, w) = (st5, n, (upd (substepTime st) ^^ n) w)"
    using t0(1) c1
    by (simp add: animationLoop_def Let_def st5_def st4_def b_def d_def delta_def
             del: substepLoop.simps)
  have f1: "running st5" and f2: "\<not> paused st5" and f3: "lastFrameTime st5 = ts"
    and f4: "substepTime st5 = substepTime st" and f5: "physicsAccumulator st5 = acc'"
    using run by (simp_all add: st5_def st4_def)
  have g0: "0 \<le> physicsAccumulator st5" unfolding f5 by (rule c0)
  have g1: "physicsAccumulator st5 < substepTime st" unfolding f5 by (rule cl)
  have g2: "\<bar>physicsAccumulator st5
          - (physicsAccumulator st + sp * min (ts - lastFrameTime st) 100 / 1000
               - real n * substepTime st)\<bar> \<le> 151 / 2 ^ 53"
    unfolding f5 using ce by (simp add: y_def delta_def)
  show ?thesis
    by (rule exI [of _ st5], rule exI [of _ n])
       (rule conjI [OF eq conjI [OF f1 conjI [OF f2 conjI [OF f3 conjI [OF f4
          conjI [OF cn conjI [OF g0 conjI [OF g1 g2]]]]]]]])
qed


lemma err_add:
  fixes a a1 a2 p q m1 m2 h E L :: real
  assumes "\<bar>a1 - (a + p - m1 * h)\<bar> \<le> E" and "\<bar>a2 - (a1 + q - m2 * h)\<bar> \<le> L * E"
  shows "\<bar>a2 - (a + (p + q) - (m1 + m2) * h)\<bar> \<le> (L + 1) * E"
proof -
  have "a2 - (a + (p + q) - (m1 + m2) * h) = (a2 - (a1 + q - m2 * h)) + (a1 - (a + p - m1 * h))"
    by (simp add: algebra_simps)
  then have "\<bar>a2 - (a + (p + q) - (m1 + m2) * h)\<bar>
               \<le> \<bar>a2 - (a1 + q - m2 * h)\<bar> + \<bar>a1 - (a + p - m1 * h)\<bar>"
    by (simp only: abs_triangle_ineq)
  also have "\<dots> \<le> L * E + E" using assms by (intro add_mono)
  finally show ?thesis by (simp add: algebra_simps)
qed

lemma runFrames_bounds:
  "running st \<Longrightarrow> \<not> paused st \<Longrightarrow> 0 < lastFrameTime st \<Longrightarrow> 0 \<le> sp \<Longrightarrow> sp \<le> 100 \<Longrightarrow>
   151 / 2 ^ 53 \<le> substepTime st \<Longrightarrow> substepTime st \<le> 1 \<Longrightarrow>
   0 \<le> physicsAccumulator st \<Longrightarrow> physicsAccumulator st < substepTime st \<Longrightarrow>
   paced sp (substepTime st) (lastFrameTime st) ts \<Longrightarrow>
   \<exists>st' n. runFrames upd sp ts (st, w) = (st', n, (upd (substepTime st) ^^ n) w)
     \<and> running st' \<and> \<not> paused st' \<and> lastFrameTime st' = last (lastFrameTime st # ts)
     \<and> substepTime st' = substepTime st
     \<and> n \<le> maxSubsteps * length ts
     \<and> 0 \<le> physicsAccumulator st' \<and> physicsAccumulator st' < substepTime st
     \<and> \<bar>physicsAccumulator st'
          - (physicsAccumulator st + sp * elapsed (lastFrameTime st) ts / 1000
               - real n * substepTime st)\<bar> \<le> real (length ts) * (151 / 2 ^ 53)"
proof (induction ts arbitrary: st w)
  case Nil
  have eq: "runFrames upd sp [] (st, w) = (st, 0, (upd (substepTime st) ^^ 0) w)" by simp
  have l: "lastFrameTime st = last (lastFrameTime st # [])" by simp
  have n: "(0::nat) \<le> maxSubsteps * length ([]::real list)" by simp
  have e: "\<bar>physicsAccumulator st
          - (physicsAccumulator st + sp * elapsed (lastFrameTime st) [] / 1000
               - real (0::nat) * substepTime st)\<bar> \<le> real (length ([]::real list)) * (151 / 2 ^ 53)"
    by simp
  show ?case
    by (rule exI [of _ st], rule exI [of _ 0])
       (rule conjI [OF eq conjI [OF Nil.prems(1) conjI [OF Nil.prems(2) conjI [OF l conjI [OF refl
          conjI [OF n conjI [OF Nil.prems(8) conjI [OF Nil.prems(9) e]]]]]]]])
next
  case (Cons t ts)
  let ?h = "substepTime st" and ?t0 = "lastFrameTime st"
  from Cons.prems(10) have asc: "?t0 \<le> t"
    and pace: "sp * min (t - ?t0) 100 / 1000 \<le> 9 * ?h" and rest: "paced sp ?h t ts" by simp_all
  from Cons.prems(3) have nz: "?t0 \<noteq> 0" by simp
  from animationLoop_bounds [OF Cons.prems(1,2) nz asc Cons.prems(4-9) pace, of upd w]
  obtain st1 where "\<exists>n. animationLoop upd t sp (st, w) = (st1, n, (upd ?h ^^ n) w)
     \<and> running st1 \<and> \<not> paused st1 \<and> lastFrameTime st1 = t \<and> substepTime st1 = ?h
     \<and> n \<le> maxSubsteps \<and> 0 \<le> physicsAccumulator st1 \<and> physicsAccumulator st1 < ?h
     \<and> \<bar>physicsAccumulator st1
          - (physicsAccumulator st + sp * min (t - ?t0) 100 / 1000 - real n * ?h)\<bar> \<le> 151 / 2 ^ 53" ..
  then obtain n1 where c: "animationLoop upd t sp (st, w) = (st1, n1, (upd ?h ^^ n1) w)
     \<and> running st1 \<and> \<not> paused st1 \<and> lastFrameTime st1 = t \<and> substepTime st1 = ?h
     \<and> n1 \<le> maxSubsteps \<and> 0 \<le> physicsAccumulator st1 \<and> physicsAccumulator st1 < ?h
     \<and> \<bar>physicsAccumulator st1
          - (physicsAccumulator st + sp * min (t - ?t0) 100 / 1000 - real n1 * ?h)\<bar> \<le> 151 / 2 ^ 53" ..
  note c1 = c [THEN conjunct1]
  note c2 = c [THEN conjunct2, THEN conjunct1]
  note c3 = c [THEN conjunct2, THEN conjunct2, THEN conjunct1]
  note c4 = c [THEN conjunct2, THEN conjunct2, THEN conjunct2, THEN conjunct1]
  note c5 = c [THEN conjunct2, THEN conjunct2, THEN conjunct2, THEN conjunct2, THEN conjunct1]
  note c6 = c [THEN conjunct2, THEN conjunct2, THEN conjunct2, THEN conjunct2, THEN conjunct2,
               THEN conjunct1]
  note c7 = c [THEN conjunct2, THEN conjunct2, THEN conjunct2, THEN conjunct2, THEN conjunct2,
               THEN conjunct2, THEN conjunct1]
  note c8 = c [THEN conjunct2, THEN conjunct2, THEN conjunct2, THEN conjunct2, THEN conjunct2,
               THEN conjunct2, THEN conjunct2, THEN conjunct1]
  note c9 = c [THEN conjunct2, THEN conjunct2, THEN conjunct2, THEN conjunct2, THEN conjunct2,
               THEN conjunct2, THEN conjunct2, THEN conjunct2]
  have r3: "0 < lastFrameTime st1" unfolding c4 using Cons.prems(3) asc by linarith
  have r6: "151 / 2 ^ 53 \<le> substepTime st1" and r7: "substepTime st1 \<le> 1"
    unfolding c5 by (rule Cons.prems(6), rule Cons.prems(7))
  have r8: "0 \<le> physicsAccumulator st1" by (rule c7)
  have r9: "physicsAccumulator st1 < substepTime st1" unfolding c5 by (rule c8)
  have r10: "paced sp (substepTime st1) (lastFrameTime st1) ts" unfolding c4 c5 by (rule rest)
  from Cons.IH [OF c2 c3 r3 Cons.prems(4,5) r6 r7 r8 r9 r10, of "(upd ?h ^^ n1) w"]
  obtain st2 where "\<exists>n. runFrames upd sp ts (st1, (upd ?h ^^ n1) w)
        = (st2, n, (upd (substepTime st1) ^^ n) ((upd ?h ^^ n1) w))
     \<and> running st2 \<and> \<not> paused st2 \<and> lastFrameTime st2 = last (lastFrameTime st1 # ts)
     \<and> substepTime st2 = substepTime st1
     \<and> n \<le> maxSubsteps * length ts
     \<and> 0 \<le> physicsAccumulator st2 \<and> physicsAccumulator st2 < substepTime st1
     \<and> \<bar>physicsAccumulator st2
          - (physicsAccumulator st1 + sp * elapsed (lastFrameTime st1) ts / 1000
               - real n * substepTime st1)\<bar> \<le> real (length ts) * (151 / 2 ^ 53)" ..
  then obtain n2 where k: "runFrames upd sp ts (st1, (upd ?h ^^ n1) w)
        = (st2, n2, (upd (substepTime st1) ^^ n2) ((upd ?h ^^ n1) w))
     \<and> running st2 \<and> \<not> paused st2 \<and> lastFrameTime st2 = last (lastFrameTime st1 # ts)
     \<and> substepTime st2 = substepTime st1
     \<and> n2 \<le> maxSubsteps * length ts
     \<and> 0 \<le> physicsAccumulator st2 \<and> physicsAccumulator st2 < substepTime st1
     \<and> \<bar>physicsAccumulator st2
          - (physicsAccumulator st1 + sp * elapsed (lastFrameTime st1) ts / 1000
               - real n2 * substepTime st1)\<bar> \<le> real (length ts) * (151 / 2 ^ 53)" ..
  note k1 = k [THEN conjunct1, unfolded c5]
  note k2 = k [THEN conjunct2, THEN conjunct1]
  note k3 = k [THEN conjunct2, THEN conjunct2, THEN conjunct1]
  note k4 = k [THEN conjunct2, THEN conjunct2, THEN conjunct2, THEN conjunct1, unfolded c4]
  note k5 = k [THEN conjunct2, THEN conjunct2, THEN conjunct2, THEN conjunct2, THEN conjunct1,
               unfolded c5]
  note k6 = k [THEN conjunct2, THEN conjunct2, THEN conjunct2, THEN conjunct2, THEN conjunct2,
               THEN conjunct1]
  note k7 = k [THEN conjunct2, THEN conjunct2, THEN conjunct2, THEN conjunct2, THEN conjunct2,
               THEN conjunct2, THEN conjunct1]
  note k8 = k [THEN conjunct2, THEN conjunct2, THEN conjunct2, THEN conjunct2, THEN conjunct2,
               THEN conjunct2, THEN conjunct2, THEN conjunct1, unfolded c5]
  note k9 = k [THEN conjunct2, THEN conjunct2, THEN conjunct2, THEN conjunct2, THEN conjunct2,
               THEN conjunct2, THEN conjunct2, THEN conjunct2, unfolded c4 c5]
  have fp: "(upd ?h ^^ n2) ((upd ?h ^^ n1) w) = (upd ?h ^^ (n1 + n2)) w"
    unfolding add.commute [of n1 n2] by (simp add: funpow_add)
  have eq: "runFrames upd sp (t # ts) (st, w) = (st2, n1 + n2, (upd ?h ^^ (n1 + n2)) w)"
    by (simp only: runFrames.simps c1 k1 Let_def prod.case fp)
  have l: "lastFrameTime st2 = last (?t0 # t # ts)" unfolding k4 by simp
  have n: "n1 + n2 \<le> maxSubsteps * length (t # ts)" using c6 k6 by simp
  note e0 = err_add [OF c9 k9]
  have e: "\<bar>physicsAccumulator st2
          - (physicsAccumulator st + sp * elapsed ?t0 (t # ts) / 1000
               - real (n1 + n2) * ?h)\<bar> \<le> real (length (t # ts)) * (151 / 2 ^ 53)"
    using e0 by (simp add: algebra_simps add_divide_distrib)
  show ?case
    by (rule exI [of _ st2], rule exI [of _ "n1 + n2"])
       (rule conjI [OF eq conjI [OF k2 conjI [OF k3 conjI [OF l conjI [OF k5
          conjI [OF n conjI [OF k7 conjI [OF k8 e]]]]]]]])
qed


lemma elapsed_uncapped: "uncapped t0 ts \<Longrightarrow> elapsed t0 ts = last (t0 # ts) - t0"
  by (induction ts arbitrary: t0) simp_all

lemma within_one:
  fixes n n' :: nat and h A A' E E' X :: real
  assumes "\<bar>A - (X - real n * h)\<bar> \<le> E" and "\<bar>A' - (X - real n' * h)\<bar> \<le> E'"
    and "0 \<le> A" and "A' < h" and "E + E' \<le> h" and "0 < h"
  shows "n \<le> n' + 1"
proof -
  from assms have "real n * h - real n' * h < 2 * h" by linarith
  then have "(real n - real n') * h < 2 * h" by (simp add: algebra_simps)
  then have "real n - real n' < 2" using assms(6) by simp
  then show ?thesis by linarith
qed

lemma frames_budget:
  assumes "length ts \<le> 2 ^ 34"
  shows "real (length ts) * (151 / 2 ^ 53) \<le> 151 / 2 ^ 19"
proof -
  from assms have "real (length ts) \<le> real (2 ^ 34)" by (simp only: of_nat_le_iff)
  then have "real (length ts) \<le> 2 ^ 34" by simp
  then have "real (length ts) * (151 / 2 ^ 53) \<le> 2 ^ 34 * (151 / 2 ^ 53)"
    by (intro mult_right_mono) simp_all
  then show ?thesis by simp
qed

lemma double_sixtieth:
  "1 / 60 - 1 / 2 ^ 57 \<le> double (1 / 60) \<and> double (1 / 60) \<le> 1 / 60 + 1 / 2 ^ 57"
proof -
  have "\<bar>1 / 60 :: real\<bar> \<le> 1 / 16" by simp
  from double_err [OF this] have "\<bar>double (1 / 60) - 1 / 60\<bar> \<le> 1 / 2 ^ 57" by simp
  then show ?thesis unfolding abs_le_iff by linarith
qed


lemma runFrames_result:
  assumes run: "running st" "\<not> paused st"
    and t0: "0 < lastFrameTime st"
    and sp: "0 \<le> speed" "speed \<le> 100"
    and dt: "1 / 1000 \<le> substepTime st" "substepTime st \<le> 1"
    and acc: "0 \<le> physicsAccumulator st" "physicsAccumulator st < substepTime st"
    and A: "paced speed (substepTime st) (lastFrameTime st) ts"
  shows "snd (snd (runFrames upd speed ts (st, w)))
           = (upd (substepTime st) ^^ fst (snd (runFrames upd speed ts (st, w)))) w
     \<and> fst (snd (runFrames upd speed ts (st, w))) \<le> maxSubsteps * length ts
     \<and> 0 \<le> physicsAccumulator (fst (runFrames upd speed ts (st, w)))
     \<and> physicsAccumulator (fst (runFrames upd speed ts (st, w))) < substepTime st
     \<and> \<bar>physicsAccumulator (fst (runFrames upd speed ts (st, w)))
          - (physicsAccumulator st + speed * elapsed (lastFrameTime st) ts / 1000
               - real (fst (snd (runFrames upd speed ts (st, w)))) * substepTime st)\<bar>
          \<le> real (length ts) * (151 / 2 ^ 53)"
proof -
  have h: "151 / 2 ^ 53 \<le> substepTime st" using dt(1) by simp
  from runFrames_bounds [OF run t0 sp h dt(2) acc A, of upd w]
  obtain st' where "\<exists>n. runFrames upd speed ts (st, w) = (st', n, (upd (substepTime st) ^^ n) w)
     \<and> running st' \<and> \<not> paused st' \<and> lastFrameTime st' = last (lastFrameTime st # ts)
     \<and> substepTime st' = substepTime st
     \<and> n \<le> maxSubsteps * length ts
     \<and> 0 \<le> physicsAccumulator st' \<and> physicsAccumulator st' < substepTime st
     \<and> \<bar>physicsAccumulator st'
          - (physicsAccumulator st + speed * elapsed (lastFrameTime st) ts / 1000
               - real n * substepTime st)\<bar> \<le> real (length ts) * (151 / 2 ^ 53)" ..
  then obtain n where c: "runFrames upd speed ts (st, w) = (st', n, (upd (substepTime st) ^^ n) w)
     \<and> running st' \<and> \<not> paused st' \<and> lastFrameTime st' = last (lastFrameTime st # ts)
     \<and> substepTime st' = substepTime st
     \<and> n \<le> maxSubsteps * length ts
     \<and> 0 \<le> physicsAccumulator st' \<and> physicsAccumulator st' < substepTime st
     \<and> \<bar>physicsAccumulator st'
          - (physicsAccumulator st + speed * elapsed (lastFrameTime st) ts / 1000
               - real n * substepTime st)\<bar> \<le> real (length ts) * (151 / 2 ^ 53)" ..
  note c1 = c [THEN conjunct1]
  note r = c [THEN conjunct2, THEN conjunct2, THEN conjunct2, THEN conjunct2, THEN conjunct2]
  have f: "fst (runFrames upd speed ts (st, w)) = st'"
    and n: "fst (snd (runFrames upd speed ts (st, w))) = n"
    and w: "snd (snd (runFrames upd speed ts (st, w))) = (upd (substepTime st) ^^ n) w"
    unfolding c1 by simp_all
  show ?thesis unfolding f n w by (rule conjI [OF refl r])
qed

subsection \<open>The examples in double arithmetic\<close>

text \<open>
  The doubles that the scheduler computes on the example sequences of frames below, each
  obtained from the binade of its argument.
\<close>

lemma floor_log_eq:
  assumes "2 powr real_of_int e \<le> \<bar>x\<bar>" and "\<bar>x\<bar> < 2 powr (real_of_int e + 1)"
  shows "\<lfloor>log 2 \<bar>x\<bar>\<rfloor> = e"
proof -
  have "0 < (2::real) powr real_of_int e" by simp
  then have p: "0 < \<bar>x\<bar>" using assms(1) by linarith
  have "real_of_int e \<le> log 2 \<bar>x\<bar>"
    using assms(1) p by (simp add: le_log_iff)
  moreover have "log 2 \<bar>x\<bar> < real_of_int e + 1"
    using assms(2) p by (simp add: log_less_iff)
  ultimately show ?thesis by linarith
qed

lemma double_at:
  assumes "2 powr real_of_int e \<le> \<bar>x\<bar>" and "\<bar>x\<bar> < 2 powr (real_of_int e + 1)"
    and "- 1022 \<le> e"
    and "real_of_int (roundTiesToEven (x / 2 powr (real_of_int e - 52))) * 2 powr (real_of_int e - 52) = y"
  shows "double x = y"
proof -
  have "0 < (2::real) powr real_of_int e" by simp
  then have "0 < \<bar>x\<bar>" using assms(1) by linarith
  then have nz: "x \<noteq> 0" by simp
  have m: "max \<lfloor>log 2 \<bar>x\<bar>\<rfloor> (- 1022) = e"
    unfolding floor_log_eq [OF assms(1,2)] using assms(3) by simp
  show ?thesis unfolding double_def ulp_def m using nz assms(4) by simp
qed

lemma double_value_0: "double (3 / 144115188075855872) = 3 / 144115188075855872"
  by (rule double_at [where e = "- 56"]) (simp_all add: roundTiesToEven_def Let_def powr_minus_divide)

lemma double_value_1: "double (1 / 200) = 5764607523034235 / 1152921504606846976"
  by (rule double_at [where e = "- 8"]) (simp_all add: roundTiesToEven_def Let_def powr_minus_divide)

lemma double_value_2: "double (5764607523034235 / 1152921504606846976) = 5764607523034235 / 1152921504606846976"
  by (rule double_at [where e = "- 8"]) (simp_all add: roundTiesToEven_def Let_def powr_minus_divide)

lemma double_value_3: "double (1200959900632133 / 144115188075855872) = 1200959900632133 / 144115188075855872"
  by (rule double_at [where e = "- 7"]) (simp_all add: roundTiesToEven_def Let_def powr_minus_divide)

lemma double_value_4: "double (1681343860884985 / 144115188075855872) = 1681343860884985 / 144115188075855872"
  by (rule double_at [where e = "- 7"]) (simp_all add: roundTiesToEven_def Let_def powr_minus_divide)

lemma double_value_5: "double (4803839602528527 / 288230376151711744) = 4803839602528527 / 288230376151711744"
  by (rule double_at [where e = "- 6"]) (simp_all add: roundTiesToEven_def Let_def powr_minus_divide)

lemma double_value_6: "double (19215358410114115 / 1152921504606846976) = 4803839602528529 / 288230376151711744"
  by (rule double_at [where e = "- 6"]) (simp_all add: roundTiesToEven_def Let_def powr_minus_divide)

lemma double_value_7: "double (1 / 60) = 4803839602528529 / 288230376151711744"
  by (rule double_at [where e = "- 6"]) (simp_all add: roundTiesToEven_def Let_def powr_minus_divide)

lemma double_value_8: "double (4803839602528535 / 288230376151711744) = 4803839602528535 / 288230376151711744"
  by (rule double_at [where e = "- 6"]) (simp_all add: roundTiesToEven_def Let_def powr_minus_divide)

lemma double_value_9: "double (7205759403792795 / 288230376151711744) = 7205759403792795 / 288230376151711744"
  by (rule double_at [where e = "- 6"]) (simp_all add: roundTiesToEven_def Let_def powr_minus_divide)

lemma double_value_10: "double (8166527324298499 / 288230376151711744) = 8166527324298499 / 288230376151711744"
  by (rule double_at [where e = "- 6"]) (simp_all add: roundTiesToEven_def Let_def powr_minus_divide)

lemma double_value_11: "double (9607679205057057 / 288230376151711744) = 300239975158033 / 9007199254740992"
  by (rule double_at [where e = "- 5"]) (simp_all add: roundTiesToEven_def Let_def powr_minus_divide)

lemma double_value_12: "double (9607679205057063 / 288230376151711744) = 1200959900632133 / 36028797018963968"
  by (rule double_at [where e = "- 5"]) (simp_all add: roundTiesToEven_def Let_def powr_minus_divide)

lemma double_value_13: "double (12009599006321323 / 288230376151711744) = 3002399751580331 / 72057594037927936"
  by (rule double_at [where e = "- 5"]) (simp_all add: roundTiesToEven_def Let_def powr_minus_divide)

lemma double_value_14: "double (3242591731706757 / 72057594037927936) = 3242591731706757 / 72057594037927936"
  by (rule double_at [where e = "- 5"]) (simp_all add: roundTiesToEven_def Let_def powr_minus_divide)

lemma double_value_15: "double (9 / 200) = 3242591731706757 / 72057594037927936"
  by (rule double_at [where e = "- 5"]) (simp_all add: roundTiesToEven_def Let_def powr_minus_divide)

lemma double_value_16: "double (57646075230342347 / 1152921504606846976) = 7205759403792793 / 144115188075855872"
  by (rule double_at [where e = "- 5"]) (simp_all add: roundTiesToEven_def Let_def powr_minus_divide)

lemma double_value_17: "double (14411518807585591 / 288230376151711744) = 1801439850948199 / 36028797018963968"
  by (rule double_at [where e = "- 5"]) (simp_all add: roundTiesToEven_def Let_def powr_minus_divide)

lemma double_value_18: "double (16813438608849851 / 288230376151711744) = 4203359652212463 / 72057594037927936"
  by (rule double_at [where e = "- 5"]) (simp_all add: roundTiesToEven_def Let_def powr_minus_divide)

lemma double_value_19: "double (19215358410114119 / 288230376151711744) = 2401919801264265 / 36028797018963968"
  by (rule double_at [where e = "- 4"]) (simp_all add: roundTiesToEven_def Let_def powr_minus_divide)

lemma double_value_20: "double (5404319552844595 / 72057594037927936) = 5404319552844595 / 72057594037927936"
  by (rule double_at [where e = "- 4"]) (simp_all add: roundTiesToEven_def Let_def powr_minus_divide)

lemma double_value_21: "double (3 / 40) = 5404319552844595 / 72057594037927936"
  by (rule double_at [where e = "- 4"]) (simp_all add: roundTiesToEven_def Let_def powr_minus_divide)

lemma double_value_22: "double (12009599006321323 / 144115188075855872) = 3002399751580331 / 36028797018963968"
  by (rule double_at [where e = "- 4"]) (simp_all add: roundTiesToEven_def Let_def powr_minus_divide)

lemma double_value_23: "double (24019198012642647 / 288230376151711744) = 3002399751580331 / 36028797018963968"
  by (rule double_at [where e = "- 4"]) (simp_all add: roundTiesToEven_def Let_def powr_minus_divide)

lemma double_value_24: "double (1 / 10) = 3602879701896397 / 36028797018963968"
  by (rule double_at [where e = "- 4"]) (simp_all add: roundTiesToEven_def Let_def powr_minus_divide)

lemma double_value_25: "double (3602879701896397 / 36028797018963968) = 3602879701896397 / 36028797018963968"
  by (rule double_at [where e = "- 4"]) (simp_all add: roundTiesToEven_def Let_def powr_minus_divide)

lemma double_value_26: "double (5404319552844595 / 36028797018963968) = 5404319552844595 / 36028797018963968"
  by (rule double_at [where e = "- 3"]) (simp_all add: roundTiesToEven_def Let_def powr_minus_divide)

lemma double_value_27: "double 5 = 5"
  by (rule double_at [where e = "2"]) (simp_all add: roundTiesToEven_def Let_def powr_minus_divide)

lemma double_value_28: "double 45 = 45"
  by (rule double_at [where e = "5"]) (simp_all add: roundTiesToEven_def Let_def powr_minus_divide)

lemma double_value_29: "double 75 = 75"
  by (rule double_at [where e = "6"]) (simp_all add: roundTiesToEven_def Let_def powr_minus_divide)

lemma double_value_30: "double 150 = 150"
  by (rule double_at [where e = "7"]) (simp_all add: roundTiesToEven_def Let_def powr_minus_divide)

lemma double_zero: "double 0 = 0"
  by (simp add: double_def)

lemmas double_values =
  double_zero double_value_0 double_value_1 double_value_2 double_value_3 double_value_4
  double_value_5 double_value_6 double_value_7 double_value_8 double_value_9 double_value_10
  double_value_11 double_value_12 double_value_13 double_value_14 double_value_15
  double_value_16 double_value_17 double_value_18 double_value_19 double_value_20
  double_value_21 double_value_22 double_value_23 double_value_24 double_value_25
  double_value_26 double_value_27 double_value_28 double_value_29 double_value_30

lemmas scheduler_defs =
  frameAt_def simulationState0_def animationLoop_def physicsUpdate_def Let_def js_rem_def
  maxSubsteps_def

lemma runFrames_45_then_5:
  "fst (snd (runFrames (\<lambda>dt n. Suc n) 1 [1045, 1050] (frameAt 1000, 0::nat))) = 3"
  by (simp add: scheduler_defs double_values)

lemma runFrames_5_then_45:
  "fst (snd (runFrames (\<lambda>dt n. Suc n) 1 [1005, 1050] (frameAt 1000, 0::nat))) = 2"
  by (simp add: scheduler_defs double_values)

text \<open>
  C7, as the spec states it: draining a total elapsed time \<open>T\<close> gives the same number of
  substeps (within one) however \<open>T\<close> is split across scheduler calls. It fails on the code,
  which counts at most 100 ms for a frame (and runs at most ten substeps in a frame): from a
  frame at 1000 ms, at speed 1 and with the default substep, the 150 ms up to a frame at
  1150 ms run 6 substeps when no frame lies between, and 9 with a frame at 1075 ms.
\<close>

theorem C7_counterexample:
  "last [1000, 1150] = (last [1000, 1075, 1150] :: real)
   \<and> fst (snd (runFrames (\<lambda>dt n. Suc n) 1 [1150] (frameAt 1000, 0::nat))) = 6
   \<and> fst (snd (runFrames (\<lambda>dt n. Suc n) 1 [1075, 1150] (frameAt 1000, 0::nat))) = 9"
  by (simp add: scheduler_defs double_values)

text \<open>
  C7, amended. Take a running scheduler that is not paused, whose last frame was at a
  positive time, with a substep size between 1 ms and 1 s, the accumulator in
  \<open>[0, substepTime)\<close>, and a speed multiplier between 0 and 100 that stays the same. Take two sequences of at most \<open>2^34\<close> frames after the last frame,
  with timestamps that do not decrease and end at the same time, every frame at most 100 ms
  after the one before (so that the cap on \<open>deltaMs\<close> drops no time) and bringing at most nine
  substeps of scaled time (so that no frame reaches the bound of ten substeps). Then, in the
  double arithmetic of the source, the numbers of substeps of the two sequences differ by at
  most one (they need not be equal: 45 ms and then 5 ms run 3 substeps, 5 ms and then 45 ms
  run 2); every substep is invoked with \<open>dt = substepTime\<close>; and the leftover stays in the
  accumulator, which ends in \<open>[0, substepTime)\<close> and is the accumulated scaled time less the
  substeps run, up to the rounding of \<open>151 * 2^-53\<close> a frame.
\<close>

theorem C7_substeps_within_one_of_any_partition:
  assumes "running st" and "\<not> paused st"
    and "0 < lastFrameTime st"
    and "0 \<le> speed" and "speed \<le> 100"
    and "1 / 1000 \<le> substepTime st" and "substepTime st \<le> 1"
    and "0 \<le> physicsAccumulator st" and "physicsAccumulator st < substepTime st"
    and "paced speed (substepTime st) (lastFrameTime st) ts"
    and "uncapped (lastFrameTime st) ts" and "length ts \<le> 2 ^ 34"
    and "paced speed (substepTime st) (lastFrameTime st) ts'"
    and "uncapped (lastFrameTime st) ts'" and "length ts' \<le> 2 ^ 34"
    and "last (lastFrameTime st # ts) = last (lastFrameTime st # ts')"
  shows "fst (snd (runFrames upd speed ts (st, w))) \<le> fst (snd (runFrames upd speed ts' (st, w))) + 1
     \<and> fst (snd (runFrames upd speed ts' (st, w))) \<le> fst (snd (runFrames upd speed ts (st, w))) + 1
     \<and> snd (snd (runFrames upd speed ts (st, w)))
           = (upd (substepTime st) ^^ fst (snd (runFrames upd speed ts (st, w)))) w
     \<and> 0 \<le> physicsAccumulator (fst (runFrames upd speed ts (st, w)))
     \<and> physicsAccumulator (fst (runFrames upd speed ts (st, w))) < substepTime st
     \<and> \<bar>physicsAccumulator (fst (runFrames upd speed ts (st, w)))
          - (physicsAccumulator st
               + speed * (last (lastFrameTime st # ts) - lastFrameTime st) / 1000
               - real (fst (snd (runFrames upd speed ts (st, w)))) * substepTime st)\<bar>
          \<le> real (length ts) * (151 / 2 ^ 53)"
proof -
  define n where "n = fst (snd (runFrames upd speed ts (st, w)))"
  define n' where "n' = fst (snd (runFrames upd speed ts' (st, w)))"
  define x where "x = physicsAccumulator (fst (runFrames upd speed ts (st, w)))"
  define x' where "x' = physicsAccumulator (fst (runFrames upd speed ts' (st, w)))"
  define X where "X = physicsAccumulator st
                        + speed * (last (lastFrameTime st # ts) - lastFrameTime st) / 1000"
  define h where "h = substepTime st"
  note r = runFrames_result [OF assms(1-10), of upd w,
             unfolded elapsed_uncapped [OF assms(11)], folded n_def x_def X_def h_def]
  note r' = runFrames_result [OF assms(1-9) assms(13), of upd w,
             unfolded elapsed_uncapped [OF assms(14)] assms(16) [symmetric],
             folded n'_def x'_def X_def h_def]
  note w = r [THEN conjunct1]
  note x0 = r [THEN conjunct2, THEN conjunct2, THEN conjunct1]
  note xl = r [THEN conjunct2, THEN conjunct2, THEN conjunct2, THEN conjunct1]
  note xe = r [THEN conjunct2, THEN conjunct2, THEN conjunct2, THEN conjunct2]
  note x0' = r' [THEN conjunct2, THEN conjunct2, THEN conjunct1]
  note xl' = r' [THEN conjunct2, THEN conjunct2, THEN conjunct2, THEN conjunct1]
  note xe' = r' [THEN conjunct2, THEN conjunct2, THEN conjunct2, THEN conjunct2]
  have xe1: "\<bar>x - (X - real n * h)\<bar> \<le> 151 / 2 ^ 19"
    using xe frames_budget [OF assms(12)] by linarith
  have xe1': "\<bar>x' - (X - real n' * h)\<bar> \<le> 151 / 2 ^ 19"
    using xe' frames_budget [OF assms(15)] by linarith
  have hp: "0 < h" and b: "151 / 2 ^ 19 + 151 / 2 ^ 19 \<le> h"
    using assms(6) by (simp_all add: h_def)
  note le1 = within_one [OF xe1 xe1' x0 xl' b hp]
  note le2 = within_one [OF xe1' xe1 x0' xl b hp]
  show ?thesis
    unfolding n_def [symmetric] n'_def [symmetric] x_def [symmetric] X_def [symmetric]
      h_def [symmetric]
    by (rule conjI [OF le1 conjI [OF le2 conjI [OF w conjI [OF x0 conjI [OF xl xe]]]]])
qed


theorem C7_substeps_within_one_of_any_partition_witness:
  "running (frameAt 1000)
   \<and> \<not> paused (frameAt 1000)
   \<and> 0 < lastFrameTime (frameAt 1000)
   \<and> (0::real) \<le> 1
   \<and> (1::real) \<le> 100
   \<and> 1 / 1000 \<le> substepTime (frameAt 1000)
   \<and> substepTime (frameAt 1000) \<le> 1
   \<and> 0 \<le> physicsAccumulator (frameAt 1000)
   \<and> physicsAccumulator (frameAt 1000) < substepTime (frameAt 1000)
   \<and> paced 1 (substepTime (frameAt 1000)) (lastFrameTime (frameAt 1000)) [1045, 1050]
   \<and> uncapped (lastFrameTime (frameAt 1000)) [1045, 1050]
   \<and> length [1045, 1050 :: real] \<le> 2 ^ 34
   \<and> paced 1 (substepTime (frameAt 1000)) (lastFrameTime (frameAt 1000)) [1005, 1050]
   \<and> uncapped (lastFrameTime (frameAt 1000)) [1005, 1050]
   \<and> length [1005, 1050 :: real] \<le> 2 ^ 34
   \<and> last (lastFrameTime (frameAt 1000) # [1045, 1050]) = last (lastFrameTime (frameAt 1000) # [1005, 1050])
   \<and> fst (snd (runFrames (\<lambda>dt n. Suc n) 1 [1045, 1050] (frameAt 1000, 0::nat))) \<le> fst (snd (runFrames (\<lambda>dt n. Suc n) 1 [1005, 1050] (frameAt 1000, 0::nat))) + 1
     \<and> fst (snd (runFrames (\<lambda>dt n. Suc n) 1 [1005, 1050] (frameAt 1000, 0::nat))) \<le> fst (snd (runFrames (\<lambda>dt n. Suc n) 1 [1045, 1050] (frameAt 1000, 0::nat))) + 1
     \<and> snd (snd (runFrames (\<lambda>dt n. Suc n) 1 [1045, 1050] (frameAt 1000, 0::nat))) = ((\<lambda>n. Suc n) ^^ fst (snd (runFrames (\<lambda>dt n. Suc n) 1 [1045, 1050] (frameAt 1000, 0::nat)))) 0
     \<and> 0 \<le> physicsAccumulator (fst (runFrames (\<lambda>dt n. Suc n) 1 [1045, 1050] (frameAt 1000, 0::nat)))
     \<and> physicsAccumulator (fst (runFrames (\<lambda>dt n. Suc n) 1 [1045, 1050] (frameAt 1000, 0::nat))) < substepTime (frameAt 1000)
     \<and> \<bar>physicsAccumulator (fst (runFrames (\<lambda>dt n. Suc n) 1 [1045, 1050] (frameAt 1000, 0::nat)))
          - (physicsAccumulator (frameAt 1000)
               + 1 * (last (lastFrameTime (frameAt 1000) # [1045, 1050]) - lastFrameTime (frameAt 1000)) / 1000
               - real (fst (snd (runFrames (\<lambda>dt n. Suc n) 1 [1045, 1050] (frameAt 1000, 0::nat)))) * substepTime (frameAt 1000))\<bar>
          \<le> real (length [1045, 1050 :: real]) * (151 / 2 ^ 53)"
proof -
  let ?st = "frameAt 1000"
  define h where "h = double (1 / 60)"
  have hs: "substepTime ?st = h" by (simp add: frameAt_def simulationState0_def h_def)
  have hb: "1 / 100 \<le> h" "h \<le> 1 / 50"
    using double_sixtieth by (simp_all add: h_def)
  have h1: "running (frameAt 1000)"
    by (simp add: frameAt_def simulationState0_def)
  have h2: "\<not> paused (frameAt 1000)"
    by (simp add: frameAt_def simulationState0_def)
  have h3: "0 < lastFrameTime (frameAt 1000)"
    by (simp add: frameAt_def simulationState0_def)
  have h4: "(0::real) \<le> 1"
    by (simp add: frameAt_def simulationState0_def)
  have h5: "(1::real) \<le> 100"
    by (simp add: frameAt_def simulationState0_def)
  have h6: "1 / 1000 \<le> substepTime (frameAt 1000)"
    unfolding hs using hb by (simp add: frameAt_def simulationState0_def)
  have h7: "substepTime (frameAt 1000) \<le> 1"
    unfolding hs using hb by (simp add: frameAt_def simulationState0_def)
  have h8: "0 \<le> physicsAccumulator (frameAt 1000)"
    by (simp add: frameAt_def simulationState0_def)
  have h9: "physicsAccumulator (frameAt 1000) < substepTime (frameAt 1000)"
    unfolding hs using hb by (simp add: frameAt_def simulationState0_def)
  have h10: "paced 1 (substepTime (frameAt 1000)) (lastFrameTime (frameAt 1000)) [1045, 1050]"
    unfolding hs using hb by (simp add: frameAt_def simulationState0_def)
  have h11: "uncapped (lastFrameTime (frameAt 1000)) [1045, 1050]"
    by (simp add: frameAt_def simulationState0_def)
  have h12: "length [1045, 1050 :: real] \<le> 2 ^ 34"
    by (simp add: frameAt_def simulationState0_def)
  have h13: "paced 1 (substepTime (frameAt 1000)) (lastFrameTime (frameAt 1000)) [1005, 1050]"
    unfolding hs using hb by (simp add: frameAt_def simulationState0_def)
  have h14: "uncapped (lastFrameTime (frameAt 1000)) [1005, 1050]"
    by (simp add: frameAt_def simulationState0_def)
  have h15: "length [1005, 1050 :: real] \<le> 2 ^ 34"
    by (simp add: frameAt_def simulationState0_def)
  have h16: "last (lastFrameTime (frameAt 1000) # [1045, 1050]) = last (lastFrameTime (frameAt 1000) # [1005, 1050])"
    by (simp add: frameAt_def simulationState0_def)
  note t = C7_substeps_within_one_of_any_partition
             [OF h1 h2 h3 h4 h5 h6 h7 h8 h9 h10 h11 h12 h13 h14 h15 h16, of "\<lambda>dt n. Suc n" "0::nat"]
  show ?thesis
    by (rule conjI [OF h1 conjI [OF h2 conjI [OF h3 conjI [OF h4 conjI [OF h5 conjI [OF h6 conjI [OF h7 conjI [OF h8 conjI [OF h9 conjI [OF h10 conjI [OF h11 conjI [OF h12 conjI [OF h13 conjI [OF h14 conjI [OF h15 conjI [OF h16 t]]]]]]]]]]]]]]]])
qed

section \<open>The renderer and the seeded generator\<close>



lemma r3: "random \<lparr>seed = 12345, state = 71072467\<rparr> = (2332836374 / 4294967296, \<lparr>seed = 12345, state = 2332836374\<rparr>)"
  by (simp add: random_def lcg_next_def js_rem_def Let_def)















lemma renderScene_none: "renderScene 0 p = p"
  by (simp add: renderScene_def)

lemma pageRun_without_frames: "pageRun cfg dt (map (Pair 0) fus) w = run cfg dt fus w"
  by (induction fus arbitrary: w) (simp_all add: renderScene_none split: option.split)


end
